theory Spec2Isabelle
  imports
    Complex_Main
    "HOL-Library.Finite_Map"
    "HOL-Library.List_Lexorder"
    "HOL-Library.Char_ord"
    "HOL-Library.Sublist"
begin

section \<open>Exceptions\<close>

text \<open>
  The exception classes of \<^verbatim>\<open>exceptions.py\<close>, together with the three foreign
  classes the code distinguishes: botocore's \<^verbatim>\<open>ClientError\<close>, \<^verbatim>\<open>json.JSONDecodeError\<close>
  and any other \<^verbatim>\<open>Exception\<close> (\<^verbatim>\<open>TypeError\<close>, \<^verbatim>\<open>OSError\<close>, ...).
\<close>

datatype exn_class =
    CostManagementError
  | ValidationError
  | StateError
  | AWSServiceError
  | ThrottlingError
  | PermissionError
  | ResourceNotFoundError
  | DependencyError
  | ConfigurationError
  | ClientError
  | JSONDecodeError
  | OtherException

text \<open>
  \<open>issubclass c d\<close> is Python's \<^verbatim>\<open>issubclass(c, d)\<close> on these classes:
  \<^verbatim>\<open>ThrottlingError\<close>, \<^verbatim>\<open>PermissionError\<close> and \<^verbatim>\<open>ResourceNotFoundError\<close> derive from
  \<^verbatim>\<open>AWSServiceError\<close>, and every class of the repository from \<^verbatim>\<open>CostManagementError\<close>.
\<close>

definition aws_service_errors :: "exn_class list" where
  "aws_service_errors = [AWSServiceError, ThrottlingError, PermissionError, ResourceNotFoundError]"

definition cost_management_errors :: "exn_class list" where
  "cost_management_errors =
     [CostManagementError, ValidationError, StateError, DependencyError, ConfigurationError]
     @ aws_service_errors"

definition issubclass :: "exn_class \<Rightarrow> exn_class \<Rightarrow> bool" where
  "issubclass c d \<longleftrightarrow>
     c = d
     \<or> (d = AWSServiceError \<and> c \<in> set aws_service_errors)
     \<or> (d = CostManagementError \<and> c \<in> set cost_management_errors)"

text \<open>
  An exception value: its class, the text \<^verbatim>\<open>str(e)\<close>, and for a \<^verbatim>\<open>ClientError\<close> the
  \<^verbatim>\<open>Code\<close> and \<^verbatim>\<open>Message\<close> entries of \<^verbatim>\<open>e.response['Error']\<close> when present (for an
  \<^verbatim>\<open>AWSServiceError\<close> the \<^verbatim>\<open>error_code\<close> attribute).
\<close>

datatype exn = Exn (exn_class: exn_class) (exn_str: string)
  (exn_code: "string option") (exn_message: "string option")

definition isinstance :: "exn \<Rightarrow> exn_class \<Rightarrow> bool" where
  "isinstance e c \<longleftrightarrow> issubclass (exn_class e) c"

text \<open>\<^verbatim>\<open>isinstance(e, exceptions)\<close> for a tuple of classes.\<close>

definition isinstance_any :: "exn \<Rightarrow> exn_class list \<Rightarrow> bool" where
  "isinstance_any e cs \<longleftrightarrow> list_ex (isinstance e) cs"


section \<open>The retry wrapper (\<^verbatim>\<open>error_handler.py\<close>)\<close>

text \<open>
  A wrapped operation runs against a world \<open>'w\<close> (the cloud, the clock, ...) and either
  returns a value or raises: \<open>'w \<Rightarrow> (exn + 'a) \<times> 'w\<close>.  The wrapper's own effect,
  \<^verbatim>\<open>time.sleep(delay)\<close>, is recorded as the list of delays slept, in order.
  \<^verbatim>\<open>time.sleep\<close> raises \<^verbatim>\<open>ValueError\<close> for a negative delay; raised inside the
  \<^verbatim>\<open>except\<close> handler, it leaves the wrapper.  Delays are rationals: the products
  \<^verbatim>\<open>delay *= backoff_factor\<close> are taken exactly, as they are in floating point for the
  delays \<open>1.0\<close> and the factor \<open>2.0\<close> of every decorated method of the repository (for
  other floats the source rounds each product).

  \<open>retry_loop\<close> is the body of \<^verbatim>\<open>for attempt in range(max_retries + 1)\<close>, started at
  \<open>attempt\<close> with the loop variables \<open>delay\<close> and \<open>last_exception\<close>; when the range is
  exhausted it is the code after the loop, which raises \<open>last_exception\<close> if there is one
  and otherwise falls off the end of the function (Python's \<^verbatim>\<open>None\<close>, here \<open>Inr None\<close>).
\<close>

type_synonym ('w, 'a) operation = "'w \<Rightarrow> (exn + 'a) \<times> 'w"

definition sleep_error :: exn where
  "sleep_error = Exn OtherException ''sleep length must be non-negative'' None None"

function retry_loop ::
  "int \<Rightarrow> rat \<Rightarrow> exn_class list \<Rightarrow> ('w, 'a) operation \<Rightarrow>
   nat \<Rightarrow> rat \<Rightarrow> exn option \<Rightarrow> rat list \<Rightarrow> 'w \<Rightarrow> ((exn + 'a option) \<times> rat list) \<times> 'w"
where
  "retry_loop max_retries backoff_factor exceptions func attempt delay last_exception slept w =
     (if int attempt < max_retries + 1 then
        (case func w of
           (Inr v, w') \<Rightarrow> ((Inr (Some v), slept), w')
         | (Inl e, w') \<Rightarrow>
             if isinstance_any e exceptions then
               if isinstance e PermissionError then ((Inl e, slept), w')
               else if isinstance e ResourceNotFoundError \<and> attempt > 0 then ((Inl e, slept), w')
               else if int attempt < max_retries then
                 if delay < 0 then ((Inl sleep_error, slept), w')
                 else
                   retry_loop max_retries backoff_factor exceptions func
                     (attempt + 1) (delay * backoff_factor) (Some e) (slept @ [delay]) w'
               else
                 retry_loop max_retries backoff_factor exceptions func
                   (attempt + 1) delay (Some e) slept w'
             else ((Inl e, slept), w'))
      else
        (case last_exception of
           Some e \<Rightarrow> ((Inl e, slept), w)
         | None \<Rightarrow> ((Inr None, slept), w)))"
  by pat_completeness auto
termination
  by (relation "measure (\<lambda>(m, b, x, f, attempt, r). nat (m + 1 - int attempt))") auto

declare retry_loop.simps [simp del]

definition retry_with_backoff ::
  "int \<Rightarrow> rat \<Rightarrow> rat \<Rightarrow> exn_class list \<Rightarrow> ('w, 'a) operation \<Rightarrow>
   'w \<Rightarrow> ((exn + 'a option) \<times> rat list) \<times> 'w"
where
  "retry_with_backoff max_retries initial_delay backoff_factor exceptions func w =
     retry_loop max_retries backoff_factor exceptions func 0 initial_delay None [] w"

text \<open>The decorator's default \<^verbatim>\<open>exceptions=(ThrottlingError, AWSServiceError)\<close>.\<close>

definition default_exceptions :: "exn_class list" where
  "default_exceptions = [ThrottlingError, AWSServiceError]"









definition denied :: exn where
  "denied = Exn PermissionError ''Access denied'' (Some ''AccessDenied'') None"

definition missing :: exn where
  "missing = Exn ResourceNotFoundError ''No such stream'' (Some ''ResourceNotFoundException'') None"

definition unexpected :: exn where
  "unexpected = Exn OtherException ''division by zero'' None None"


section \<open>Python values and JSON documents\<close>

text \<open>
  The values the snapshot store handles are dynamically typed.  \<open>pyval\<close> has the Python
  values that can occur in a resource map or in metadata: \<^verbatim>\<open>None\<close>, booleans, integers,
  floats, strings, lists, tuples, dictionaries with string keys (the source's annotations
  are \<^verbatim>\<open>Dict[str, Any]\<close>), and \<open>PObject\<close> for every other object (a \<^verbatim>\<open>datetime\<close>, a
  \<^verbatim>\<open>set\<close>, ...), of which only the type name is kept.  Dictionaries with keys that are
  not strings are not represented.

  A float is a finite number, an infinity or a NaN.  A finite float is given by the
  rational number it denotes (so \<open>0.0\<close> and \<open>-0.0\<close> are one value, as they are for
  Python's \<^verbatim>\<open>==\<close>).

  A dictionary is a finite map, so two dictionaries are equal exactly when they have the
  same keys with equal values, as in Python; the insertion order of a \<^verbatim>\<open>dict\<close> is not
  represented.
\<close>

datatype pyfloat = Finite rat | PosInf | NegInf | NaN

datatype pyval =
    PNone
  | PBool bool
  | PInt int
  | PFloat pyfloat
  | PStr string
  | PList "pyval list"
  | PTuple "pyval list"
  | PDict "(string, pyval) fmap"
  | PObject string

text \<open>\<^verbatim>\<open>type(v).__name__\<close> and \<^verbatim>\<open>bool(v)\<close>.\<close>

fun py_type_name :: "pyval \<Rightarrow> string" where
  "py_type_name PNone = ''NoneType''"
| "py_type_name (PBool b) = ''bool''"
| "py_type_name (PInt i) = ''int''"
| "py_type_name (PFloat f) = ''float''"
| "py_type_name (PStr s) = ''str''"
| "py_type_name (PList xs) = ''list''"
| "py_type_name (PTuple xs) = ''tuple''"
| "py_type_name (PDict m) = ''dict''"
| "py_type_name (PObject t) = t"

fun py_truthy :: "pyval \<Rightarrow> bool" where
  "py_truthy PNone = False"
| "py_truthy (PBool b) = b"
| "py_truthy (PInt i) = (i \<noteq> 0)"
| "py_truthy (PFloat f) = (f \<noteq> Finite 0)"
| "py_truthy (PStr s) = (s \<noteq> [])"
| "py_truthy (PList xs) = (xs \<noteq> [])"
| "py_truthy (PTuple xs) = (xs \<noteq> [])"
| "py_truthy (PDict m) = (m \<noteq> fmempty)"
| "py_truthy (PObject t) = True"

text \<open>
  A JSON document as it stands in a file: an object is the sequence of its members in
  file order.  \<open>json_serializable\<close> and \<open>to_json\<close> are \<^verbatim>\<open>json.dumps(v, sort_keys=True)\<close>:
  the call raises \<^verbatim>\<open>TypeError\<close> on an object the encoder does not know, writes a tuple
  as an array, writes a float as its shortest \<^verbatim>\<open>repr\<close> or as \<^verbatim>\<open>NaN\<close>, \<^verbatim>\<open>Infinity\<close>,
  \<^verbatim>\<open>-Infinity\<close> (\<^verbatim>\<open>allow_nan\<close> keeps its default), and writes the members of an object
  in key order.  A number of a document is an integer, or a float when it is written with
  a fraction or an exponent or is one of the three constants.  \<open>of_json\<close> is
  \<^verbatim>\<open>json.load\<close>: arrays become lists, a float is read back as the float that was written,
  and a repeated member name keeps its last value.
  The text of the file (indentation, escapes) is not modelled: a file that parses holds
  its document.
\<close>

datatype json =
    JNull
  | JBool bool
  | JInt int
  | JFloat pyfloat
  | JString string
  | JArray "json list"
  | JObject "(string \<times> json) list"

primrec json_serializable :: "pyval \<Rightarrow> bool" where
  "json_serializable PNone = True"
| "json_serializable (PBool b) = True"
| "json_serializable (PInt i) = True"
| "json_serializable (PFloat f) = True"
| "json_serializable (PStr s) = True"
| "json_serializable (PList xs) = list_all json_serializable xs"
| "json_serializable (PTuple xs) = list_all json_serializable xs"
| "json_serializable (PDict m) = fmpred (\<lambda>k b. b) (fmmap json_serializable m)"
| "json_serializable (PObject t) = False"

primrec to_json :: "pyval \<Rightarrow> json" where
  "to_json PNone = JNull"
| "to_json (PBool b) = JBool b"
| "to_json (PInt i) = JInt i"
| "to_json (PFloat f) = JFloat f"
| "to_json (PStr s) = JString s"
| "to_json (PList xs) = JArray (map to_json xs)"
| "to_json (PTuple xs) = JArray (map to_json xs)"
| "to_json (PDict m) = JObject (sorted_list_of_fmap (fmmap to_json m))"
| "to_json (PObject t) = JNull"

primrec first_unserializable :: "pyval \<Rightarrow> string list" where
  "first_unserializable PNone = []"
| "first_unserializable (PBool b) = []"
| "first_unserializable (PInt i) = []"
| "first_unserializable (PFloat f) = []"
| "first_unserializable (PStr s) = []"
| "first_unserializable (PList xs) = concat (map first_unserializable xs)"
| "first_unserializable (PTuple xs) = concat (map first_unserializable xs)"
| "first_unserializable (PDict m) =
     concat (map snd (sorted_list_of_fmap (fmmap first_unserializable m)))"
| "first_unserializable (PObject t) = [t]"

definition json_dumps :: "pyval \<Rightarrow> exn + json" where
  "json_dumps v =
     (if json_serializable v then Inr (to_json v)
      else Inl (Exn OtherException
             (''Object of type ''
              @ (case first_unserializable v of t # ts \<Rightarrow> t | [] \<Rightarrow> ''object'')
              @ '' is not JSON serializable'')
             None None))"

primrec of_json :: "json \<Rightarrow> pyval" where
  "of_json JNull = PNone"
| "of_json (JBool b) = PBool b"
| "of_json (JInt i) = PInt i"
| "of_json (JFloat f) = PFloat f"
| "of_json (JString s) = PStr s"
| "of_json (JArray xs) = PList (map of_json xs)"
| "of_json (JObject kvs) = PDict (fmap_of_list (rev (map (map_prod id of_json) kvs)))"

text \<open>
  The values that a dump and a load give back equal to themselves: no tuple, no foreign
  object and no NaN anywhere inside (a NaN is unequal to every float, itself included).
  \<open>nan_free\<close> asks for the last of the three only.
\<close>

primrec json_native :: "pyval \<Rightarrow> bool" where
  "json_native PNone = True"
| "json_native (PBool b) = True"
| "json_native (PInt i) = True"
| "json_native (PFloat f) = (f \<noteq> NaN)"
| "json_native (PStr s) = True"
| "json_native (PList xs) = list_all json_native xs"
| "json_native (PTuple xs) = False"
| "json_native (PDict m) = fmpred (\<lambda>k b. b) (fmmap json_native m)"
| "json_native (PObject t) = False"

primrec nan_free :: "pyval \<Rightarrow> bool" where
  "nan_free PNone = True"
| "nan_free (PBool b) = True"
| "nan_free (PInt i) = True"
| "nan_free (PFloat f) = (f \<noteq> NaN)"
| "nan_free (PStr s) = True"
| "nan_free (PList xs) = list_all nan_free xs"
| "nan_free (PTuple xs) = list_all nan_free xs"
| "nan_free (PDict m) = fmpred (\<lambda>k b. b) (fmmap nan_free m)"
| "nan_free (PObject t) = True"


text \<open>
  \<^verbatim>\<open>CostManagementError.__str__\<close>: the message, followed by the \<^verbatim>\<open>repr\<close> of the details
  dictionary when it is not empty.  The details used here map strings to strings.
  \<open>py_repr_str\<close> is \<^verbatim>\<open>repr\<close> of a string: single quotes, or double quotes when the
  string has a single quote and no double quote, with the quote and the backslash
  escaped (the escapes of control characters are not modelled).
\<close>

definition py_repr_str :: "string \<Rightarrow> string" where
  "py_repr_str s =
     (let q = (if CHR 0x27 \<in> set s \<and> CHR 0x22 \<notin> set s then CHR 0x22 else CHR 0x27)
      in [q] @ concat (map (\<lambda>c. if c = CHR 0x5C \<or> c = q then [CHR 0x5C, c] else [c]) s) @ [q])"

fun py_repr_items :: "(string \<times> string) list \<Rightarrow> string" where
  "py_repr_items [] = []"
| "py_repr_items [(k, v)] = py_repr_str k @ '': '' @ py_repr_str v"
| "py_repr_items ((k, v) # kvs) = py_repr_str k @ '': '' @ py_repr_str v @ '', '' @ py_repr_items kvs"

definition cost_management_str :: "string \<Rightarrow> (string \<times> string) list \<Rightarrow> string" where
  "cost_management_str message details =
     (if details \<noteq> [] then message @ '' - Details: {'' @ py_repr_items details @ ''}''
      else message)"

definition raise_validation_error :: "string \<Rightarrow> (string \<times> string) list \<Rightarrow> exn" where
  "raise_validation_error message details =
     Exn ValidationError (cost_management_str message details) None None"

definition raise_state_error :: "string \<Rightarrow> (string \<times> string) list \<Rightarrow> exn" where
  "raise_state_error message details =
     Exn StateError (cost_management_str message details) None None"

definition type_error :: "string \<Rightarrow> exn" where
  "type_error message = Exn OtherException message None None"

text \<open>\<^verbatim>\<open>str(n)\<close> for an integer: its decimal digits, with a minus sign when negative.\<close>

fun str_nat :: "nat \<Rightarrow> string" where
  "str_nat n =
     (if n < 10 then [char_of (48 + n)]
      else str_nat (n div 10) @ [char_of (48 + n mod 10)])"

declare str_nat.simps [simp del]

definition str_int :: "int \<Rightarrow> string" where
  "str_int i = (if i < 0 then ''-'' @ str_nat (nat (- i)) else str_nat (nat i))"


section \<open>The snapshot store (\<^verbatim>\<open>state_manager.py\<close>)\<close>

text \<open>
  \<^verbatim>\<open>ResourceState\<close> is a dataclass; \<^verbatim>\<open>from_dict\<close> is \<^verbatim>\<open>cls(**data)\<close> and checks no type, so
  every field holds an arbitrary value.
\<close>

record resource_state =
  version :: pyval
  timestamp :: pyval
  project :: pyval
  environment :: pyval
  resources :: pyval
  metadata :: pyval

definition to_dict :: "resource_state \<Rightarrow> pyval" where
  "to_dict s = PDict (fmap_of_list
     [(''version'', version s), (''timestamp'', timestamp s), (''project'', project s),
      (''environment'', environment s), (''resources'', resources s),
      (''metadata'', metadata s)])"

text \<open>
  \<^verbatim>\<open>cls(**data)\<close>: \<open>data\<close> must be a mapping, every key must name a field, and the five
  fields without a default must be present; \<^verbatim>\<open>metadata\<close> defaults to an empty dictionary.
  The \<^verbatim>\<open>TypeError\<close> texts are those of the generated \<^verbatim>\<open>ResourceState.__init__\<close>; of
  several unexpected keys the first in key order is named (Python names the first in
  insertion order).
\<close>

fun listed_names :: "string list \<Rightarrow> string" where
  "listed_names [] = []"
| "listed_names [a] = ''and '' @ py_repr_str a"
| "listed_names (a # rest) = py_repr_str a @ '', '' @ listed_names rest"

definition quoted_names :: "string list \<Rightarrow> string" where
  "quoted_names names =
     (case names of
        [] \<Rightarrow> []
      | [a] \<Rightarrow> py_repr_str a
      | [a, b] \<Rightarrow> py_repr_str a @ '' and '' @ py_repr_str b
      | other \<Rightarrow> listed_names names)"

definition missing_arguments :: "string list \<Rightarrow> exn" where
  "missing_arguments names =
     type_error (''ResourceState.__init__() missing '' @ str_nat (length names)
                 @ '' required positional argument'' @ (if length names = 1 then [] else ''s'')
                 @ '': '' @ quoted_names names)"

definition state_fields :: "string list" where
  "state_fields = [''version'', ''timestamp'', ''project'', ''environment'', ''resources'', ''metadata'']"

definition required_fields :: "string list" where
  "required_fields = [''version'', ''timestamp'', ''project'', ''environment'', ''resources'']"

definition from_dict :: "pyval \<Rightarrow> exn + resource_state" where
  "from_dict data =
     (case data of
        PDict m \<Rightarrow>
          (case filter (\<lambda>k. k \<notin> set state_fields) (map fst (sorted_list_of_fmap m)) of
             k # ks \<Rightarrow> Inl (type_error (''ResourceState.__init__() got an unexpected keyword argument ''
                                        @ py_repr_str k))
           | [] \<Rightarrow>
              (case (fmlookup m ''version'', fmlookup m ''timestamp'', fmlookup m ''project'',
                     fmlookup m ''environment'', fmlookup m ''resources'') of
                 (Some v, Some t, Some p, Some e, Some r) \<Rightarrow>
                   Inr \<lparr>version = v, timestamp = t, project = p, environment = e, resources = r,
                        metadata = (case fmlookup m ''metadata'' of Some md \<Rightarrow> md
                                    | None \<Rightarrow> PDict fmempty)\<rparr>
               | other \<Rightarrow>
                   Inl (missing_arguments (filter (\<lambda>k. k |\<notin>| fmdom m) required_fields))))
      | other \<Rightarrow> Inl (type_error (''ResourceState() argument after ** must be a mapping, not ''
                                     @ py_type_name other)))"

text \<open>
  A \<^verbatim>\<open>StateManager\<close> instance, and the part of the world it acts on: the state file and
  its \<^verbatim>\<open>.json.backup\<close> sibling (absent, unparseable with the decoder's complaint, or
  holding a document), whether the
  directory can be written, the objects of the backup bucket, the fault (if any) with
  which \<^verbatim>\<open>put_object\<close> fails, the clock as \<^verbatim>\<open>isoformat()\<close> and as
  \<^verbatim>\<open>strftime("%Y%m%d_%H%M%S")\<close> render it, and the WARNING records written to the log.
  Reading an existing file succeeds.
\<close>

record state_manager =
  sm_state_file :: string
  sm_s3_bucket :: "string option"
  sm_s3_prefix :: string
  sm_project_name :: string
  sm_environment :: string
  sm_s3_client :: bool

datatype file_content = Malformed string | Document json

text \<open>
  A log record keeps the literal text of the f-string with \<open>{}\<close> for each interpolated
  value, and the values.
\<close>

datatype log_record = Warning string "pyval list"

record storage =
  state_file :: "file_content option"
  backup_file :: "file_content option"
  writable :: bool
  s3_objects :: "(string \<times> json) list"
  s3_fault :: "exn option"
  now_iso :: string
  now_compact :: string
  log :: "log_record list"

definition STATE_VERSION :: string where
  "STATE_VERSION = ''1.0''"

text \<open>
  \<^verbatim>\<open>field not in state_data\<close> for a string \<open>field\<close>: key membership in a dictionary,
  element membership in a list or tuple, substring in a string, \<^verbatim>\<open>TypeError\<close> otherwise.
\<close>

definition py_contains :: "pyval \<Rightarrow> string \<Rightarrow> exn + bool" where
  "py_contains container field =
     (case container of
        PDict m \<Rightarrow> Inr (field |\<in>| fmdom m)
      | PList xs \<Rightarrow> Inr (PStr field \<in> set xs)
      | PTuple xs \<Rightarrow> Inr (PStr field \<in> set xs)
      | PStr s \<Rightarrow> Inr (sublist field s)
      | other \<Rightarrow> Inl (type_error (''argument of type '' @ py_repr_str (py_type_name other)
                                      @ '' is not iterable'')))"

text \<open>The loop over \<^verbatim>\<open>required_fields\<close> of \<^verbatim>\<open>_validate_state\<close>.\<close>

fun check_required :: "pyval \<Rightarrow> string list \<Rightarrow> exn + unit" where
  "check_required state_data [] = Inr ()"
| "check_required state_data (field # rest) =
     (case py_contains state_data field of
        Inl e \<Rightarrow> Inl e
      | Inr True \<Rightarrow> check_required state_data rest
      | Inr False \<Rightarrow>
          Inl (raise_validation_error (''Missing required field in state: '' @ field)
                 [(''field'', field)]))"

text \<open>
  The loop over \<^verbatim>\<open>state_data['resources'].items()\<close>: the first value that is not a list
  raises.  The items are visited in key order here (Python visits them in insertion
  order, which decides only which of several offending kinds the message names).
\<close>

fun check_resource_lists :: "(string \<times> pyval) list \<Rightarrow> exn + unit" where
  "check_resource_lists [] = Inr ()"
| "check_resource_lists ((resource_type, rs) # rest) =
     (case rs of
        PList xs \<Rightarrow> check_resource_lists rest
      | other \<Rightarrow>
          Inl (raise_validation_error
                 (''Invalid resource list for '' @ resource_type @ '': must be a list'')
                 [(''resource_type'', resource_type), (''type'', py_type_name other)]))"

text \<open>
  \<^verbatim>\<open>_validate_state\<close>: its outcome and the WARNING records it logged, which are written
  before the resources are looked at.  Once the membership loop has passed,
  \<^verbatim>\<open>state_data['version']\<close> on anything but a dictionary is a \<^verbatim>\<open>TypeError\<close> (texts of
  CPython 3.11 and later).
\<close>

definition subscript_error :: "pyval \<Rightarrow> exn" where
  "subscript_error container =
     (case container of
        PStr s \<Rightarrow> type_error (''string indices must be integers, not '' @ py_repr_str ''str'')
      | other \<Rightarrow> type_error (py_type_name other @ '' indices must be integers or slices, not str''))"

definition validate_state :: "pyval \<Rightarrow> (exn + unit) \<times> log_record list" where
  "validate_state state_data =
     (case check_required state_data required_fields of
        Inl e \<Rightarrow> (Inl e, [])
      | Inr u \<Rightarrow>
         (case state_data of
            PDict m \<Rightarrow>
              (case (fmlookup m ''version'', fmlookup m ''resources'') of
                 (Some v, Some r) \<Rightarrow>
                   (let warned =
                      (if v \<noteq> PStr STATE_VERSION
                       then [Warning ''State version mismatch: expected {}, got {}''
                               [PStr STATE_VERSION, v]]
                       else [])
                    in case r of
                         PDict rm \<Rightarrow>
                           (case check_resource_lists (sorted_list_of_fmap rm) of
                              Inl e \<Rightarrow> (Inl e, warned)
                            | Inr u \<Rightarrow> (Inr (), warned))
                       | other \<Rightarrow>
                           (Inl (raise_validation_error
                                  ''Invalid resources structure: must be a dictionary''
                                  [(''type'', py_type_name other)]), warned))
               | other \<Rightarrow> (Inl (Exn OtherException ''KeyError'' None None), []))
          | other \<Rightarrow> (Inl (subscript_error other), [])))"

text \<open>
  \<^verbatim>\<open>Path.with_suffix\<close>: the suffix of a path is the part of its last component from the
  last dot on, when that dot is neither the first nor the last character of the
  component.
\<close>

definition path_suffix :: "string \<Rightarrow> string" where
  "path_suffix path =
     (let name = rev (takeWhile (\<lambda>c. c \<noteq> CHR ''/'') (rev path));
          after = rev (takeWhile (\<lambda>c. c \<noteq> CHR ''.'') (rev name))
      in if CHR ''.'' \<in> set name \<and> after \<noteq> [] \<and> length after + 1 < length name
         then ''.'' @ after else [])"

definition with_suffix :: "string \<Rightarrow> string \<Rightarrow> string" where
  "with_suffix path new_suffix = take (length path - length (path_suffix path)) path @ new_suffix"

text \<open>
  \<^verbatim>\<open>_save_to_file\<close>: an existing state file is renamed to the backup name, then the new
  text is written.  In a directory that cannot be written the first of the two that is
  attempted raises \<^verbatim>\<open>PermissionError\<close>, an \<^verbatim>\<open>OSError\<close>, and nothing changes.
\<close>

definition save_to_file :: "state_manager \<Rightarrow> json \<Rightarrow> (storage, unit) operation" where
  "save_to_file sm state_json w =
     (if state_file w \<noteq> None then
        (if \<not> writable w then
           (Inl (Exn OtherException
                  (''[Errno 13] Permission denied: '' @ py_repr_str (sm_state_file sm) @ '' -> ''
                   @ py_repr_str (with_suffix (sm_state_file sm) ''.json.backup''))
                  None None), w)
         else (Inr (), w\<lparr>backup_file := state_file w, state_file := Some (Document state_json)\<rparr>))
      else
        (if \<not> writable w then
           (Inl (Exn OtherException
                  (''[Errno 13] Permission denied: '' @ py_repr_str (sm_state_file sm))
                  None None), w)
         else (Inr (), w\<lparr>state_file := Some (Document state_json)\<rparr>)))"

text \<open>
  \<^verbatim>\<open>_backup_to_s3\<close>, decorated with \<^verbatim>\<open>@retry_with_backoff(max_retries=2, initial_delay=1.0)\<close>.
  The undecorated body puts the object under the timestamped key; the sleeps of the
  wrapper are not kept in \<open>storage\<close>.
\<close>

definition get_s3_key :: "state_manager \<Rightarrow> string \<Rightarrow> string" where
  "get_s3_key sm ts =
     sm_s3_prefix sm @ ''state_'' @ sm_project_name sm @ ''_'' @ sm_environment sm @ ''_'' @ ts
     @ ''.json''"

definition put_backup :: "state_manager \<Rightarrow> json \<Rightarrow> (storage, unit) operation" where
  "put_backup sm state_json w =
     (case s3_fault w of
        Some e \<Rightarrow> (Inl e, w)
      | None \<Rightarrow> (Inr (), w\<lparr>s3_objects := s3_objects w @ [(get_s3_key sm (now_compact w), state_json)]\<rparr>))"

definition backup_to_s3 :: "state_manager \<Rightarrow> json \<Rightarrow> (storage, unit option) operation" where
  "backup_to_s3 sm state_json w =
     (case retry_with_backoff 2 1 2 default_exceptions (put_backup sm state_json) w of
        ((r, slept), w') \<Rightarrow> (r, w'))"

definition s3_configured :: "state_manager \<Rightarrow> bool" where
  "s3_configured sm \<longleftrightarrow>
     sm_s3_client sm \<and> (case sm_s3_bucket sm of Some b \<Rightarrow> b \<noteq> [] | None \<Rightarrow> False)"

text \<open>
  \<^verbatim>\<open>save_state(resources, metadata)\<close>.  Every exception of the body is re-raised as a
  \<^verbatim>\<open>StateError\<close>; a failed S3 backup is only logged.
\<close>

definition wrap_save_error :: "state_manager \<Rightarrow> exn \<Rightarrow> exn" where
  "wrap_save_error sm e =
     raise_state_error (''Failed to save state: '' @ exn_str e)
       [(''file'', sm_state_file sm), (''error'', exn_str e)]"

definition new_state :: "state_manager \<Rightarrow> storage \<Rightarrow> pyval \<Rightarrow> pyval \<Rightarrow> resource_state" where
  "new_state sm w resources_arg metadata_arg =
     \<lparr>version = PStr STATE_VERSION,
      timestamp = PStr (now_iso w @ ''Z''),
      project = PStr (sm_project_name sm),
      environment = PStr (sm_environment sm),
      resources = resources_arg,
      metadata = (if py_truthy metadata_arg then metadata_arg else PDict fmempty)\<rparr>"

definition save_state :: "state_manager \<Rightarrow> pyval \<Rightarrow> pyval \<Rightarrow> (storage, bool) operation" where
  "save_state sm resources_arg metadata_arg w =
     (let state = new_state sm w resources_arg metadata_arg in
      case validate_state (to_dict state) of
        (Inl e, warned) \<Rightarrow> (Inl (wrap_save_error sm e), w\<lparr>log := log w @ warned\<rparr>)
      | (Inr u, warned) \<Rightarrow>
         (let w0 = w\<lparr>log := log w @ warned\<rparr> in
          case json_dumps (to_dict state) of
            Inl e \<Rightarrow> (Inl (wrap_save_error sm e), w0)
          | Inr state_json \<Rightarrow>
             (case save_to_file sm state_json w0 of
                (Inl e, w1) \<Rightarrow> (Inl (wrap_save_error sm e), w1)
              | (Inr u, w1) \<Rightarrow>
                 (if s3_configured sm then
                    (case backup_to_s3 sm state_json w1 of
                       (Inl e, w2) \<Rightarrow>
                         (Inr True,
                          w2\<lparr>log := log w2 @ [Warning ''S3 backup failed (continuing): {}''
                                                  [PStr (exn_str e)]]\<rparr>)
                     | (Inr u, w2) \<Rightarrow> (Inr True, w2))
                  else (Inr True, w1)))))"

text \<open>
  \<^verbatim>\<open>load_state()\<close>.  A \<^verbatim>\<open>StateError\<close> is re-raised as it is, a \<^verbatim>\<open>JSONDecodeError\<close> and every
  other exception as a new \<^verbatim>\<open>StateError\<close>.
\<close>

definition wrap_load_error :: "state_manager \<Rightarrow> exn \<Rightarrow> exn" where
  "wrap_load_error sm e =
     (if isinstance e StateError then e
      else raise_state_error (''Failed to load state: '' @ exn_str e)
             [(''file'', sm_state_file sm), (''error'', exn_str e)])"

definition load_state :: "state_manager \<Rightarrow> (storage, resource_state) operation" where
  "load_state sm w =
     (case state_file w of
        None \<Rightarrow>
          (Inl (raise_state_error (''State file not found: '' @ sm_state_file sm)
                  [(''file'', sm_state_file sm)]), w)
      | Some (Malformed complaint) \<Rightarrow>
          (Inl (raise_state_error (''Invalid JSON in state file: '' @ complaint)
                  [(''file'', sm_state_file sm), (''error'', complaint)]), w)
      | Some (Document doc) \<Rightarrow>
          (let state_data = of_json doc in
           case validate_state state_data of
             (Inl e, warned) \<Rightarrow> (Inl (wrap_load_error sm e), w\<lparr>log := log w @ warned\<rparr>)
           | (Inr u, warned) \<Rightarrow>
              (let w0 = w\<lparr>log := log w @ warned\<rparr> in
               case from_dict state_data of
                 Inl e \<Rightarrow> (Inl (wrap_load_error sm e), w0)
               | Inr state \<Rightarrow> (Inr state, w0))))"

definition state_exists :: "storage \<Rightarrow> bool" where
  "state_exists w \<longleftrightarrow> state_file w \<noteq> None"

text \<open>
  The shape \<^verbatim>\<open>_validate_state\<close> demands of a resources map: a dictionary whose values are
  all lists.  \<open>save_then_load\<close> is the result of \<^verbatim>\<open>load_state()\<close> called right after
  \<^verbatim>\<open>save_state(R, M)\<close>.
\<close>

fun is_list :: "pyval \<Rightarrow> bool" where
  "is_list (PList xs) = True"
| "is_list other = False"


fun resource_map :: "pyval \<Rightarrow> bool" where
  "resource_map (PDict rm) = fmpred (\<lambda>k. is_list) rm"
| "resource_map other = False"


text \<open>A store with the constructor's defaults and no bucket, on an empty writable disk.\<close>

definition default_store :: state_manager where
  "default_store =
     \<lparr>sm_state_file = ''config/aws-resource-state.json'', sm_s3_bucket = None,
      sm_s3_prefix = ''state-backups/'', sm_project_name = ''user-journey-analytics'',
      sm_environment = ''prod'', sm_s3_client = False\<rparr>"

definition empty_disk :: storage where
  "empty_disk =
     \<lparr>state_file = None, backup_file = None, writable = True, s3_objects = [],
      s3_fault = None, now_iso = ''2025-01-01T00:00:00'', now_compact = ''20250101_000000'',
      log = []\<rparr>"




definition version_2_document :: json where
  "version_2_document = JObject
     [(''environment'', JString ''prod''), (''metadata'', JObject []),
      (''project'', JString ''user-journey-analytics''),
      (''resources'', JObject [(''kinesis_streams'', JArray [])]),
      (''timestamp'', JString ''2025-01-01T00:00:00Z''), (''version'', JString ''2.0'')]"

definition versionless_document :: json where
  "versionless_document = JObject
     [(''environment'', JString ''prod''), (''metadata'', JObject []),
      (''project'', JString ''user-journey-analytics''),
      (''resources'', JObject [(''kinesis_streams'', JArray [])]),
      (''timestamp'', JString ''2025-01-01T00:00:00Z'')]"


section \<open>Service results and the manager contract (\<^verbatim>\<open>service_manager.py\<close>)\<close>

datatype resource_status = RUNNING | STOPPED | STARTING | STOPPING | FAILED | UNKNOWN

text \<open>
  The values of a \<^verbatim>\<open>details\<close> dictionary: integers, booleans, strings and amounts of
  money.  Amounts are rationals: the source computes them in floating point.
\<close>

datatype detail = DInt int | DBool bool | DStr string | DMoney rat

text \<open>
  \<^verbatim>\<open>ServiceResult\<close> and \<^verbatim>\<open>ServiceStatus\<close>.  The \<^verbatim>\<open>timestamp\<close> fields, readings of the clock
  that no code path looks at, are left out, here and in the controller's results.
\<close>

record service_result =
  sr_success :: bool
  sr_operation :: string
  sr_service_type :: string
  sr_resources_affected :: "string list"
  sr_errors :: "string list"
  sr_warnings :: "string list"
  sr_details :: "(string \<times> detail) list"

record service_status =
  ss_service_type :: string
  ss_status :: resource_status
  ss_resources :: "pyval list"
  ss_total_resources :: int
  ss_running_resources :: int
  ss_stopped_resources :: int
  ss_estimated_hourly_cost :: rat
  ss_details :: "(string \<times> detail) list"

text \<open>
  A manager as the controller sees it: the four methods it calls, each run against the
  cloud \<open>'c\<close> and either returning or raising.  The controller always passes the dry-run
  flag explicitly.
\<close>

record 'c service_manager =
  stop :: "bool \<Rightarrow> ('c, service_result) operation"
  start :: "bool \<Rightarrow> ('c, service_result) operation"
  get_status :: "('c, service_status) operation"
  save_configuration :: "('c, pyval) operation"


section \<open>The controller (\<^verbatim>\<open>controller.py\<close>)\<close>

text \<open>
  The world of a controller call is the cloud the managers talk to and the storage of
  the snapshot store.
\<close>

record 'c world =
  cloud :: 'c
  disk :: storage

definition on_cloud :: "('c, 'a) operation \<Rightarrow> ('c world, 'a) operation" where
  "on_cloud f w = (case f (cloud w) of (r, c') \<Rightarrow> (r, w\<lparr>cloud := c'\<rparr>))"

definition on_disk :: "(storage, 'a) operation \<Rightarrow> ('c world, 'a) operation" where
  "on_disk f w = (case f (disk w) of (r, d') \<Rightarrow> (r, w\<lparr>disk := d'\<rparr>))"

record 'c resource_controller =
  dry_run :: bool
  lambda_manager :: "'c service_manager"
  kinesis_manager :: "'c service_manager"
  cloudwatch_manager :: "'c service_manager"
  state_manager :: state_manager

text \<open>
  An entry of \<^verbatim>\<open>service_results\<close>: the manager's result (\<^verbatim>\<open>to_dict()\<close>), or the dictionary
  \<^verbatim>\<open>{'success': False, 'error': str(e)}\<close> written when the manager raised.  The map is
  kept as the list of its items in insertion order.
\<close>

datatype service_entry = Returned service_result | Raised string

record operation_result =
  success :: bool
  operation :: string
  resources_affected :: "string list"
  errors :: "string list"
  warnings :: "string list"
  cost_impact :: rat
  service_results :: "(string \<times> service_entry) list"

text \<open>\<^verbatim>\<open>d[key] = value\<close> on the item list of a dictionary.\<close>

fun dict_set :: "(string \<times> 'v) list \<Rightarrow> string \<Rightarrow> 'v \<Rightarrow> (string \<times> 'v) list" where
  "dict_set [] key v = [(key, v)]"
| "dict_set ((k, x) # kvs) key v = (if k = key then (k, v) # kvs else (k, x) # dict_set kvs key v)"

text \<open>
  \<^verbatim>\<open>Controller.save_state\<close>: the three configurations are collected, each defaulting to
  an empty list when its manager raises (or returns something \<^verbatim>\<open>.get\<close> or \<^verbatim>\<open>len\<close> cannot
  be applied to), and handed to the snapshot store; every failure of the store is
  re-raised as a \<^verbatim>\<open>StateError\<close>.
\<close>

fun has_len :: "pyval \<Rightarrow> bool" where
  "has_len (PStr s) = True"
| "has_len (PList xs) = True"
| "has_len (PTuple xs) = True"
| "has_len (PDict m) = True"
| "has_len other = False"

definition get_list :: "exn + pyval \<Rightarrow> string \<Rightarrow> pyval" where
  "get_list config key =
     (case config of
        Inr (PDict m) \<Rightarrow>
          (let v = (case fmlookup m key of Some x \<Rightarrow> x | None \<Rightarrow> PList [])
           in if has_len v then v else PList [])
      | other \<Rightarrow> PList [])"

definition controller_save_state :: "'c resource_controller \<Rightarrow> ('c world, bool) operation" where
  "controller_save_state c w =
     (case on_cloud (save_configuration (lambda_manager c)) w of (lambda_config, w1) \<Rightarrow>
      case on_cloud (save_configuration (kinesis_manager c)) w1 of (kinesis_config, w2) \<Rightarrow>
      case on_cloud (save_configuration (cloudwatch_manager c)) w2 of (cloudwatch_config, w3) \<Rightarrow>
      let resources_map = PDict (fmap_of_list
            [(''lambda_functions'', get_list lambda_config ''functions''),
             (''kinesis_streams'',
                (case kinesis_config of Inr cfg \<Rightarrow> PList [cfg] | Inl e \<Rightarrow> PList [])),
             (''cloudwatch_alarms'', get_list cloudwatch_config ''alarms'')]);
          metadata_map = PDict (fmap_of_list
            [(''saved_by'', PStr ''ResourceController''), (''operation'', PStr ''save_state'')])
      in case on_disk (save_state (state_manager c) resources_map metadata_map) w3 of
           (Inl e, w4) \<Rightarrow>
             (Inl (raise_state_error (''Failed to save state: '' @ exn_str e)
                     [(''error'', exn_str e)]), w4)
         | (Inr saved, w4) \<Rightarrow> (Inr True, w4))"

text \<open>
  The lists a stop or start accumulates, and one step of it: the block
  \<^verbatim>\<open>try: result = manager.stop(...); ... except Exception as e: ...\<close> that the source
  repeats for each manager, with the key of \<^verbatim>\<open>service_results\<close> and the prefix of the
  error message as parameters.
\<close>

record accumulated =
  acc_resources_affected :: "string list"
  acc_errors :: "string list"
  acc_warnings :: "string list"
  acc_service_results :: "(string \<times> service_entry) list"

definition empty_accumulated :: accumulated where
  "empty_accumulated =
     \<lparr>acc_resources_affected = [], acc_errors = [], acc_warnings = [], acc_service_results = []\<rparr>"

definition manager_step ::
  "string \<Rightarrow> string \<Rightarrow> ('c, service_result) operation \<Rightarrow> accumulated \<Rightarrow> 'c world
   \<Rightarrow> accumulated \<times> 'c world"
where
  "manager_step key failed_prefix call acc w =
     (case on_cloud call w of
        (Inr r, w') \<Rightarrow>
          (\<lparr>acc_resources_affected = acc_resources_affected acc @ sr_resources_affected r,
            acc_errors = acc_errors acc @ sr_errors r,
            acc_warnings = acc_warnings acc @ sr_warnings r,
            acc_service_results = dict_set (acc_service_results acc) key (Returned r)\<rparr>, w')
      | (Inl e, w') \<Rightarrow>
          (acc\<lparr>acc_errors := acc_errors acc @ [failed_prefix @ exn_str e],
               acc_service_results := dict_set (acc_service_results acc) key (Raised (exn_str e))\<rparr>,
           w'))"

text \<open>
  \<^verbatim>\<open>_calculate_cost_savings\<close>: one shard at \$0.015 per hour for 24 hours, nothing for the
  functions, nothing for the alarms.
\<close>

definition calculate_cost_savings :: rat where
  "calculate_cost_savings =
     (let kinesis_savings = 1 * (15 / 1000) * 24;
          lambda_savings = 0;
          cloudwatch_savings = 0
      in kinesis_savings + lambda_savings + cloudwatch_savings)"

text \<open>
  \<^verbatim>\<open>stop_all_resources(dry_run)\<close>.  Every statement that can raise stands in a \<^verbatim>\<open>try\<close> of
  its own, so the handler of the enclosing \<^verbatim>\<open>try\<close> is never entered and the function
  always returns through its main path.
\<close>

definition is_dry_run :: "'c resource_controller \<Rightarrow> bool option \<Rightarrow> bool" where
  "is_dry_run c override = (case override of Some b \<Rightarrow> b | None \<Rightarrow> dry_run c)"

definition finish :: "string \<Rightarrow> rat \<Rightarrow> accumulated \<Rightarrow> operation_result" where
  "finish op savings acc =
     \<lparr>success = (length (acc_errors acc) = 0 \<and> length (acc_resources_affected acc) > 0),
      operation = op,
      resources_affected = acc_resources_affected acc,
      errors = acc_errors acc,
      warnings = acc_warnings acc,
      cost_impact = savings,
      service_results = acc_service_results acc\<rparr>"

definition stop_step1 :: "'c resource_controller \<Rightarrow> bool \<Rightarrow> 'c world \<Rightarrow> accumulated \<times> 'c world" where
  "stop_step1 c dry w =
     (if \<not> dry then
        (case controller_save_state c w of
           (Inr saved, w') \<Rightarrow> (empty_accumulated, w')
         | (Inl e, w') \<Rightarrow>
             (empty_accumulated\<lparr>acc_errors := [''Failed to save state: '' @ exn_str e]\<rparr>, w'))
      else (empty_accumulated, w))"

definition stop_all_resources ::
  "'c resource_controller \<Rightarrow> bool option \<Rightarrow> 'c world \<Rightarrow> operation_result \<times> 'c world"
where
  "stop_all_resources c override w =
     (let dry = is_dry_run c override in
      case stop_step1 c dry w of (acc1, w1) \<Rightarrow>
      case manager_step ''lambda'' ''Lambda stop failed: '' (stop (lambda_manager c) dry) acc1 w1
        of (acc2, w2) \<Rightarrow>
      case manager_step ''kinesis'' ''Kinesis stop failed: '' (stop (kinesis_manager c) dry) acc2 w2
        of (acc3, w3) \<Rightarrow>
      case manager_step ''cloudwatch'' ''CloudWatch stop failed: ''
             (stop (cloudwatch_manager c) dry) acc3 w3
        of (acc4, w4) \<Rightarrow>
      (finish ''stop'' calculate_cost_savings acc4, w4))"

text \<open>
  \<^verbatim>\<open>_verify_resources_operational\<close>: the three statuses are read in one \<^verbatim>\<open>try\<close>; the first
  manager that raises turns the whole answer into one \<^verbatim>\<open>Verification failed\<close> warning.
\<close>

definition verify_resources_operational ::
  "'c resource_controller \<Rightarrow> 'c world \<Rightarrow> string list \<times> 'c world"
where
  "verify_resources_operational c w =
     (case on_cloud (get_status (lambda_manager c)) w of
        (Inl e, w1) \<Rightarrow> ([''Verification failed: '' @ exn_str e], w1)
      | (Inr lambda_status, w1) \<Rightarrow>
     (case on_cloud (get_status (kinesis_manager c)) w1 of
        (Inl e, w2) \<Rightarrow> ([''Verification failed: '' @ exn_str e], w2)
      | (Inr kinesis_status, w2) \<Rightarrow>
     (case on_cloud (get_status (cloudwatch_manager c)) w2 of
        (Inl e, w3) \<Rightarrow> ([''Verification failed: '' @ exn_str e], w3)
      | (Inr cloudwatch_status, w3) \<Rightarrow>
          ((if ss_stopped_resources lambda_status > 0
            then [str_int (ss_stopped_resources lambda_status)
                  @ '' Lambda functions still have concurrency limits'']
            else [])
           @ (if ss_status kinesis_status = STOPPED
              then [''Kinesis stream is still at minimal capacity'']
              else if ss_status kinesis_status = STARTING
              then [''Kinesis stream is still updating (may take a few minutes)'']
              else [])
           @ (if ss_stopped_resources cloudwatch_status > 0
              then [str_int (ss_stopped_resources cloudwatch_status)
                    @ '' CloudWatch alarms are still disabled'']
              else []),
           w3))))"

text \<open>
  \<^verbatim>\<open>start_all_resources(dry_run)\<close>.  Step 1 reads the snapshot only to report on it: a
  missing or unreadable snapshot is a warning.  A start reports no cost impact (the
  field keeps its default \<open>0\<close>).
\<close>

definition start_step1 :: "'c resource_controller \<Rightarrow> bool \<Rightarrow> 'c world \<Rightarrow> accumulated \<times> 'c world" where
  "start_step1 c dry w =
     (if \<not> dry then
        (if \<not> state_exists (disk w) then
           (empty_accumulated
              \<lparr>acc_warnings := [''No saved state found, using default configurations'']\<rparr>, w)
         else
           (case on_disk (load_state (state_manager c)) w of
              (Inr state, w') \<Rightarrow>
                (if has_len (resources state) then (empty_accumulated, w')
                 else (empty_accumulated
                         \<lparr>acc_warnings := [''Failed to load state: object of type ''
                              @ py_repr_str (py_type_name (resources state)) @ '' has no len()'']\<rparr>, w'))
            | (Inl e, w') \<Rightarrow>
                (empty_accumulated\<lparr>acc_warnings := [''Failed to load state: '' @ exn_str e]\<rparr>, w')))
      else (empty_accumulated, w))"

definition start_all_resources ::
  "'c resource_controller \<Rightarrow> bool option \<Rightarrow> 'c world \<Rightarrow> operation_result \<times> 'c world"
where
  "start_all_resources c override w =
     (let dry = is_dry_run c override in
      case start_step1 c dry w of (acc1, w1) \<Rightarrow>
      case manager_step ''cloudwatch'' ''CloudWatch start failed: ''
             (start (cloudwatch_manager c) dry) acc1 w1
        of (acc2, w2) \<Rightarrow>
      case manager_step ''kinesis'' ''Kinesis start failed: '' (start (kinesis_manager c) dry) acc2 w2
        of (acc3, w3) \<Rightarrow>
      case manager_step ''lambda'' ''Lambda start failed: '' (start (lambda_manager c) dry) acc3 w3
        of (acc4, w4) \<Rightarrow>
      (if \<not> dry then
         (case verify_resources_operational c w4 of
            (verification_warnings, w5) \<Rightarrow>
              (finish ''start'' 0 (acc4\<lparr>acc_warnings := acc_warnings acc4 @ verification_warnings\<rparr>),
               w5))
       else (finish ''start'' 0 acc4, w4)))"

text \<open>
  \<^verbatim>\<open>get_resource_status()\<close>.  A manager that raises contributes an error entry and no
  counts.  The report's \<^verbatim>\<open>recommendations\<close>, texts derived from the other fields once the
  overall status is fixed, are not modelled; \<^verbatim>\<open>_generate_recommendations\<close> catches its
  own exceptions, so the call always returns a report.
\<close>

datatype status_entry = Status service_status | StatusError string

record resource_status_report =
  overall_status :: resource_status
  total_resources :: int
  running_resources :: int
  stopped_resources :: int
  estimated_hourly_cost :: rat
  estimated_daily_cost :: rat
  estimated_monthly_cost :: rat
  service_status :: "(string \<times> status_entry) list"

record tally =
  tally_total :: int
  tally_running :: int
  tally_stopped :: int
  tally_hourly_cost :: rat
  tally_service_status :: "(string \<times> status_entry) list"

definition status_step ::
  "string \<Rightarrow> ('c, service_status) operation \<Rightarrow> tally \<Rightarrow> 'c world \<Rightarrow> tally \<times> 'c world"
where
  "status_step key call t w =
     (case on_cloud call w of
        (Inr s, w') \<Rightarrow>
          (\<lparr>tally_total = tally_total t + ss_total_resources s,
            tally_running = tally_running t + ss_running_resources s,
            tally_stopped = tally_stopped t + ss_stopped_resources s,
            tally_hourly_cost = tally_hourly_cost t + ss_estimated_hourly_cost s,
            tally_service_status = dict_set (tally_service_status t) key (Status s)\<rparr>, w')
      | (Inl e, w') \<Rightarrow>
          (t\<lparr>tally_service_status := dict_set (tally_service_status t) key (StatusError (exn_str e))\<rparr>,
           w'))"

definition get_resource_status ::
  "'c resource_controller \<Rightarrow> 'c world \<Rightarrow> resource_status_report \<times> 'c world"
where
  "get_resource_status c w =
     (let t0 = \<lparr>tally_total = 0, tally_running = 0, tally_stopped = 0, tally_hourly_cost = 0,
                tally_service_status = []\<rparr> in
      case status_step ''lambda'' (get_status (lambda_manager c)) t0 w of (t1, w1) \<Rightarrow>
      case status_step ''kinesis'' (get_status (kinesis_manager c)) t1 w1 of (t2, w2) \<Rightarrow>
      case status_step ''cloudwatch'' (get_status (cloudwatch_manager c)) t2 w2 of (t3, w3) \<Rightarrow>
      let daily_cost = tally_hourly_cost t3 * 24;
          monthly_cost = daily_cost * 30;
          overall =
            (if tally_stopped t3 = tally_total t3 \<and> tally_total t3 > 0 then STOPPED
             else if tally_running t3 > 0 then RUNNING
             else UNKNOWN)
      in (\<lparr>overall_status = overall,
           total_resources = tally_total t3,
           running_resources = tally_running t3,
           stopped_resources = tally_stopped t3,
           estimated_hourly_cost = tally_hourly_cost t3,
           estimated_daily_cost = daily_cost,
           estimated_monthly_cost = monthly_cost,
           service_status = tally_service_status t3\<rparr>, w3))"

text \<open>
  The counts a manager's status call contributes to the report: those of the status it
  returns, or nothing when it raises.
\<close>

definition counted :: "(exn + service_status) \<Rightarrow> (service_status \<Rightarrow> int) \<Rightarrow> int" where
  "counted r field = (case r of Inr s \<Rightarrow> field s | Inl e \<Rightarrow> 0)"

text \<open>
  For statements about a stop or a start: the outcomes of the three manager calls it
  makes, in call order, each taken in the world the previous steps left; and what an
  outcome contributes to the aggregate lists; \<open>snapshot_errors\<close> is what step 1 of a stop
  contributes to the errors.
\<close>

definition stop_calls ::
  "'c resource_controller \<Rightarrow> bool option \<Rightarrow> 'c world \<Rightarrow> (exn + service_result) list"
where
  "stop_calls c override w =
     (let dry = is_dry_run c override;
          w1 = snd (stop_step1 c dry w);
          call1 = on_cloud (stop (lambda_manager c) dry) w1;
          call2 = on_cloud (stop (kinesis_manager c) dry) (snd call1);
          call3 = on_cloud (stop (cloudwatch_manager c) dry) (snd call2)
      in [fst call1, fst call2, fst call3])"

definition start_calls ::
  "'c resource_controller \<Rightarrow> bool option \<Rightarrow> 'c world \<Rightarrow> (exn + service_result) list"
where
  "start_calls c override w =
     (let dry = is_dry_run c override;
          w1 = snd (start_step1 c dry w);
          call1 = on_cloud (start (cloudwatch_manager c) dry) w1;
          call2 = on_cloud (start (kinesis_manager c) dry) (snd call1);
          call3 = on_cloud (start (lambda_manager c) dry) (snd call2)
      in [fst call1, fst call2, fst call3])"

definition snapshot_errors :: "'c resource_controller \<Rightarrow> bool option \<Rightarrow> 'c world \<Rightarrow> string list" where
  "snapshot_errors c override w =
     (if is_dry_run c override then []
      else (case fst (controller_save_state c w) of
              Inl e \<Rightarrow> [''Failed to save state: '' @ exn_str e]
            | Inr saved \<Rightarrow> []))"

definition affected_of :: "exn + service_result \<Rightarrow> string list" where
  "affected_of r = (case r of Inr x \<Rightarrow> sr_resources_affected x | Inl e \<Rightarrow> [])"

definition warnings_of :: "exn + service_result \<Rightarrow> string list" where
  "warnings_of r = (case r of Inr x \<Rightarrow> sr_warnings x | Inl e \<Rightarrow> [])"

definition errors_of :: "string \<Rightarrow> exn + service_result \<Rightarrow> string list" where
  "errors_of failed_prefix r =
     (case r of Inr x \<Rightarrow> sr_errors x | Inl e \<Rightarrow> [failed_prefix @ exn_str e])"

text \<open>
  Sample managers over a cloud without state: each method has a fixed outcome.  In
  \<open>sample_controller\<close> the function set and the alarm set stop and start one resource
  each and the stream manager raises; in \<open>healthy_controller\<close> all three succeed.
\<close>

definition fixed_manager ::
  "(exn + service_result) \<Rightarrow> (exn + service_status) \<Rightarrow> unit service_manager" where
  "fixed_manager result status =
     \<lparr>stop = (\<lambda>dry c. (result, c)), start = (\<lambda>dry c. (result, c)),
      get_status = (\<lambda>c. (status, c)),
      save_configuration = (\<lambda>c. (Inr (PDict fmempty), c))\<rparr>"

definition one_resource :: "string \<Rightarrow> string \<Rightarrow> service_result" where
  "one_resource service name =
     \<lparr>sr_success = True, sr_operation = ''stop'', sr_service_type = service,
      sr_resources_affected = [name], sr_errors = [], sr_warnings = [], sr_details = []\<rparr>"

definition counts :: "string \<Rightarrow> resource_status \<Rightarrow> int \<Rightarrow> int \<Rightarrow> int \<Rightarrow> service_status" where
  "counts service st n_total n_running n_stopped =
     \<lparr>ss_service_type = service, ss_status = st, ss_resources = [],
      ss_total_resources = n_total, ss_running_resources = n_running,
      ss_stopped_resources = n_stopped, ss_estimated_hourly_cost = 0, ss_details = []\<rparr>"

definition stream_failure :: exn where
  "stream_failure = Exn AWSServiceError ''Failed to reduce shard count: Rate exceeded'' None None"

definition sample_controller :: "unit resource_controller" where
  "sample_controller =
     \<lparr>dry_run = True,
      lambda_manager = fixed_manager (Inr (one_resource ''lambda'' ''event_processor''))
                         (Inr (counts ''lambda'' STOPPED 2 0 2)),
      kinesis_manager = fixed_manager (Inl stream_failure) (Inl stream_failure),
      cloudwatch_manager = fixed_manager (Inr (one_resource ''cloudwatch'' ''high-error-rate''))
                             (Inr (counts ''cloudwatch'' STOPPED 3 0 3)),
      state_manager = default_store\<rparr>"

definition healthy_controller :: "unit resource_controller" where
  "healthy_controller =
     \<lparr>dry_run = False,
      lambda_manager = fixed_manager (Inr (one_resource ''lambda'' ''event_processor''))
                         (Inr (counts ''lambda'' RUNNING 2 2 0)),
      kinesis_manager = fixed_manager (Inr (one_resource ''kinesis'' ''user-events''))
                          (Inr (counts ''kinesis'' STOPPED 1 0 1)),
      cloudwatch_manager = fixed_manager (Inr (one_resource ''cloudwatch'' ''high-error-rate''))
                             (Inr (counts ''cloudwatch'' STOPPED 3 0 3)),
      state_manager = default_store\<rparr>"

definition read_only_world :: "unit world" where
  "read_only_world = \<lparr>cloud = (), disk = empty_disk\<lparr>writable := False\<rparr>\<rparr>"

definition sample_world :: "unit world" where
  "sample_world = \<lparr>cloud = (), disk = empty_disk\<rparr>"

text \<open>A controller whose managers find nothing to stop: warnings only.\<close>

definition nothing_found :: "string \<Rightarrow> string \<Rightarrow> service_result" where
  "nothing_found service name =
     \<lparr>sr_success = False, sr_operation = ''stop'', sr_service_type = service,
      sr_resources_affected = [], sr_errors = [], sr_warnings = [''Function not found: '' @ name],
      sr_details = []\<rparr>"

definition idle_controller :: "unit resource_controller" where
  "idle_controller =
     \<lparr>dry_run = True,
      lambda_manager = fixed_manager (Inr (nothing_found ''lambda'' ''event_processor''))
                         (Inr (counts ''lambda'' UNKNOWN 2 0 0)),
      kinesis_manager = fixed_manager (Inr (nothing_found ''kinesis'' ''user-events''))
                          (Inr (counts ''kinesis'' UNKNOWN 1 0 0)),
      cloudwatch_manager = fixed_manager (Inr (nothing_found ''cloudwatch'' ''high-error-rate''))
                             (Inr (counts ''cloudwatch'' UNKNOWN 0 0 0)),
      state_manager = default_store\<rparr>"

text \<open>
  A controller whose function set stops one function and reports an error for the
  other, without raising.
\<close>

definition partly_stopped :: service_result where
  "partly_stopped =
     \<lparr>sr_success = False, sr_operation = ''stop'', sr_service_type = ''lambda'',
      sr_resources_affected = [''event_processor''],
      sr_errors = [''intervention-executor: not authorized''],
      sr_warnings = [], sr_details = []\<rparr>"

definition faulty_controller :: "unit resource_controller" where
  "faulty_controller =
     healthy_controller
       \<lparr>dry_run := True,
        lambda_manager := fixed_manager (Inr partly_stopped) (Inr (counts ''lambda'' RUNNING 2 1 1))\<rparr>"


section \<open>The cost model (\<^verbatim>\<open>cost_calculator.py\<close>)\<close>

text \<open>
  Prices and costs are rationals; the source computes them in floating point.  The
  \<^verbatim>\<open>details\<close> dictionaries of the results, which hold rounded copies of the same figures
  for display, and the \<^verbatim>\<open>timestamp\<close> of an estimate are left out.  A Python default
  argument is an argument here: the callers below pass the defaults.
\<close>

definition SHARD_HOUR :: rat where "SHARD_HOUR = 15 / 1000"
definition EXTENDED_RETENTION_HOUR :: rat where "EXTENDED_RETENTION_HOUR = 20 / 1000"
definition PUT_PAYLOAD_UNIT :: rat where "PUT_PAYLOAD_UNIT = 14 / 1000"
definition ENHANCED_FANOUT_HOUR :: rat where "ENHANCED_FANOUT_HOUR = 15 / 1000"
definition LAMBDA_REQUEST :: rat where "LAMBDA_REQUEST = (20 / 100) / 1000000"
definition GB_SECOND :: rat where "GB_SECOND = 166667 / 10000000000"
definition FREE_TIER_REQUESTS :: rat where "FREE_TIER_REQUESTS = 1000000"
definition FREE_TIER_GB_SECONDS :: rat where "FREE_TIER_GB_SECONDS = 400000"
definition ALARM :: rat where "ALARM = 10 / 100"
definition LOG_INGESTION_GB :: rat where "LOG_INGESTION_GB = 50 / 100"
definition LOG_STORAGE_GB :: rat where "LOG_STORAGE_GB = 3 / 100"
definition CUSTOM_METRIC :: rat where "CUSTOM_METRIC = 30 / 100"
definition ML_M5_LARGE_HOUR :: rat where "ML_M5_LARGE_HOUR = 115 / 1000"
definition ML_M5_XLARGE_HOUR :: rat where "ML_M5_XLARGE_HOUR = 23 / 100"
definition ML_T3_MEDIUM_HOUR :: rat where "ML_T3_MEDIUM_HOUR = 5 / 100"

record service_cost =
  service_name :: string
  resource_count :: int
  hourly_cost :: rat
  daily_cost :: rat
  monthly_cost :: rat

record cost_estimate =
  ce_hourly_cost :: rat
  ce_daily_cost :: rat
  ce_monthly_cost :: rat
  service_breakdown :: "service_cost list"
  ce_total_resources :: int
  region :: string

definition calculate_kinesis_cost :: "int \<Rightarrow> int \<Rightarrow> int \<Rightarrow> int \<Rightarrow> service_cost" where
  "calculate_kinesis_cost shard_count retention_hours put_records_per_hour enhanced_fanout_consumers =
     (let hourly_shard_cost = of_int shard_count * SHARD_HOUR;
          extended_retention_cost =
            (if retention_hours > 24
             then of_int shard_count * (of_int (retention_hours - 24) / 24) * EXTENDED_RETENTION_HOUR
             else 0);
          put_payload_units = (of_int put_records_per_hour * 5) / 25;
          put_cost_hourly = (put_payload_units / 1000000) * PUT_PAYLOAD_UNIT;
          enhanced_fanout_cost =
            of_int enhanced_fanout_consumers * of_int shard_count * ENHANCED_FANOUT_HOUR;
          hourly = hourly_shard_cost + extended_retention_cost + put_cost_hourly + enhanced_fanout_cost;
          daily = hourly * 24;
          monthly = daily * 30
      in \<lparr>service_name = ''Kinesis Data Streams'', resource_count = shard_count,
          hourly_cost = hourly, daily_cost = daily, monthly_cost = monthly\<rparr>)"

definition calculate_lambda_cost :: "int \<Rightarrow> int \<Rightarrow> int \<Rightarrow> int \<Rightarrow> int \<Rightarrow> service_cost" where
  "calculate_lambda_cost function_count invocations_per_hour avg_duration_ms avg_memory_mb
       reserved_concurrency =
     (let monthly_invocations = of_int (invocations_per_hour * 24 * 30);
          billable_invocations = max 0 (monthly_invocations - FREE_TIER_REQUESTS);
          request_cost_monthly = billable_invocations * LAMBDA_REQUEST;
          gb_memory = of_int avg_memory_mb / 1024;
          duration_seconds = of_int avg_duration_ms / 1000;
          gb_seconds_per_invocation = gb_memory * duration_seconds;
          monthly_gb_seconds = monthly_invocations * gb_seconds_per_invocation;
          billable_gb_seconds = max 0 (monthly_gb_seconds - FREE_TIER_GB_SECONDS);
          compute_cost_monthly = billable_gb_seconds * GB_SECOND;
          monthly = request_cost_monthly + compute_cost_monthly;
          daily = monthly / 30;
          hourly = daily / 24;
          silenced = (reserved_concurrency = 0 \<and> invocations_per_hour > 0)
      in \<lparr>service_name = ''Lambda'', resource_count = function_count,
          hourly_cost = (if silenced then 0 else hourly),
          daily_cost = (if silenced then 0 else daily),
          monthly_cost = (if silenced then 0 else monthly)\<rparr>)"

definition calculate_cloudwatch_cost :: "int \<Rightarrow> rat \<Rightarrow> rat \<Rightarrow> int \<Rightarrow> bool \<Rightarrow> service_cost" where
  "calculate_cloudwatch_cost alarm_count log_ingestion_gb_per_day log_storage_gb custom_metrics
       alarms_enabled =
     (let alarm_cost_monthly = (if alarms_enabled then of_int alarm_count * ALARM else 0);
          log_ingestion_monthly = log_ingestion_gb_per_day * 30 * LOG_INGESTION_GB;
          log_storage_monthly = log_storage_gb * LOG_STORAGE_GB;
          custom_metrics_monthly = of_int custom_metrics * CUSTOM_METRIC;
          monthly = alarm_cost_monthly + log_ingestion_monthly + log_storage_monthly
                    + custom_metrics_monthly;
          daily = monthly / 30;
          hourly = daily / 24
      in \<lparr>service_name = ''CloudWatch'', resource_count = alarm_count + custom_metrics,
          hourly_cost = hourly, daily_cost = daily, monthly_cost = monthly\<rparr>)"

definition instance_hourly_cost :: "string \<Rightarrow> rat" where
  "instance_hourly_cost instance_type =
     (if instance_type = ''ml.m5.large'' then ML_M5_LARGE_HOUR
      else if instance_type = ''ml.m5.xlarge'' then ML_M5_XLARGE_HOUR
      else if instance_type = ''ml.t3.medium'' then ML_T3_MEDIUM_HOUR
      else ML_M5_LARGE_HOUR)"

definition calculate_sagemaker_cost :: "int \<Rightarrow> string \<Rightarrow> int \<Rightarrow> service_cost" where
  "calculate_sagemaker_cost endpoint_count instance_type instance_count_per_endpoint =
     (let total_instances = endpoint_count * instance_count_per_endpoint;
          hourly = of_int total_instances * instance_hourly_cost instance_type;
          daily = hourly * 24;
          monthly = daily * 30
      in \<lparr>service_name = ''SageMaker'', resource_count = endpoint_count,
          hourly_cost = hourly, daily_cost = daily, monthly_cost = monthly\<rparr>)"

definition calculate_total_cost :: "string \<Rightarrow> service_cost list \<Rightarrow> cost_estimate" where
  "calculate_total_cost calculator_region service_costs =
     \<lparr>ce_hourly_cost = sum_list (map hourly_cost service_costs),
      ce_daily_cost = sum_list (map daily_cost service_costs),
      ce_monthly_cost = sum_list (map monthly_cost service_costs),
      service_breakdown = service_costs,
      ce_total_resources = sum_list (map resource_count service_costs),
      region = calculator_region\<rparr>"


section \<open>The dry-run simulator (\<^verbatim>\<open>dry_run.py\<close>)\<close>

text \<open>
  The simulator reads untyped dictionaries with \<^verbatim>\<open>.get\<close>.  Here each kind of resource
  description is a record of the keys the simulator reads, a key being absent (\<open>None\<close>)
  or holding a value of the type the code expects; for \<^verbatim>\<open>reserved_concurrency\<close>, whose
  value may be \<^verbatim>\<open>None\<close>, \<open>Some None\<close> is the key present with \<^verbatim>\<open>None\<close>.  The resources
  dictionary has its four keys present or absent; keys that nothing reads are not
  represented, so the empty dictionary is the one with none of the four.
\<close>

record stream_desc =
  st_name :: "string option"
  st_shard_count :: "int option"

record function_desc =
  fn_name :: "string option"
  fn_reserved_concurrency :: "int option option"

record endpoint_desc =
  ep_name :: "string option"
  ep_status :: "string option"
  ep_instance_type :: "string option"
  ep_instance_count :: "int option"

record alarm_desc =
  al_name :: "string option"
  al_enabled :: "bool option"

record current_resources =
  r_kinesis :: "stream_desc list option"
  r_lambda :: "function_desc list option"
  r_sagemaker :: "endpoint_desc list option"
  r_cloudwatch :: "alarm_desc list option"

datatype change_kind = CREATE | UPDATE | DELETE | ENABLE | DISABLE | SCALE_UP | SCALE_DOWN

datatype risk = LOW | MEDIUM | HIGH | CRITICAL

record resource_change =
  resource_id :: string
  resource_type :: string
  change_type :: change_kind
  current_state :: "(string \<times> pyval) list"
  proposed_state :: "(string \<times> pyval) list"
  rc_cost_impact :: rat
  risk_level :: risk
  rc_warnings :: "string list"
  dependencies :: "string list"

record dry_run_result =
  dr_operation :: string
  changes :: "resource_change list"
  total_cost_impact :: rat
  current_estimate :: cost_estimate
  proposed_estimate :: cost_estimate
  dr_errors :: "string list"
  dr_warnings :: "string list"

text \<open>\<^verbatim>\<open>d.get(key, default)\<close> and the \<^verbatim>\<open>str\<close> of \<^verbatim>\<open>d.get('name')\<close> inside an f-string.\<close>

definition get_or :: "'a option \<Rightarrow> 'a \<Rightarrow> 'a" where
  "get_or v dflt = (case v of Some x \<Rightarrow> x | None \<Rightarrow> dflt)"

definition name_text :: "string option \<Rightarrow> string" where
  "name_text n = get_or n ''None''"

text \<open>\<^verbatim>\<open>DryRunValidator.validate_stop_operation\<close>: the pair (errors, warnings).\<close>

definition no_resources :: "current_resources \<Rightarrow> bool" where
  "no_resources rs \<longleftrightarrow>
     r_kinesis rs = None \<and> r_lambda rs = None \<and> r_sagemaker rs = None \<and> r_cloudwatch rs = None"

definition running_states :: "string list" where
  "running_states = [''InService'', ''Creating'', ''Updating'']"

definition validate_stop_operation :: "current_resources \<Rightarrow> string list \<times> string list" where
  "validate_stop_operation rs =
     (if no_resources rs then ([''No resources found to stop''], [])
      else
        ([],
         (case r_kinesis rs of
            None \<Rightarrow> []
          | Some [] \<Rightarrow> [''No Kinesis streams found'']
          | Some streams \<Rightarrow>
              concat (map (\<lambda>s. if get_or (st_shard_count s) 0 \<le> 1
                                then [''Kinesis stream '' @ name_text (st_name s)
                                      @ '' already at minimum shard count'']
                                else []) streams))
         @ (case r_lambda rs of
              None \<Rightarrow> []
            | Some [] \<Rightarrow> [''No Lambda functions found'']
            | Some funcs \<Rightarrow>
                concat (map (\<lambda>f. if get_or (fn_reserved_concurrency f) (Some 0) = Some 0
                                  then [''Lambda function '' @ name_text (fn_name f)
                                        @ '' already has concurrency set to 0'']
                                  else []) funcs))
         @ (case r_sagemaker rs of
              None \<Rightarrow> []
            | Some [] \<Rightarrow> [''No SageMaker endpoints found'']
            | Some endpoints \<Rightarrow>
                concat (map (\<lambda>e. if get_or (ep_status e) [] \<notin> set running_states
                                  then [''SageMaker endpoint '' @ name_text (ep_name e) @ '' is in ''
                                        @ get_or (ep_status e) [] @ '' state'']
                                  else []) endpoints))
         @ (case r_cloudwatch rs of
              None \<Rightarrow> []
            | Some [] \<Rightarrow> [''No CloudWatch alarms found'']
            | Some alarms \<Rightarrow>
                (if length (filter (\<lambda>a. \<not> get_or (al_enabled a) True) alarms) = length alarms
                 then [''All CloudWatch alarms are already disabled'']
                 else []))))"

text \<open>
  The four stop simulations.  Each returns the change it proposes, or \<open>None\<close> when the
  resource is already at its floor.
\<close>

definition simulate_kinesis_stop :: "stream_desc \<Rightarrow> resource_change option" where
  "simulate_kinesis_stop stream =
     (let shard_count = get_or (st_shard_count stream) 0 in
      if shard_count \<le> 1 then None
      else
        Some \<lparr>resource_id = get_or (st_name stream) ''unknown'',
              resource_type = ''kinesis_stream'',
              change_type = SCALE_DOWN,
              current_state = [(''shard_count'', PInt shard_count)],
              proposed_state = [(''shard_count'', PInt 1)],
              rc_cost_impact = monthly_cost (calculate_kinesis_cost shard_count 24 0 0)
                               - monthly_cost (calculate_kinesis_cost 1 24 0 0),
              risk_level = (if shard_count > 2 then MEDIUM else LOW),
              rc_warnings = (if shard_count > 2
                             then [''Reducing from '' @ str_int shard_count
                                   @ '' shards to 1 may impact throughput'']
                             else []),
              dependencies = []\<rparr>)"

text \<open>
  \<^verbatim>\<open>current_concurrency or 'unlimited'\<close>: a limit other than \<open>0\<close> is kept, \<^verbatim>\<open>None\<close> and \<open>0\<close>
  read \<^verbatim>\<open>'unlimited'\<close>.
\<close>

definition or_unlimited :: "int option \<Rightarrow> pyval" where
  "or_unlimited concurrency =
     (case concurrency of
        Some n \<Rightarrow> (if n \<noteq> 0 then PInt n else PStr ''unlimited'')
      | None \<Rightarrow> PStr ''unlimited'')"

definition simulate_lambda_stop :: "function_desc \<Rightarrow> resource_change option" where
  "simulate_lambda_stop func =
     (let current_concurrency = get_or (fn_reserved_concurrency func) None in
      if current_concurrency = Some 0 then None
      else
        Some \<lparr>resource_id = get_or (fn_name func) ''unknown'',
              resource_type = ''lambda_function'',
              change_type = DISABLE,
              current_state = [(''reserved_concurrency'', or_unlimited current_concurrency)],
              proposed_state = [(''reserved_concurrency'', PInt 0)],
              rc_cost_impact = 0,
              risk_level = HIGH,
              rc_warnings = [''Function will not be able to process any requests'',
                             ''Event source mappings will be paused''],
              dependencies = []\<rparr>)"

definition simulate_sagemaker_stop :: "endpoint_desc \<Rightarrow> resource_change option" where
  "simulate_sagemaker_stop endpoint =
     (let status = get_or (ep_status endpoint) [] in
      if status \<notin> set running_states then None
      else
        (let instance_type = get_or (ep_instance_type endpoint) ''ml.m5.large'';
             instance_count = get_or (ep_instance_count endpoint) 1
         in Some \<lparr>resource_id = get_or (ep_name endpoint) ''unknown'',
                  resource_type = ''sagemaker_endpoint'',
                  change_type = DELETE,
                  current_state = [(''status'', PStr status), (''instance_type'', PStr instance_type)],
                  proposed_state = [(''status'', PStr ''Deleted'')],
                  rc_cost_impact = monthly_cost (calculate_sagemaker_cost 1 instance_type instance_count),
                  risk_level = HIGH,
                  rc_warnings = [''Endpoint will need to be recreated to use again (5-10 minutes)'',
                                 ''Inference requests will fail until endpoint is recreated''],
                  dependencies = []\<rparr>))"

definition simulate_cloudwatch_stop :: "alarm_desc \<Rightarrow> resource_change option" where
  "simulate_cloudwatch_stop alarm =
     (let enabled = get_or (al_enabled alarm) True in
      if \<not> enabled then None
      else
        Some \<lparr>resource_id = get_or (al_name alarm) ''unknown'',
              resource_type = ''cloudwatch_alarm'',
              change_type = DISABLE,
              current_state = [(''enabled'', PBool True)],
              proposed_state = [(''enabled'', PBool False)],
              rc_cost_impact = (10 / 100) / 30,
              risk_level = LOW,
              rc_warnings = [''Alarm notifications will not be sent''],
              dependencies = []\<rparr>)"

text \<open>
  The four start simulations, from which \<^verbatim>\<open>simulate_start_operation\<close> takes every change
  of its result.  The saved target is read through the same records; for an endpoint
  the target's name and configuration are the arguments.
\<close>

definition simulate_kinesis_start :: "stream_desc \<Rightarrow> stream_desc \<Rightarrow> resource_change option" where
  "simulate_kinesis_start current target =
     (let current_shards = get_or (st_shard_count current) 1;
          target_shards = get_or (st_shard_count target) 2
      in if current_shards \<ge> target_shards then None
         else
           Some \<lparr>resource_id = get_or (st_name current) ''unknown'',
                 resource_type = ''kinesis_stream'',
                 change_type = SCALE_UP,
                 current_state = [(''shard_count'', PInt current_shards)],
                 proposed_state = [(''shard_count'', PInt target_shards)],
                 rc_cost_impact = monthly_cost (calculate_kinesis_cost current_shards 24 0 0)
                                  - monthly_cost (calculate_kinesis_cost target_shards 24 0 0),
                 risk_level = LOW,
                 rc_warnings = [],
                 dependencies = []\<rparr>)"

definition simulate_lambda_start :: "function_desc \<Rightarrow> function_desc \<Rightarrow> resource_change option" where
  "simulate_lambda_start current target =
     (let current_concurrency = get_or (fn_reserved_concurrency current) None;
          target_concurrency = get_or (fn_reserved_concurrency target) None
      in if current_concurrency \<noteq> Some 0 then None
         else
           Some \<lparr>resource_id = get_or (fn_name current) ''unknown'',
                 resource_type = ''lambda_function'',
                 change_type = ENABLE,
                 current_state = [(''reserved_concurrency'', PInt 0)],
                 proposed_state = [(''reserved_concurrency'', or_unlimited target_concurrency)],
                 rc_cost_impact = 0,
                 risk_level = LOW,
                 rc_warnings = [],
                 dependencies = []\<rparr>)"

definition simulate_sagemaker_start :: "string option \<Rightarrow> pyval option \<Rightarrow> resource_change option" where
  "simulate_sagemaker_start endpoint_name endpoint_config =
     (case (endpoint_name, endpoint_config) of
        (Some n, Some cfg) \<Rightarrow>
          (if n = [] \<or> \<not> py_truthy cfg then None
           else
             Some \<lparr>resource_id = n,
                   resource_type = ''sagemaker_endpoint'',
                   change_type = CREATE,
                   current_state = [(''status'', PStr ''NotFound'')],
                   proposed_state = [(''status'', PStr ''Creating''), (''config'', cfg)],
                   rc_cost_impact = - monthly_cost (calculate_sagemaker_cost 1 ''ml.m5.large'' 1),
                   risk_level = MEDIUM,
                   rc_warnings = [''Endpoint creation will take 5-10 minutes'',
                                  ''Endpoint will incur charges immediately upon creation''],
                   dependencies = []\<rparr>)
      | other \<Rightarrow> None)"

definition simulate_cloudwatch_start :: "alarm_desc \<Rightarrow> resource_change option" where
  "simulate_cloudwatch_start alarm =
     (let enabled = get_or (al_enabled alarm) True in
      if enabled then None
      else
        Some \<lparr>resource_id = get_or (al_name alarm) ''unknown'',
              resource_type = ''cloudwatch_alarm'',
              change_type = ENABLE,
              current_state = [(''enabled'', PBool False)],
              proposed_state = [(''enabled'', PBool True)],
              rc_cost_impact = - (10 / 100) / 30,
              risk_level = LOW,
              rc_warnings = [],
              dependencies = []\<rparr>)"

text \<open>
  \<^verbatim>\<open>_calculate_current_costs\<close> and \<^verbatim>\<open>_apply_stop_changes\<close>.  The calculator is created with
  its default region.
\<close>

definition calculate_current_costs :: "current_resources \<Rightarrow> cost_estimate" where
  "calculate_current_costs rs =
     calculate_total_cost ''us-east-1''
       ((case r_kinesis rs of
           None \<Rightarrow> []
         | Some streams \<Rightarrow>
             concat (map (\<lambda>s. let shard_count = get_or (st_shard_count s) 0 in
                               if shard_count > 0 then [calculate_kinesis_cost shard_count 24 0 0]
                               else []) streams))
        @ (case r_lambda rs of
             None \<Rightarrow> []
           | Some funcs \<Rightarrow>
               (if int (length funcs) > 0
                then [calculate_lambda_cost (int (length funcs)) 0 1000 1024 0] else []))
        @ (case r_sagemaker rs of
             None \<Rightarrow> []
           | Some endpoints \<Rightarrow>
               concat (map (\<lambda>e. if ep_status e = Some ''InService''
                                 then [calculate_sagemaker_cost 1
                                         (get_or (ep_instance_type e) ''ml.m5.large'') 1]
                                 else []) endpoints))
        @ (case r_cloudwatch rs of
             None \<Rightarrow> []
           | Some alarms \<Rightarrow>
               (let alarm_count = int (length alarms);
                    enabled_count = int (length (filter (\<lambda>a. get_or (al_enabled a) True) alarms))
                in if alarm_count > 0
                   then [calculate_cloudwatch_cost alarm_count 0 0 0 (enabled_count > 0)]
                   else [])))"

definition apply_stop_changes :: "current_resources \<Rightarrow> current_resources" where
  "apply_stop_changes rs =
     \<lparr>r_kinesis = map_option (map (\<lambda>s. s\<lparr>st_shard_count := Some 1\<rparr>)) (r_kinesis rs),
      r_lambda = map_option (map (\<lambda>f. f\<lparr>fn_reserved_concurrency := Some (Some 0)\<rparr>)) (r_lambda rs),
      r_sagemaker = map_option (map (\<lambda>e. e\<lparr>ep_status := Some ''Deleted''\<rparr>)) (r_sagemaker rs),
      r_cloudwatch = map_option (map (\<lambda>a. a\<lparr>al_enabled := Some False\<rparr>)) (r_cloudwatch rs)\<rparr>"

text \<open>
  \<^verbatim>\<open>simulate_stop_operation\<close>.  \<open>collect\<close> is the loop that appends the changes that are
  not \<^verbatim>\<open>None\<close>; a key that is absent contributes no change.
\<close>

definition collect :: "('a \<Rightarrow> resource_change option) \<Rightarrow> 'a list option \<Rightarrow> resource_change list" where
  "collect simulate items =
     (case items of None \<Rightarrow> [] | Some xs \<Rightarrow> List.map_filter simulate xs)"

definition simulate_stop_operation :: "current_resources \<Rightarrow> dry_run_result" where
  "simulate_stop_operation rs =
     (let validation = validate_stop_operation rs;
          current_costs = calculate_current_costs rs;
          found = collect simulate_kinesis_stop (r_kinesis rs)
                  @ collect simulate_lambda_stop (r_lambda rs)
                  @ collect simulate_sagemaker_stop (r_sagemaker rs)
                  @ collect simulate_cloudwatch_stop (r_cloudwatch rs);
          proposed_costs = calculate_current_costs (apply_stop_changes rs)
      in \<lparr>dr_operation = ''stop'',
          changes = found,
          total_cost_impact = ce_monthly_cost current_costs - ce_monthly_cost proposed_costs,
          current_estimate = current_costs,
          proposed_estimate = proposed_costs,
          dr_errors = fst validation,
          dr_warnings = snd validation\<rparr>)"

text \<open>
  The input of the specification's example scenario: one stream with two shards, one
  function whose reserved concurrency is \<^verbatim>\<open>None\<close>, one enabled alarm.
\<close>

definition scenario :: current_resources where
  "scenario =
     \<lparr>r_kinesis = Some [\<lparr>st_name = None, st_shard_count = Some 2\<rparr>],
      r_lambda = Some [\<lparr>fn_name = None, fn_reserved_concurrency = Some None\<rparr>],
      r_sagemaker = None,
      r_cloudwatch = Some [\<lparr>al_name = None, al_enabled = Some True\<rparr>]\<rparr>"

text \<open>
  The kinds of change the risk rule speaks of: a change that takes away all serving
  capacity (a function whose reserved concurrency is set to \<open>0\<close>, an endpoint that is
  deleted), and a change that disables an alarm.  \<open>full_scenario\<close> adds a function with
  a limit of 5 and an endpoint in service to the example scenario.
\<close>

definition disables_serving_capacity :: "resource_change \<Rightarrow> bool" where
  "disables_serving_capacity ch \<longleftrightarrow>
     (resource_type ch = ''lambda_function''
        \<and> proposed_state ch = [(''reserved_concurrency'', PInt 0)])
     \<or> (resource_type ch = ''sagemaker_endpoint'' \<and> change_type ch = DELETE)"

definition disables_alarm :: "resource_change \<Rightarrow> bool" where
  "disables_alarm ch \<longleftrightarrow> resource_type ch = ''cloudwatch_alarm'' \<and> change_type ch = DISABLE"

definition full_scenario :: current_resources where
  "full_scenario =
     \<lparr>r_kinesis = Some [\<lparr>st_name = Some ''user-events'', st_shard_count = Some 2\<rparr>],
      r_lambda = Some [\<lparr>fn_name = Some ''event_processor'', fn_reserved_concurrency = Some (Some 5)\<rparr>],
      r_sagemaker = Some [\<lparr>ep_name = Some ''exit-risk'', ep_status = Some ''InService'',
                           ep_instance_type = None, ep_instance_count = None\<rparr>],
      r_cloudwatch = Some [\<lparr>al_name = Some ''high-error-rate'', al_enabled = None\<rparr>]\<rparr>"


section \<open>The Lambda and Kinesis managers (\<^verbatim>\<open>lambda_manager.py\<close>, \<^verbatim>\<open>kinesis_manager.py\<close>)\<close>

text \<open>
  The cloud as the two managers see it.  A function is known by its name and has a
  reserved concurrency or none; a stream has a number of shards and a status.  Each
  client operation can be made to fail with a fixed exception (\<open>get_fault\<close>, \<open>put_fault\<close>
  per function, \<open>describe_fault\<close>, \<open>update_fault\<close> for streams).  \<open>calls\<close> is the log of
  the client operations issued.  A successful \<^verbatim>\<open>update_shard_count\<close> is taken to have
  reached its target when it returns.  \<open>reports_concurrency\<close> says whether the response
  of \<^verbatim>\<open>get_function_configuration\<close> carries the key \<^verbatim>\<open>ReservedConcurrentExecutions\<close>,
  which the manager reads with \<^verbatim>\<open>response.get\<close>; without the key the manager sees
  \<^verbatim>\<open>None\<close> whatever the reserved concurrency is.
\<close>

datatype api_call =
    GetFunctionConfiguration string
  | PutFunctionConcurrency string int
  | DescribeStream string
  | UpdateShardCount string int

fun mutating :: "api_call \<Rightarrow> bool" where
  "mutating (GetFunctionConfiguration n) = False"
| "mutating (PutFunctionConcurrency n k) = True"
| "mutating (DescribeStream n) = False"
| "mutating (UpdateShardCount n k) = True"

record stream_info =
  shard_count :: int
  status :: string

record aws =
  lambda_functions :: "string \<rightharpoonup> int option"
  reports_concurrency :: bool
  get_fault :: "string \<rightharpoonup> exn"
  put_fault :: "string \<rightharpoonup> exn"
  streams :: "string \<rightharpoonup> stream_info"
  describe_fault :: "exn option"
  update_fault :: "exn option"
  calls :: "api_call list"

definition not_found :: "string \<Rightarrow> exn" where
  "not_found what =
     Exn ClientError (''An error occurred (ResourceNotFoundException): '' @ what @ '' not found'')
       (Some ''ResourceNotFoundException'') (Some (what @ '' not found''))"

text \<open>The client operations: each is logged, then fails or takes effect.\<close>

definition get_function_configuration :: "string \<Rightarrow> (aws, int option) operation" where
  "get_function_configuration name c =
     (let c' = c\<lparr>calls := calls c @ [GetFunctionConfiguration name]\<rparr> in
      case get_fault c name of
        Some e \<Rightarrow> (Inl e, c')
      | None \<Rightarrow>
          (case lambda_functions c name of
             None \<Rightarrow> (Inl (not_found name), c')
           | Some concurrency \<Rightarrow>
               (Inr (if reports_concurrency c then concurrency else None), c')))"

definition put_function_concurrency :: "string \<Rightarrow> int \<Rightarrow> (aws, unit) operation" where
  "put_function_concurrency name n c =
     (let c' = c\<lparr>calls := calls c @ [PutFunctionConcurrency name n]\<rparr> in
      case put_fault c name of
        Some e \<Rightarrow> (Inl e, c')
      | None \<Rightarrow>
          (case lambda_functions c name of
             None \<Rightarrow> (Inl (not_found name), c')
           | Some concurrency \<Rightarrow> (Inr (), c'\<lparr>lambda_functions := (lambda_functions c)(name \<mapsto> Some n)\<rparr>)))"

definition describe_stream :: "string \<Rightarrow> (aws, stream_info) operation" where
  "describe_stream name c =
     (let c' = c\<lparr>calls := calls c @ [DescribeStream name]\<rparr> in
      case describe_fault c of
        Some e \<Rightarrow> (Inl e, c')
      | None \<Rightarrow>
          (case streams c name of
             None \<Rightarrow> (Inl (not_found name), c')
           | Some info \<Rightarrow> (Inr info, c')))"

definition update_shard_count :: "string \<Rightarrow> int \<Rightarrow> (aws, unit) operation" where
  "update_shard_count name target c =
     (let c' = c\<lparr>calls := calls c @ [UpdateShardCount name target]\<rparr> in
      case update_fault c of
        Some e \<Rightarrow> (Inl e, c')
      | None \<Rightarrow>
          (case streams c name of
             None \<Rightarrow> (Inl (not_found name), c')
           | Some info \<Rightarrow>
               (Inr (), c'\<lparr>streams := (streams c)(name \<mapsto> info\<lparr>shard_count := target\<rparr>)\<rparr>)))"

text \<open>
  \<^verbatim>\<open>@retry_with_backoff(max_retries=3, initial_delay=1.0)\<close> on a method: the wrapper with
  the decorator's defaults.  Its pauses leave no trace in the cloud and are dropped.
\<close>

definition decorated :: "(aws, 'a) operation \<Rightarrow> (aws, 'a option) operation" where
  "decorated body c =
     (case retry_with_backoff 3 1 2 default_exceptions body c of
        ((r, pauses), c') \<Rightarrow> (r, c'))"

text \<open>
  \<^verbatim>\<open>AWSServiceError.__str__\<close>, and the two readings of a \<^verbatim>\<open>ClientError\<close>:
  \<^verbatim>\<open>e.response.get('Error', {}).get('Code', 'Unknown')\<close> and
  \<^verbatim>\<open>e.response.get('Error', {}).get('Message', str(e))\<close>.
\<close>

definition aws_service_error ::
  "string \<Rightarrow> string \<Rightarrow> string \<Rightarrow> string option \<Rightarrow> (string \<times> string) list \<Rightarrow> exn" where
  "aws_service_error message service op error_code details =
     Exn AWSServiceError
       (''AWS '' @ service @ '' error during '' @ op @ '': '' @ message
        @ (case error_code of
             Some code \<Rightarrow> (if code \<noteq> [] then '' (Error Code: '' @ code @ '')'' else [])
           | None \<Rightarrow> [])
        @ (if details \<noteq> [] then '' - Details: {'' @ py_repr_items details @ ''}'' else []))
       error_code None"

definition response_code :: "exn \<Rightarrow> string" where
  "response_code e = get_or (exn_code e) ''Unknown''"

definition response_message :: "exn \<Rightarrow> string" where
  "response_message e = get_or (exn_message e) (exn_str e)"

text \<open>
  \<^verbatim>\<open>LambdaManager\<close>.  The constructor probes each target function under its prefixed name
  and, when that name is not found, under its bare name; an exception that is no
  \<^verbatim>\<open>ClientError\<close> leaves the constructor.
\<close>

record lambda_mgr =
  lm_project_name :: string
  lm_environment :: string
  lm_dry_run :: bool
  function_names :: "string list"

definition TARGET_FUNCTIONS :: "string list" where
  "TARGET_FUNCTIONS = [''event_processor'', ''intervention-executor'']"

definition with_prefix :: "string \<Rightarrow> string \<Rightarrow> string \<Rightarrow> string" where
  "with_prefix project_name env func =
     project_name @ ''-'' @ func @ (if env \<noteq> ''prod'' then ''-'' @ env else [])"

fun probe_functions ::
  "string \<Rightarrow> string \<Rightarrow> string list \<Rightarrow> string list \<Rightarrow> (aws, string list) operation" where
  "probe_functions project_name env [] names c = (Inr names, c)"
| "probe_functions project_name env (func # rest) names c =
     (let func_with_prefix = with_prefix project_name env func in
      case get_function_configuration func_with_prefix c of
        (Inr cfg, c1) \<Rightarrow> probe_functions project_name env rest (names @ [func_with_prefix]) c1
      | (Inl e, c1) \<Rightarrow>
          (if isinstance e ClientError then
             (if exn_code e = Some ''ResourceNotFoundException'' then
                (case get_function_configuration func c1 of
                   (Inr cfg, c2) \<Rightarrow> probe_functions project_name env rest (names @ [func]) c2
                 | (Inl e2, c2) \<Rightarrow>
                     (if isinstance e2 ClientError
                      then probe_functions project_name env rest names c2
                      else (Inl e2, c2)))
              else probe_functions project_name env rest names c1)
           else (Inl e, c1)))"

definition new_lambda_manager :: "string \<Rightarrow> string \<Rightarrow> bool \<Rightarrow> (aws, lambda_mgr) operation" where
  "new_lambda_manager project_name env dry c =
     (case probe_functions project_name env TARGET_FUNCTIONS [] c of
        (Inr names, c') \<Rightarrow>
          (Inr \<lparr>lm_project_name = project_name, lm_environment = env, lm_dry_run = dry,
                function_names = names\<rparr>, c')
      | (Inl e, c') \<Rightarrow> (Inl e, c'))"

text \<open>
  \<^verbatim>\<open>_get_function_config\<close> (decorated): the concurrency of the function, \<open>None\<close> when the
  function does not exist; every other \<^verbatim>\<open>ClientError\<close> is raised as an
  \<^verbatim>\<open>AWSServiceError\<close>.  Of the configuration only the reserved concurrency is kept, which
  the method reads from the response of \<^verbatim>\<open>get_function_configuration\<close>.
\<close>

definition get_function_config_body :: "string \<Rightarrow> (aws, int option option) operation" where
  "get_function_config_body function_name c =
     (case get_function_configuration function_name c of
        (Inr concurrency, c') \<Rightarrow> (Inr (Some concurrency), c')
      | (Inl e, c') \<Rightarrow>
          (if isinstance e ClientError then
             (if response_code e = ''ResourceNotFoundException'' then (Inr None, c')
              else (Inl (aws_service_error (''Failed to get function configuration: '' @ exn_str e)
                           ''lambda'' ''get_function_configuration'' (Some (response_code e))
                           [(''function_name'', function_name)]), c'))
           else (Inl e, c')))"

definition get_function_config :: "string \<Rightarrow> (aws, int option option) operation" where
  "get_function_config function_name c =
     (case decorated (get_function_config_body function_name) c of
        (Inr (Some found), c') \<Rightarrow> (Inr found, c')
      | (Inr None, c') \<Rightarrow> (Inr None, c')
      | (Inl e, c') \<Rightarrow> (Inl e, c'))"

text \<open>
  The loop of \<^verbatim>\<open>LambdaManager.stop\<close> over \<^verbatim>\<open>self.function_names\<close>, with the three lists
  it fills.
\<close>

record progress =
  pr_resources_affected :: "string list"
  pr_errors :: "string list"
  pr_warnings :: "string list"

definition stop_function :: "bool \<Rightarrow> string \<Rightarrow> progress \<Rightarrow> aws \<Rightarrow> progress \<times> aws" where
  "stop_function dry function_name p c =
     (case get_function_config function_name c of
        (Inl e, c1) \<Rightarrow>
          (p\<lparr>pr_errors := pr_errors p @ [function_name @ '': ''
                 @ (if isinstance e ClientError then response_message e else exn_str e)]\<rparr>, c1)
      | (Inr None, c1) \<Rightarrow>
          (p\<lparr>pr_warnings := pr_warnings p @ [''Function not found: '' @ function_name]\<rparr>, c1)
      | (Inr (Some current_concurrency), c1) \<Rightarrow>
          (if current_concurrency = Some 0 then
             (p\<lparr>pr_warnings := pr_warnings p @ [function_name @ '': already stopped''],
                pr_resources_affected := pr_resources_affected p @ [function_name]\<rparr>, c1)
           else if dry then
             (p\<lparr>pr_resources_affected := pr_resources_affected p @ [function_name]\<rparr>, c1)
           else
             (case put_function_concurrency function_name 0 c1 of
                (Inr u, c2) \<Rightarrow>
                  (p\<lparr>pr_resources_affected := pr_resources_affected p @ [function_name]\<rparr>, c2)
              | (Inl e, c2) \<Rightarrow>
                  (p\<lparr>pr_errors := pr_errors p @ [function_name @ '': ''
                         @ (if isinstance e ClientError then response_message e else exn_str e)]\<rparr>,
                   c2))))"

fun stop_functions :: "bool \<Rightarrow> string list \<Rightarrow> progress \<Rightarrow> aws \<Rightarrow> progress \<times> aws" where
  "stop_functions dry [] p c = (p, c)"
| "stop_functions dry (function_name # rest) p c =
     (case stop_function dry function_name p c of (p', c') \<Rightarrow> stop_functions dry rest p' c')"

definition lambda_stop_body :: "lambda_mgr \<Rightarrow> bool option \<Rightarrow> (aws, service_result) operation" where
  "lambda_stop_body m override c =
     (let dry = (case override of Some b \<Rightarrow> b | None \<Rightarrow> lm_dry_run m) in
      case stop_functions dry (function_names m)
             \<lparr>pr_resources_affected = [], pr_errors = [], pr_warnings = []\<rparr> c of
        (p, c') \<Rightarrow>
          (Inr \<lparr>sr_success = (length (pr_errors p) = 0 \<and> length (pr_resources_affected p) > 0),
                sr_operation = ''stop'',
                sr_service_type = ''lambda'',
                sr_resources_affected = pr_resources_affected p,
                sr_errors = pr_errors p,
                sr_warnings = pr_warnings p,
                sr_details = [(''total_functions'', DInt (int (length (function_names m)))),
                              (''stopped_functions'', DInt (int (length (pr_resources_affected p)))),
                              (''failed_functions'', DInt (int (length (pr_errors p)))),
                              (''dry_run'', DBool dry)]\<rparr>, c'))"

definition lambda_stop :: "lambda_mgr \<Rightarrow> bool option \<Rightarrow> (aws, service_result option) operation" where
  "lambda_stop m override = decorated (lambda_stop_body m override)"

text \<open>
  \<^verbatim>\<open>KinesisManager\<close>.  \<^verbatim>\<open>_describe_stream\<close> and \<^verbatim>\<open>stop\<close> are both decorated, so a failing
  description is retried inside every attempt of \<^verbatim>\<open>stop\<close>.
\<close>

record kinesis_mgr =
  km_stream_name :: string
  km_dry_run :: bool

definition new_kinesis_manager :: "string \<Rightarrow> string \<Rightarrow> bool \<Rightarrow> kinesis_mgr" where
  "new_kinesis_manager project_name env dry =
     \<lparr>km_stream_name = project_name @ ''-user-events'' @ (if env \<noteq> ''prod'' then ''-'' @ env else []),
      km_dry_run = dry\<rparr>"

definition MINIMAL_SHARD_COUNT :: int where
  "MINIMAL_SHARD_COUNT = 1"

definition describe_stream_body :: "kinesis_mgr \<Rightarrow> (aws, stream_info) operation" where
  "describe_stream_body m c =
     (case describe_stream (km_stream_name m) c of
        (Inr info, c') \<Rightarrow> (Inr info, c')
      | (Inl e, c') \<Rightarrow>
          (if isinstance e ClientError then
             (if response_code e = ''ResourceNotFoundException'' then
                (Inl (aws_service_error (''Kinesis stream not found: '' @ km_stream_name m)
                        ''kinesis'' ''describe_stream'' (Some (response_code e))
                        [(''stream_name'', km_stream_name m)]), c')
              else
                (Inl (aws_service_error (''Failed to describe stream: '' @ exn_str e)
                        ''kinesis'' ''describe_stream'' (Some (response_code e))
                        [(''stream_name'', km_stream_name m)]), c'))
           else (Inl e, c')))"

definition describe_stream_info :: "kinesis_mgr \<Rightarrow> (aws, stream_info option) operation" where
  "describe_stream_info m = decorated (describe_stream_body m)"

text \<open>The two handlers that close the \<^verbatim>\<open>try\<close> of \<^verbatim>\<open>KinesisManager.stop\<close>.\<close>

definition stop_failed :: "kinesis_mgr \<Rightarrow> exn \<Rightarrow> exn" where
  "stop_failed m e =
     (if isinstance e ClientError then
        aws_service_error (''Failed to reduce shard count: '' @ response_message e)
          ''kinesis'' ''stop'' (Some (response_code e)) [(''stream_name'', km_stream_name m)]
      else
        aws_service_error (''Unexpected error: '' @ exn_str e)
          ''kinesis'' ''stop'' None [(''stream_name'', km_stream_name m)])"

definition kinesis_stop_body :: "kinesis_mgr \<Rightarrow> bool option \<Rightarrow> (aws, service_result) operation" where
  "kinesis_stop_body m override c =
     (let dry = (case override of Some b \<Rightarrow> b | None \<Rightarrow> km_dry_run m) in
      case describe_stream_info m c of
        (Inl e, c1) \<Rightarrow> (Inl (stop_failed m e), c1)
      | (Inr None, c1) \<Rightarrow>
          (Inl (stop_failed m (type_error ([CHR 0x27] @ ''NoneType'' @ [CHR 0x27]
                                           @ '' object is not subscriptable''))), c1)
      | (Inr (Some info), c1) \<Rightarrow>
          (let current_shard_count = shard_count info;
               daily_savings = of_int (current_shard_count - MINIMAL_SHARD_COUNT) * SHARD_HOUR * 24 in
           if current_shard_count \<le> MINIMAL_SHARD_COUNT then
             (Inr \<lparr>sr_success = True, sr_operation = ''stop'', sr_service_type = ''kinesis'',
                   sr_resources_affected = [km_stream_name m],
                   sr_errors = [],
                   sr_warnings = [''Stream already at minimal shard count: ''
                                  @ str_int current_shard_count],
                   sr_details = [(''stream_name'', DStr (km_stream_name m)),
                                 (''shard_count'', DInt current_shard_count),
                                 (''action'', DStr ''none'')]\<rparr>, c1)
           else if dry then
             (Inr \<lparr>sr_success = True, sr_operation = ''stop'', sr_service_type = ''kinesis'',
                   sr_resources_affected = [km_stream_name m],
                   sr_errors = [],
                   sr_warnings = [],
                   sr_details = [(''stream_name'', DStr (km_stream_name m)),
                                 (''current_shard_count'', DInt current_shard_count),
                                 (''target_shard_count'', DInt MINIMAL_SHARD_COUNT),
                                 (''estimated_daily_savings'', DMoney daily_savings),
                                 (''dry_run'', DBool True)]\<rparr>, c1)
           else
             (case update_shard_count (km_stream_name m) MINIMAL_SHARD_COUNT c1 of
                (Inl e, c2) \<Rightarrow> (Inl (stop_failed m e), c2)
              | (Inr u, c2) \<Rightarrow>
                  (Inr \<lparr>sr_success = True, sr_operation = ''stop'', sr_service_type = ''kinesis'',
                        sr_resources_affected = [km_stream_name m],
                        sr_errors = [],
                        sr_warnings = [],
                        sr_details = [(''stream_name'', DStr (km_stream_name m)),
                                      (''previous_shard_count'', DInt current_shard_count),
                                      (''new_shard_count'', DInt MINIMAL_SHARD_COUNT),
                                      (''estimated_daily_savings'', DMoney daily_savings)]\<rparr>, c2))))"

definition kinesis_stop :: "kinesis_mgr \<Rightarrow> bool option \<Rightarrow> (aws, service_result option) operation" where
  "kinesis_stop m override = decorated (kinesis_stop_body m override)"

text \<open>
  Calling \<^verbatim>\<open>stop\<close> twice in succession: the outcome of the first call and the cloud it
  leaves, the outcome of the second call and the cloud it leaves.  \<open>issued c c'\<close> are the
  client operations logged between two clouds.
\<close>

definition twice ::
  "(aws, 'a) operation \<Rightarrow> aws \<Rightarrow> (exn + 'a) \<times> aws \<times> (exn + 'a) \<times> aws" where
  "twice stop_call c =
     (case stop_call c of
        (first, c1) \<Rightarrow> (case stop_call c1 of (second, c2) \<Rightarrow> (first, c1, second, c2)))"

definition issued :: "aws \<Rightarrow> aws \<Rightarrow> api_call list" where
  "issued c c' = drop (length (calls c)) (calls c')"

text \<open>
  What a manager can see of a function and of a stream: the function is missing (it
  does not exist, or the client answers \<^verbatim>\<open>ResourceNotFoundException\<close>), found with its
  reserved concurrency, or the reading fails; the stream is described or not.
\<close>

datatype seen = Missing | Found "int option" | Failing

definition seen_function :: "aws \<Rightarrow> string \<Rightarrow> seen" where
  "seen_function c name =
     (case get_fault c name of
        Some e \<Rightarrow>
          (if isinstance e ClientError \<and> response_code e = ''ResourceNotFoundException''
           then Missing else Failing)
      | None \<Rightarrow>
          (case lambda_functions c name of
             None \<Rightarrow> Missing
           | Some concurrency \<Rightarrow> Found (if reports_concurrency c then concurrency else None)))"

definition seen_stream :: "aws \<Rightarrow> string \<Rightarrow> stream_info option" where
  "seen_stream c name = (case describe_fault c of Some e \<Rightarrow> None | None \<Rightarrow> streams c name)"

text \<open>
  \<open>unchanged c c'\<close>: the two clouds hold the same resources and faults.  \<open>quiet c c'\<close>: in
  addition the log of \<open>c'\<close> extends the log of \<open>c\<close> by reading operations only.
\<close>

definition unchanged :: "aws \<Rightarrow> aws \<Rightarrow> bool" where
  "unchanged c c' \<longleftrightarrow>
     lambda_functions c' = lambda_functions c \<and> reports_concurrency c' = reports_concurrency c
     \<and> get_fault c' = get_fault c \<and> put_fault c' = put_fault c \<and> streams c' = streams c
     \<and> describe_fault c' = describe_fault c \<and> update_fault c' = update_fault c"

definition quiet :: "aws \<Rightarrow> aws \<Rightarrow> bool" where
  "quiet c c' \<longleftrightarrow>
     unchanged c c' \<and> take (length (calls c)) (calls c') = calls c
     \<and> filter mutating (issued c c') = []"

definition succeeded :: "exn + service_result option \<Rightarrow> bool" where
  "succeeded r = (case r of Inr (Some res) \<Rightarrow> sr_success res | _ \<Rightarrow> False)"

definition no_errors :: "exn + service_result option \<Rightarrow> bool" where
  "no_errors r = (case r of Inr (Some res) \<Rightarrow> sr_errors res = [] | _ \<Rightarrow> False)"

definition affected :: "exn + service_result option \<Rightarrow> string list" where
  "affected r = (case r of Inr (Some res) \<Rightarrow> sr_resources_affected res | _ \<Rightarrow> [])"

definition warned :: "exn + service_result option \<Rightarrow> string list" where
  "warned r = (case r of Inr (Some res) \<Rightarrow> sr_warnings res | _ \<Rightarrow> [])"

text \<open>
  Sample clouds: an account with the two target functions and a stream of two shards;
  the same without the functions, with configuration responses that lack the reserved
  concurrency, and with a denied \<^verbatim>\<open>put_function_concurrency\<close>.
\<close>

definition access_denied :: exn where
  "access_denied =
     Exn ClientError ''An error occurred (AccessDeniedException): not authorized''
       (Some ''AccessDeniedException'') (Some ''not authorized'')"

definition sample_account :: aws where
  "sample_account =
     \<lparr>lambda_functions = [''user-journey-analytics-event_processor'' \<mapsto> None,
                           ''intervention-executor'' \<mapsto> Some 5],
      reports_concurrency = True,
      get_fault = Map.empty,
      put_fault = Map.empty,
      streams = [''user-journey-analytics-user-events'' \<mapsto> \<lparr>shard_count = 2, status = ''ACTIVE''\<rparr>],
      describe_fault = None,
      update_fault = None,
      calls = []\<rparr>"

definition empty_account :: aws where
  "empty_account = sample_account\<lparr>lambda_functions := Map.empty\<rparr>"

definition silent_account :: aws where
  "silent_account = sample_account\<lparr>reports_concurrency := False\<rparr>"

definition locked_account :: aws where
  "locked_account =
     sample_account\<lparr>put_fault := [''intervention-executor'' \<mapsto> access_denied]\<rparr>"

text \<open>
  \<open>only_stopped c c'\<close>: the functions of \<open>c'\<close> are those of \<open>c\<close>, some of them now with a
  reserved concurrency of 0, and the faults are the same.  A function is \<open>settled\<close> when
  \<^verbatim>\<open>stop\<close> has nothing to change for it: it is missing, it has a reserved concurrency of
  0, or the call runs dry.
\<close>

definition only_stopped :: "aws \<Rightarrow> aws \<Rightarrow> bool" where
  "only_stopped c c' \<longleftrightarrow>
     get_fault c' = get_fault c \<and> put_fault c' = put_fault c
     \<and> reports_concurrency c' = reports_concurrency c
     \<and> (\<forall>n. lambda_functions c' n = lambda_functions c n
              \<or> (lambda_functions c n \<noteq> None \<and> lambda_functions c' n = Some (Some 0)))"

definition settled :: "bool \<Rightarrow> aws \<Rightarrow> string \<Rightarrow> bool" where
  "settled dry c name =
     (case seen_function c name of
        Missing \<Rightarrow> True
      | Found concurrency \<Rightarrow> concurrency = Some 0 \<or> dry
      | Failing \<Rightarrow> False)"

definition stop_warning :: "aws \<Rightarrow> string \<Rightarrow> string list" where
  "stop_warning c name =
     (case seen_function c name of
        Missing \<Rightarrow> [''Function not found: '' @ name]
      | Found concurrency \<Rightarrow> (if concurrency = Some 0 then [name @ '': already stopped''] else [])
      | Failing \<Rightarrow> [])"

text \<open>
  \<open>stop_fails\<close>: the clouds in which one attempt of \<^verbatim>\<open>KinesisManager.stop\<close> raises: the
  stream cannot be described, or it has to be reduced and \<^verbatim>\<open>update_shard_count\<close> fails.
\<close>

definition stop_fails :: "kinesis_mgr \<Rightarrow> bool \<Rightarrow> aws \<Rightarrow> bool" where
  "stop_fails m dry c =
     (case seen_stream c (km_stream_name m) of
        None \<Rightarrow> True
      | Some info \<Rightarrow> \<not> shard_count info \<le> 1 \<and> \<not> dry \<and> update_fault c \<noteq> None)"

text \<open>The results of the first and of the second of two calls in succession.\<close>

definition first_result :: "(aws, 'a) operation \<Rightarrow> aws \<Rightarrow> exn + 'a" where
  "first_result stop_call c = fst (twice stop_call c)"

definition second_result :: "(aws, 'a) operation \<Rightarrow> aws \<Rightarrow> exn + 'a" where
  "second_result stop_call c = fst (snd (snd (twice stop_call c)))"

text \<open>
  Sample managers: the Lambda manager of the sample account, the Lambda manager of an
  account without the target functions, and the Kinesis manager of the production
  stream.
\<close>

definition sample_manager :: lambda_mgr where
  "sample_manager =
     \<lparr>lm_project_name = ''user-journey-analytics'', lm_environment = ''prod'', lm_dry_run = False,
      function_names = [''user-journey-analytics-event_processor'', ''intervention-executor'']\<rparr>"

definition bare_manager :: lambda_mgr where
  "bare_manager = sample_manager\<lparr>function_names := []\<rparr>"

definition stream_manager :: kinesis_mgr where
  "stream_manager = new_kinesis_manager ''user-journey-analytics'' ''prod'' False"

text \<open>The client operations issued by the second of two calls in succession.\<close>

definition second_calls :: "(aws, 'a) operation \<Rightarrow> aws \<Rightarrow> api_call list" where
  "second_calls stop_call c =
     (case twice stop_call c of (first, c1, second, c2) \<Rightarrow> issued c1 c2)"

section \<open>Properties of the retry wrapper\<close>














lemma retry_loop_slept_prefix:
  "\<exists>rest. snd (fst (retry_loop m b X func k dl le sl w)) = sl @ rest"
proof (induction m b X func k dl le sl w rule: retry_loop.induct)
  case (1 m b X func k dl le sl w)
  show ?case
    apply (subst retry_loop.simps)
    using 1
    apply (auto split: prod.splits sum.splits option.splits)
    done
qed





section \<open>Properties of the snapshot store\<close>


lemma fmap_of_sorted_list [simp]: "fmap_of_list (sorted_list_of_fmap m) = m"
  by (rule fmap_ext) (simp add: fmlookup_of_list)




lemma fmpred_fmmap_bool:
  "fmpred (\<lambda>k. P) m \<longleftrightarrow> (\<forall>v \<in> fmran' m. P v)"
  by (auto simp: fmpred_iff fmran'I elim!: fmran'E)





lemma keys_sorted_list: "set (map fst (sorted_list_of_fmap m)) = fset (fmdom m)"
  unfolding sorted_list_of_fmap_def by (simp add: comp_def)

lemma check_resource_lists_ok:
  "list_all (\<lambda>kv. is_list (snd kv)) xs \<Longrightarrow> check_resource_lists xs = Inr ()"
  by (induction xs rule: check_resource_lists.induct) (auto split: pyval.splits)

lemma check_resource_lists_fmap:
  assumes "fmpred (\<lambda>k. is_list) rm"
  shows "check_resource_lists (sorted_list_of_fmap rm) = Inr ()"
proof -
  have "list_all (\<lambda>kv. is_list (snd kv)) (sorted_list_of_fmap rm)"
    using assms by (simp add: curry_def case_prod_beta')
  then show ?thesis by (rule check_resource_lists_ok)
qed

lemma check_required_dict:
  "check_required (PDict m) fs =
     (case filter (\<lambda>f. f |\<notin>| fmdom m) fs of
        [] \<Rightarrow> Inr ()
      | f # rest \<Rightarrow> Inl (raise_validation_error (''Missing required field in state: '' @ f)
                 [(''field'', f)]))"
  by (induction fs) (auto simp: py_contains_def)

lemma validate_state_dict_ok:
  assumes "\<forall>f \<in> set required_fields. f |\<in>| fmdom m"
    and "fmlookup m ''version'' = Some v"
    and "fmlookup m ''resources'' = Some (PDict rm)"
    and "fmpred (\<lambda>k. is_list) rm"
  shows "validate_state (PDict m) =
     (Inr (), if v \<noteq> PStr STATE_VERSION
          then [Warning ''State version mismatch: expected {}, got {}'' [PStr STATE_VERSION, v]]
          else [])"
proof -
  have "filter (\<lambda>f. f |\<notin>| fmdom m) required_fields = []"
    using assms(1) by (simp add: filter_empty_conv)
  then show ?thesis
    using assms(2-4) by (simp add: validate_state_def check_required_dict check_resource_lists_fmap)
qed

lemma from_dict_ok:
  assumes "fset (fmdom m) \<subseteq> set state_fields"
    and "fmlookup m ''version'' = Some v" and "fmlookup m ''timestamp'' = Some t"
    and "fmlookup m ''project'' = Some p" and "fmlookup m ''environment'' = Some e"
    and "fmlookup m ''resources'' = Some r"
  shows "from_dict (PDict m) =
     Inr \<lparr>version = v, timestamp = t, project = p, environment = e, resources = r,
          metadata = (case fmlookup m ''metadata'' of Some md \<Rightarrow> md | None \<Rightarrow> PDict fmempty)\<rparr>"
proof -
  have "filter (\<lambda>k. k \<notin> set state_fields) (map fst (sorted_list_of_fmap m)) = []"
    using assms(1) keys_sorted_list [of m] by (auto simp: filter_empty_conv)
  then show ?thesis
    using assms(2-) by (simp add: from_dict_def)
qed

lemma load_state_dict_ok:
  assumes "state_file w = Some (Document doc)" and "of_json doc = PDict m"
    and "fset (fmdom m) \<subseteq> set state_fields"
    and "fmlookup m ''version'' = Some v" and "fmlookup m ''timestamp'' = Some t"
    and "fmlookup m ''project'' = Some p" and "fmlookup m ''environment'' = Some e"
    and "fmlookup m ''resources'' = Some (PDict rm)"
    and "fmpred (\<lambda>k. is_list) rm"
  shows "load_state sm w =
     (Inr \<lparr>version = v, timestamp = t, project = p, environment = e, resources = PDict rm,
           metadata = (case fmlookup m ''metadata'' of Some md \<Rightarrow> md | None \<Rightarrow> PDict fmempty)\<rparr>,
      w\<lparr>log := log w @
          (if v \<noteq> PStr STATE_VERSION
           then [Warning ''State version mismatch: expected {}, got {}'' [PStr STATE_VERSION, v]]
           else [])\<rparr>)"
proof -
  have req: "\<forall>f \<in> set required_fields. f |\<in>| fmdom m"
    using assms(4-8) by (auto simp: required_fields_def intro: fmdomI)
  show ?thesis
    using assms(1,2)
    by (simp add: load_state_def validate_state_dict_ok [OF req assms(4,8,9)]
        from_dict_ok [OF assms(3-8)] Let_def)
qed




lemma fmpred_fmupd_fresh:
  assumes "k |\<notin>| fmdom m"
  shows "fmpred P (fmupd k v m) \<longleftrightarrow> P k v \<and> fmpred P m"
proof
  assume h: "fmpred P (fmupd k v m)"
  have "P x y" if "fmlookup m x = Some y" for x y
  proof -
    from that assms have "x \<noteq> k" by (auto dest: fmdomI)
    with that have "fmlookup (fmupd k v m) x = Some y" by simp
    with h show ?thesis by (meson fmpredD)
  qed
  with h show "P k v \<and> fmpred P m" by (auto intro: fmpredI)
next
  assume "P k v \<and> fmpred P m"
  then show "fmpred P (fmupd k v m)" by (auto intro: fmpred_upd)
qed

lemma fmpred_of_list:
  "distinct (map fst xs) \<Longrightarrow> fmpred P (fmap_of_list xs) \<longleftrightarrow> list_all (\<lambda>kv. P (fst kv) (snd kv)) xs"
proof (induction xs)
  case Nil
  then show ?case by simp
next
  case (Cons kv xs)
  obtain k v where kv: "kv = (k, v)" by (cases kv)
  have "k |\<notin>| fmdom (fmap_of_list xs)"
    using Cons.prems by (simp add: kv fset_of_list.rep_eq)
  then show ?case
    using Cons by (simp add: kv fmpred_fmupd_fresh)
qed

lemma to_dict_serializable:
  "json_serializable (to_dict st) \<longleftrightarrow>
     json_serializable (version st) \<and> json_serializable (timestamp st)
     \<and> json_serializable (project st) \<and> json_serializable (environment st)
     \<and> json_serializable (resources st) \<and> json_serializable (metadata st)"
  unfolding to_dict_def json_serializable.simps fmpred_map
  by (subst fmpred_of_list) simp_all


lemma to_dict_lookups:
  "fmlookup (fmap_of_list
     [(''version'', a), (''timestamp'', b), (''project'', c),
      (''environment'', d), (''resources'', e), (''metadata'', f)]) k =
   (if k = ''version'' then Some a else if k = ''timestamp'' then Some b
    else if k = ''project'' then Some c else if k = ''environment'' then Some d
    else if k = ''resources'' then Some e else if k = ''metadata'' then Some f else None)"
  by simp


lemma validate_new_state:
  assumes "resource_map R"
  shows "validate_state (to_dict (new_state sm w R M)) = (Inr (), [])"
proof -
  obtain rm where R: "R = PDict rm" and rm: "fmpred (\<lambda>k. is_list) rm"
    using assms by (cases R) auto
  let ?st = "new_state sm w R M"
  let ?m = "fmap_of_list
     [(''version'', version ?st), (''timestamp'', timestamp ?st), (''project'', project ?st),
      (''environment'', environment ?st), (''resources'', resources ?st),
      (''metadata'', metadata ?st)]"
  have req: "\<forall>f \<in> set required_fields. f |\<in>| fmdom ?m"
    by (simp add: required_fields_def)
  have "validate_state (PDict ?m) = (Inr (), if version ?st \<noteq> PStr STATE_VERSION
          then [Warning ''State version mismatch: expected {}, got {}'' [PStr STATE_VERSION, version ?st]]
          else [])"
    by (rule validate_state_dict_ok [OF req _ _ rm]) (simp_all add: new_state_def R)
  then show ?thesis
    by (simp add: to_dict_def new_state_def)
qed







lemma state_error_class: "exn_class (raise_state_error msg ds) = StateError"
  by (simp add: raise_state_error_def)

lemma wrap_load_error_class: "exn_class (wrap_load_error sm e) = StateError"
  by (auto simp: wrap_load_error_def state_error_class isinstance_def issubclass_def)

lemma load_state_raises_state_error:
  "load_state sm w = (Inl e, w') \<Longrightarrow> exn_class e = StateError"
  by (auto simp: load_state_def Let_def state_error_class wrap_load_error_class
      split: option.splits file_content.splits sum.splits prod.splits)

lemma load_state_missing_field:
  assumes "state_file w = Some (Document doc)" and "of_json doc = PDict m"
    and "f \<in> set required_fields" and "f |\<notin>| fmdom m"
  shows "\<exists>e. load_state sm w = (Inl e, w) \<and> exn_class e = StateError"
proof -
  have "filter (\<lambda>f. f |\<notin>| fmdom m) required_fields \<noteq> []"
    using assms(3,4) by (auto simp: filter_empty_conv)
  then obtain e where "check_required (PDict m) required_fields = Inl e"
    by (cases "filter (\<lambda>f. f |\<notin>| fmdom m) required_fields") (simp_all add: check_required_dict)
  then have "validate_state (PDict m) = (Inl e, [])"
    by (simp add: validate_state_def)
  then show ?thesis
    using assms(1,2) by (simp add: load_state_def wrap_load_error_class)
qed

text \<open>
  Claim C9.  \<^verbatim>\<open>load_state\<close> raises a \<^verbatim>\<open>StateError\<close> when the state file is absent, and when
  the document lacks one of the required top-level fields \<^verbatim>\<open>version\<close>, \<^verbatim>\<open>timestamp\<close>,
  \<^verbatim>\<open>project\<close>, \<^verbatim>\<open>environment\<close>, \<^verbatim>\<open>resources\<close>; indeed every exception it raises is a
  \<^verbatim>\<open>StateError\<close>.  A document with the six known fields and a resources map of lists loads
  whatever its \<^verbatim>\<open>version\<close> value is: the value is returned as it is, and the only trace of
  a value other than \<^verbatim>\<open>"1.0"\<close> is one WARNING record in the log.
\<close>

theorem load_state_errors_and_version_tolerance:
  "(state_file w = None \<longrightarrow>
      (\<exists>e. load_state sm w = (Inl e, w) \<and> exn_class e = StateError))
   \<and> (state_file w = Some (Document doc) \<and> of_json doc = PDict m
        \<and> f \<in> set required_fields \<and> f |\<notin>| fmdom m \<longrightarrow>
      (\<exists>e. load_state sm w = (Inl e, w) \<and> exn_class e = StateError))
   \<and> (state_file w = Some (Document doc) \<and> of_json doc = PDict m
        \<and> fset (fmdom m) \<subseteq> set state_fields
        \<and> fmlookup m ''version'' = Some v \<and> fmlookup m ''timestamp'' = Some t
        \<and> fmlookup m ''project'' = Some p \<and> fmlookup m ''environment'' = Some e
        \<and> fmlookup m ''resources'' = Some (PDict rm) \<and> fmpred (\<lambda>k. is_list) rm \<longrightarrow>
      load_state sm w =
        (Inr \<lparr>version = v, timestamp = t, project = p, environment = e, resources = PDict rm,
              metadata = (case fmlookup m ''metadata'' of Some md \<Rightarrow> md | None \<Rightarrow> PDict fmempty)\<rparr>,
         w\<lparr>log := log w @
             (if v \<noteq> PStr STATE_VERSION
              then [Warning ''State version mismatch: expected {}, got {}'' [PStr STATE_VERSION, v]]
              else [])\<rparr>))
   \<and> (\<forall>x w'. load_state sm w = (Inl x, w') \<longrightarrow> exn_class x = StateError)"
proof (intro conjI impI allI)
  assume "state_file w = None"
  then show "\<exists>e. load_state sm w = (Inl e, w) \<and> exn_class e = StateError"
    by (simp add: load_state_def state_error_class)
next
  assume "state_file w = Some (Document doc) \<and> of_json doc = PDict m
        \<and> f \<in> set required_fields \<and> f |\<notin>| fmdom m"
  then show "\<exists>e. load_state sm w = (Inl e, w) \<and> exn_class e = StateError"
    using load_state_missing_field by blast
next
  assume "state_file w = Some (Document doc) \<and> of_json doc = PDict m
        \<and> fset (fmdom m) \<subseteq> set state_fields
        \<and> fmlookup m ''version'' = Some v \<and> fmlookup m ''timestamp'' = Some t
        \<and> fmlookup m ''project'' = Some p \<and> fmlookup m ''environment'' = Some e
        \<and> fmlookup m ''resources'' = Some (PDict rm) \<and> fmpred (\<lambda>k. is_list) rm"
  then show "load_state sm w =
        (Inr \<lparr>version = v, timestamp = t, project = p, environment = e, resources = PDict rm,
              metadata = (case fmlookup m ''metadata'' of Some md \<Rightarrow> md | None \<Rightarrow> PDict fmempty)\<rparr>,
         w\<lparr>log := log w @
             (if v \<noteq> PStr STATE_VERSION
              then [Warning ''State version mismatch: expected {}, got {}'' [PStr STATE_VERSION, v]]
              else [])\<rparr>)"
    using load_state_dict_ok by blast
next
  fix x w' assume "load_state sm w = (Inl x, w')"
  then show "exn_class x = StateError" by (rule load_state_raises_state_error)
qed

lemma version_2_parsed:
  "of_json version_2_document = PDict (fmap_of_list
     [(''version'', PStr ''2.0''), (''timestamp'', PStr ''2025-01-01T00:00:00Z''),
      (''resources'', PDict (fmap_of_list [(''kinesis_streams'', PList [])])),
      (''project'', PStr ''user-journey-analytics''), (''metadata'', PDict fmempty),
      (''environment'', PStr ''prod'')])"
  by (simp add: version_2_document_def)

theorem load_state_errors_and_version_tolerance_witness:
  "(\<exists>e. load_state default_store empty_disk = (Inl e, empty_disk) \<and> exn_class e = StateError)
   \<and> (\<exists>e. load_state default_store (empty_disk\<lparr>state_file := Some (Document versionless_document)\<rparr>)
            = (Inl e, empty_disk\<lparr>state_file := Some (Document versionless_document)\<rparr>)
          \<and> exn_class e = StateError)
   \<and> load_state default_store (empty_disk\<lparr>state_file := Some (Document version_2_document)\<rparr>)
       = (Inr \<lparr>version = PStr ''2.0'', timestamp = PStr ''2025-01-01T00:00:00Z'',
               project = PStr ''user-journey-analytics'', environment = PStr ''prod'',
               resources = PDict (fmap_of_list [(''kinesis_streams'', PList [])]),
               metadata = PDict fmempty\<rparr>,
          empty_disk\<lparr>state_file := Some (Document version_2_document),
            log := [Warning ''State version mismatch: expected {}, got {}'' [PStr ''1.0'', PStr ''2.0'']]\<rparr>)"
  using
    load_state_errors_and_version_tolerance [of empty_disk default_store]
    load_state_errors_and_version_tolerance
      [of "empty_disk\<lparr>state_file := Some (Document versionless_document)\<rparr>" default_store
          versionless_document
          "fmap_of_list [(''timestamp'', PStr ''2025-01-01T00:00:00Z''),
             (''resources'', PDict (fmap_of_list [(''kinesis_streams'', PList [])])),
             (''project'', PStr ''user-journey-analytics''), (''metadata'', PDict fmempty),
             (''environment'', PStr ''prod'')]"
          "''version''"]
    load_state_errors_and_version_tolerance
      [of "empty_disk\<lparr>state_file := Some (Document version_2_document)\<rparr>" default_store
          version_2_document
          "fmap_of_list [(''version'', PStr ''2.0''), (''timestamp'', PStr ''2025-01-01T00:00:00Z''),
             (''resources'', PDict (fmap_of_list [(''kinesis_streams'', PList [])])),
             (''project'', PStr ''user-journey-analytics''), (''metadata'', PDict fmempty),
             (''environment'', PStr ''prod'')]"
          _ "PStr ''2.0''" "PStr ''2025-01-01T00:00:00Z''" "PStr ''user-journey-analytics''"
          "PStr ''prod''" "fmap_of_list [(''kinesis_streams'', PList [])]"]
  by (simp add: empty_disk_def version_2_document_def versionless_document_def
      required_fields_def state_fields_def STATE_VERSION_def fset_of_list.rep_eq
      fmpred_fmupd_fresh)



lemma native_nan_free: "json_native v \<Longrightarrow> nan_free v"
  by (induction v) (simp_all add: list_all_iff fmpred_fmmap_bool)










section \<open>Properties of the controller\<close>

lemma manager_step_eq:
  "manager_step key pre call acc w =
     (acc\<lparr>acc_resources_affected := acc_resources_affected acc @ affected_of (fst (on_cloud call w)),
          acc_errors := acc_errors acc @ errors_of pre (fst (on_cloud call w)),
          acc_warnings := acc_warnings acc @ warnings_of (fst (on_cloud call w)),
          acc_service_results := dict_set (acc_service_results acc) key
             (case fst (on_cloud call w) of Inr r \<Rightarrow> Returned r | Inl e \<Rightarrow> Raised (exn_str e))\<rparr>,
      snd (on_cloud call w))"
  by (cases "on_cloud call w")
     (auto simp: manager_step_def affected_of_def errors_of_def warnings_of_def split: sum.splits)

lemma finish_success:
  "success (finish op s acc) \<longleftrightarrow> errors (finish op s acc) = [] \<and> resources_affected (finish op s acc) \<noteq> []"
  by (simp add: finish_def)

lemma stop_all_fields:
  fixes c :: "'c resource_controller"
  defines "acc1 \<equiv> \<lambda>ov w. fst (stop_step1 c (is_dry_run c ov) w)"
  shows "resources_affected (fst (stop_all_resources c ov w))
           = acc_resources_affected (acc1 ov w) @ concat (map affected_of (stop_calls c ov w))"
    and "errors (fst (stop_all_resources c ov w))
           = acc_errors (acc1 ov w) @ errors_of ''Lambda stop failed: '' (stop_calls c ov w ! 0)
               @ errors_of ''Kinesis stop failed: '' (stop_calls c ov w ! 1)
               @ errors_of ''CloudWatch stop failed: '' (stop_calls c ov w ! 2)"
    and "warnings (fst (stop_all_resources c ov w))
           = acc_warnings (acc1 ov w) @ concat (map warnings_of (stop_calls c ov w))"
    and "cost_impact (fst (stop_all_resources c ov w)) = calculate_cost_savings"
    and "success (fst (stop_all_resources c ov w)) \<longleftrightarrow>
           errors (fst (stop_all_resources c ov w)) = []
           \<and> resources_affected (fst (stop_all_resources c ov w)) \<noteq> []"
  unfolding acc1_def
  by (auto simp: stop_all_resources_def stop_calls_def manager_step_eq Let_def finish_def
      split: prod.splits)

lemma start_all_fields:
  fixes c :: "'c resource_controller"
  defines "acc1 \<equiv> \<lambda>ov w. fst (start_step1 c (is_dry_run c ov) w)"
  shows "resources_affected (fst (start_all_resources c ov w))
           = acc_resources_affected (acc1 ov w) @ concat (map affected_of (start_calls c ov w))"
    and "errors (fst (start_all_resources c ov w))
           = acc_errors (acc1 ov w) @ errors_of ''CloudWatch start failed: '' (start_calls c ov w ! 0)
               @ errors_of ''Kinesis start failed: '' (start_calls c ov w ! 1)
               @ errors_of ''Lambda start failed: '' (start_calls c ov w ! 2)"
    and "cost_impact (fst (start_all_resources c ov w)) = 0"
    and "success (fst (start_all_resources c ov w)) \<longleftrightarrow>
           errors (fst (start_all_resources c ov w)) = []
           \<and> resources_affected (fst (start_all_resources c ov w)) \<noteq> []"
  unfolding acc1_def
  by (auto simp: start_all_resources_def start_calls_def manager_step_eq Let_def finish_def
      split: prod.splits)

lemma step1_no_resources:
  "acc_resources_affected (fst (stop_step1 c dry w)) = []"
  "acc_resources_affected (fst (start_step1 c dry w)) = []"
  "acc_errors (fst (start_step1 c dry w)) = []"
  "acc_warnings (fst (stop_step1 c dry w)) = []"
  by (simp_all add: stop_step1_def start_step1_def empty_accumulated_def
      split: prod.splits sum.splits)


lemma raised_call_errors:
  "list_ex isl [a, b, d] \<Longrightarrow> errors_of p a @ errors_of q b @ errors_of r d \<noteq> []"
  by (auto simp: errors_of_def split: sum.splits)

lemma stop_calls_shape: "\<exists>a b d. stop_calls c ov w = [a, b, d]"
  by (simp add: stop_calls_def Let_def)

lemma start_calls_shape: "\<exists>a b d. start_calls c ov w = [a, b, d]"
  by (simp add: start_calls_def Let_def)

lemma stop_step1_errors:
  "acc_errors (fst (stop_step1 c (is_dry_run c ov) w)) = snapshot_errors c ov w"
  by (cases "controller_save_state c w")
     (auto simp: stop_step1_def snapshot_errors_def empty_accumulated_def split: sum.splits)

text \<open>
  Claim C1.  For every controller, override and world, the result of
  \<^verbatim>\<open>stop_all_resources\<close> and of \<^verbatim>\<open>start_all_resources\<close> has \<open>success\<close> true exactly when its
  \<open>errors\<close> list is empty and its \<open>resources_affected\<close> list is not; so a run with
  warnings, no error and no affected resource is unsuccessful.  The two lists are those
  accumulated over all steps: \<open>errors\<close> is the error of the snapshot step of a stop, if
  any, followed for each manager in call order by the errors it returned or, when it
  raised, by the one message of its failure; \<open>resources_affected\<close> is the concatenation
  of the lists of the managers that returned.  So as soon as one manager raises (in
  particular when exactly one of the three does) \<open>errors\<close> is non-empty and \<open>success\<close> is
  false, while the resources of the other managers are still listed.
\<close>

theorem aggregate_success:
  fixes c :: "'c resource_controller"
  defines "rs \<equiv> \<lambda>ov w. fst (stop_all_resources c ov w)"
    and "rt \<equiv> \<lambda>ov w. fst (start_all_resources c ov w)"
  shows "(success (rs ov w) \<longleftrightarrow> errors (rs ov w) = [] \<and> resources_affected (rs ov w) \<noteq> [])
       \<and> (success (rt ov w) \<longleftrightarrow> errors (rt ov w) = [] \<and> resources_affected (rt ov w) \<noteq> [])
       \<and> (warnings (rs ov w) \<noteq> [] \<and> errors (rs ov w) = [] \<and> resources_affected (rs ov w) = []
            \<longrightarrow> \<not> success (rs ov w))
       \<and> errors (rs ov w)
           = snapshot_errors c ov w
             @ errors_of ''Lambda stop failed: '' (stop_calls c ov w ! 0)
             @ errors_of ''Kinesis stop failed: '' (stop_calls c ov w ! 1)
             @ errors_of ''CloudWatch stop failed: '' (stop_calls c ov w ! 2)
       \<and> errors (rt ov w)
           = errors_of ''CloudWatch start failed: '' (start_calls c ov w ! 0)
             @ errors_of ''Kinesis start failed: '' (start_calls c ov w ! 1)
             @ errors_of ''Lambda start failed: '' (start_calls c ov w ! 2)
       \<and> resources_affected (rs ov w) = concat (map affected_of (stop_calls c ov w))
       \<and> resources_affected (rt ov w) = concat (map affected_of (start_calls c ov w))
       \<and> (list_ex isl (stop_calls c ov w) \<longrightarrow> errors (rs ov w) \<noteq> [] \<and> \<not> success (rs ov w))
       \<and> (list_ex isl (start_calls c ov w) \<longrightarrow> errors (rt ov w) \<noteq> [] \<and> \<not> success (rt ov w))"
proof -
  obtain a b d where s: "stop_calls c ov w = [a, b, d]"
    using stop_calls_shape by blast
  obtain a' b' d' where t: "start_calls c ov w = [a', b', d']"
    using start_calls_shape by blast
  have e1: "list_ex isl (stop_calls c ov w) \<Longrightarrow> errors (rs ov w) \<noteq> []"
    unfolding rs_def stop_all_fields(2) using raised_call_errors [of a b d] by (simp add: s)
  have e2: "list_ex isl (start_calls c ov w) \<Longrightarrow> errors (rt ov w) \<noteq> []"
    unfolding rt_def start_all_fields(2) using raised_call_errors [of a' b' d'] by (simp add: t)
  have s1: "success (rs ov w) \<longleftrightarrow> errors (rs ov w) = [] \<and> resources_affected (rs ov w) \<noteq> []"
    unfolding rs_def by (rule stop_all_fields(5))
  have s2: "success (rt ov w) \<longleftrightarrow> errors (rt ov w) = [] \<and> resources_affected (rt ov w) \<noteq> []"
    unfolding rt_def by (rule start_all_fields(4))
  have a1: "resources_affected (rs ov w) = concat (map affected_of (stop_calls c ov w))"
    unfolding rs_def by (simp add: stop_all_fields(1) step1_no_resources)
  have a2: "resources_affected (rt ov w) = concat (map affected_of (start_calls c ov w))"
    unfolding rt_def by (simp add: start_all_fields(1) step1_no_resources)
  have x1: "errors (rs ov w)
           = snapshot_errors c ov w
             @ errors_of ''Lambda stop failed: '' (stop_calls c ov w ! 0)
             @ errors_of ''Kinesis stop failed: '' (stop_calls c ov w ! 1)
             @ errors_of ''CloudWatch stop failed: '' (stop_calls c ov w ! 2)"
    unfolding rs_def stop_all_fields(2) stop_step1_errors ..
  have x2: "errors (rt ov w)
           = errors_of ''CloudWatch start failed: '' (start_calls c ov w ! 0)
             @ errors_of ''Kinesis start failed: '' (start_calls c ov w ! 1)
             @ errors_of ''Lambda start failed: '' (start_calls c ov w ! 2)"
    unfolding rt_def start_all_fields(2) by (simp add: step1_no_resources)
  from e1 e2 s1 s2 a1 a2 x1 x2 show ?thesis by blast
qed

lemma fixed_manager_simps:
  "stop (fixed_manager r s) dry c = (r, c)"
  "start (fixed_manager r s) dry c = (r, c)"
  "get_status (fixed_manager r s) c = (s, c)"
  "save_configuration (fixed_manager r s) c = (Inr (PDict fmempty), c)"
  by (simp_all add: fixed_manager_def)

theorem aggregate_success_witness:
  "errors (fst (stop_all_resources sample_controller None sample_world))
     = [''Kinesis stop failed: Failed to reduce shard count: Rate exceeded'']
   \<and> resources_affected (fst (stop_all_resources sample_controller None sample_world))
     = [''event_processor'', ''high-error-rate'']
   \<and> \<not> success (fst (stop_all_resources sample_controller None sample_world))
   \<and> \<not> success (fst (start_all_resources sample_controller None sample_world))
   \<and> warnings (fst (stop_all_resources idle_controller None sample_world)) \<noteq> []
   \<and> errors (fst (stop_all_resources idle_controller None sample_world)) = []
   \<and> resources_affected (fst (stop_all_resources idle_controller None sample_world)) = []
   \<and> \<not> success (fst (stop_all_resources idle_controller None sample_world))
   \<and> errors (fst (stop_all_resources faulty_controller None sample_world))
     = [''intervention-executor: not authorized'']
   \<and> resources_affected (fst (stop_all_resources faulty_controller None sample_world))
     = [''event_processor'', ''user-events'', ''high-error-rate'']
   \<and> \<not> success (fst (stop_all_resources faulty_controller None sample_world))
   \<and> errors (fst (start_all_resources faulty_controller None sample_world))
     = [''intervention-executor: not authorized'']
   \<and> \<not> success (fst (start_all_resources faulty_controller None sample_world))"
  using aggregate_success [of sample_controller None sample_world]
    aggregate_success [of idle_controller None sample_world]
    aggregate_success [of faulty_controller None sample_world]
  by (simp add: stop_all_fields start_all_fields stop_calls_def start_calls_def
      sample_controller_def idle_controller_def faulty_controller_def healthy_controller_def
      sample_world_def is_dry_run_def stop_step1_def snapshot_errors_def
      start_step1_def on_cloud_def fixed_manager_simps affected_of_def errors_of_def warnings_of_def
      one_resource_def nothing_found_def partly_stopped_def stream_failure_def empty_accumulated_def)


lemma dict_set_keys3:
  "map fst (dict_set (dict_set (dict_set [] ''lambda'' a) ''kinesis'' b) ''cloudwatch'' d)
   = [''lambda'', ''kinesis'', ''cloudwatch'']"
  by simp

lemma stop_all_service_keys:
  "map fst (service_results (fst (stop_all_resources c ov w))) = [''lambda'', ''kinesis'', ''cloudwatch'']"
  by (simp add: stop_all_resources_def manager_step_eq Let_def finish_def stop_step1_def
      empty_accumulated_def split: prod.splits sum.splits)

lemma save_failure_fields:
  fixes c :: "'c resource_controller"
  assumes "\<not> is_dry_run c ov" and "fst (controller_save_state c w) = Inl e"
  defines "r \<equiv> fst (stop_all_resources c ov w)"
  shows "errors r = (''Failed to save state: '' @ exn_str e)
              # errors_of ''Lambda stop failed: '' (stop_calls c ov w ! 0)
              @ errors_of ''Kinesis stop failed: '' (stop_calls c ov w ! 1)
              @ errors_of ''CloudWatch stop failed: '' (stop_calls c ov w ! 2)"
    and "warnings r = concat (map warnings_of (stop_calls c ov w))"
    and "resources_affected r = concat (map affected_of (stop_calls c ov w))"
    and "\<not> success r"
proof -
  obtain w1 where sv: "controller_save_state c w = (Inl e, w1)"
    using assms(2) by (cases "controller_save_state c w") simp
  have acc: "fst (stop_step1 c (is_dry_run c ov) w)
              = empty_accumulated\<lparr>acc_errors := [''Failed to save state: '' @ exn_str e]\<rparr>"
    using assms(1) by (simp add: stop_step1_def sv)
  show e: "errors r = (''Failed to save state: '' @ exn_str e)
              # errors_of ''Lambda stop failed: '' (stop_calls c ov w ! 0)
              @ errors_of ''Kinesis stop failed: '' (stop_calls c ov w ! 1)
              @ errors_of ''CloudWatch stop failed: '' (stop_calls c ov w ! 2)"
    unfolding r_def by (simp add: stop_all_fields(2) acc)
  show "warnings r = concat (map warnings_of (stop_calls c ov w))"
    unfolding r_def by (simp add: stop_all_fields(3) step1_no_resources)
  show "resources_affected r = concat (map affected_of (stop_calls c ov w))"
    unfolding r_def by (simp add: stop_all_fields(1) step1_no_resources)
  show "\<not> success r"
    using e unfolding r_def by (simp add: stop_all_fields(5))
qed

text \<open>
  Claim C2, amended.  In \<^verbatim>\<open>stop_all_resources\<close> with dry-run off, when saving the snapshot
  raises \<open>e\<close>, the message \<^verbatim>\<open>Failed to save state: e\<close> is the first entry of \<open>errors\<close>
  (the warnings are those of the managers alone), the controller still calls the stop of
  the function set, the stream and the alarm set, whose outcomes fill \<open>service_results\<close>
  and \<open>resources_affected\<close>, and the aggregate result is unsuccessful.
\<close>

theorem save_failure_is_an_error:
  fixes c :: "'c resource_controller"
  assumes "\<not> is_dry_run c ov" and "fst (controller_save_state c w) = Inl e"
  shows "errors (fst (stop_all_resources c ov w))
           = (''Failed to save state: '' @ exn_str e)
              # errors_of ''Lambda stop failed: '' (stop_calls c ov w ! 0)
              @ errors_of ''Kinesis stop failed: '' (stop_calls c ov w ! 1)
              @ errors_of ''CloudWatch stop failed: '' (stop_calls c ov w ! 2)
       \<and> warnings (fst (stop_all_resources c ov w)) = concat (map warnings_of (stop_calls c ov w))
       \<and> resources_affected (fst (stop_all_resources c ov w))
           = concat (map affected_of (stop_calls c ov w))
       \<and> map fst (service_results (fst (stop_all_resources c ov w)))
           = [''lambda'', ''kinesis'', ''cloudwatch'']
       \<and> \<not> success (fst (stop_all_resources c ov w))"
  using save_failure_fields [OF assms] stop_all_service_keys [of c ov w] by simp

lemma save_state_read_only:
  assumes "resource_map R" and "json_serializable R" and "json_serializable M" and "\<not> writable w"
  shows "\<exists>e. save_state sm R M w = (Inl e, w)"
proof -
  let ?st = "new_state sm w R M"
  have ser: "json_serializable (to_dict ?st)"
    using assms(2,3) by (simp add: to_dict_serializable) (simp add: new_state_def)
  show ?thesis
    using assms(4) ser
    by (simp add: save_state_def validate_new_state [OF assms(1)] json_dumps_def
        save_to_file_def Let_def)
qed

lemma healthy_save_fails:
  "isl (fst (controller_save_state healthy_controller read_only_world))"
proof -
  let ?R = "PDict (fmap_of_list
            [(''lambda_functions'', PList []),
             (''kinesis_streams'', PList [PDict fmempty]),
             (''cloudwatch_alarms'', PList [])])"
  let ?M = "PDict (fmap_of_list
            [(''saved_by'', PStr ''ResourceController''), (''operation'', PStr ''save_state'')])"
  have "\<exists>e. save_state default_store ?R ?M (empty_disk\<lparr>writable := False\<rparr>)
           = (Inl e, empty_disk\<lparr>writable := False\<rparr>)"
    by (rule save_state_read_only) (simp_all add: fmpred_fmupd_fresh)
  then obtain e where "save_state default_store ?R ?M (empty_disk\<lparr>writable := False\<rparr>)
           = (Inl e, empty_disk\<lparr>writable := False\<rparr>)" by blast
  then show ?thesis
    by (simp add: controller_save_state_def healthy_controller_def read_only_world_def
        on_cloud_def on_disk_def fixed_manager_simps get_list_def Let_def)
qed

lemma healthy_stop_fields:
  "warnings (fst (stop_all_resources healthy_controller None read_only_world)) = []"
  "resources_affected (fst (stop_all_resources healthy_controller None read_only_world))
     = [''event_processor'', ''user-events'', ''high-error-rate'']"
  by (simp_all add: stop_all_fields step1_no_resources stop_calls_def Let_def
      healthy_controller_def on_cloud_def fixed_manager_simps affected_of_def warnings_of_def
      one_resource_def)

lemma healthy_not_dry: "\<not> is_dry_run healthy_controller None"
  by (simp add: is_dry_run_def healthy_controller_def)

text \<open>
  The claim as stated fails: on a disk that cannot be written, with three managers that
  each stop one resource without error or warning, the save failure is the only error,
  there is no warning, and the result is unsuccessful.
\<close>

theorem save_failure_counterexample:
  "isl (fst (controller_save_state healthy_controller read_only_world))
   \<and> warnings (fst (stop_all_resources healthy_controller None read_only_world)) = []
   \<and> errors (fst (stop_all_resources healthy_controller None read_only_world)) \<noteq> []
   \<and> resources_affected (fst (stop_all_resources healthy_controller None read_only_world))
       = [''event_processor'', ''user-events'', ''high-error-rate'']
   \<and> success (fst (stop_all_resources healthy_controller None read_only_world)) = False"
proof -
  obtain e where e: "fst (controller_save_state healthy_controller read_only_world) = Inl e"
    using healthy_save_fails by (cases "fst (controller_save_state healthy_controller read_only_world)") auto
  from save_failure_fields(1,4) [OF healthy_not_dry e] healthy_stop_fields healthy_save_fails
  show ?thesis by simp
qed

theorem save_failure_is_an_error_witness:
  "\<exists>e. fst (controller_save_state healthy_controller read_only_world) = Inl e
      \<and> hd (errors (fst (stop_all_resources healthy_controller None read_only_world)))
          = ''Failed to save state: '' @ exn_str e
      \<and> length (errors (fst (stop_all_resources healthy_controller None read_only_world))) = 1
      \<and> map fst (service_results (fst (stop_all_resources healthy_controller None read_only_world)))
          = [''lambda'', ''kinesis'', ''cloudwatch'']
      \<and> success (fst (stop_all_resources healthy_controller None read_only_world)) = False"
proof -
  obtain e where e: "fst (controller_save_state healthy_controller read_only_world) = Inl e"
    using healthy_save_fails by (cases "fst (controller_save_state healthy_controller read_only_world)") auto
  have "errors_of p (stop_calls healthy_controller None read_only_world ! i) = []" if "i < 3" for p i
    using that
    by (auto simp: stop_calls_def Let_def healthy_controller_def on_cloud_def fixed_manager_simps
        errors_of_def one_resource_def less_Suc_eq numeral_3_eq_3)
  then show ?thesis
    using save_failure_is_an_error [OF healthy_not_dry e] e by simp
qed

text \<open>
  Claim C6.  The \<open>cost_impact\<close> of \<^verbatim>\<open>stop_all_resources\<close> does not depend on the managers'
  results: for every controller, override and world it is the value of the fixed formula
  \<open>1 * 0.015 * 24 + 0 + 0\<close> (one shard-hour price for a day, nothing for functions,
  nothing for alarms), that is \<open>0.36\<close>.
\<close>

theorem stop_cost_impact_is_constant:
  "cost_impact (fst (stop_all_resources c ov w)) = 36 / 100
   \<and> cost_impact (fst (stop_all_resources c ov w)) = 1 * (15 / 1000) * 24 + 0 + 0"
  by (simp add: stop_all_fields(4) calculate_cost_savings_def)

theorem stop_cost_impact_is_constant_witness:
  "cost_impact (fst (stop_all_resources idle_controller None sample_world)) = 36 / 100
   \<and> cost_impact (fst (stop_all_resources healthy_controller None read_only_world)) = 36 / 100
   \<and> resources_affected (fst (stop_all_resources idle_controller None sample_world)) = []"
  using stop_cost_impact_is_constant [of idle_controller None sample_world]
    stop_cost_impact_is_constant [of healthy_controller None read_only_world]
  by (simp add: stop_all_fields step1_no_resources stop_calls_def Let_def
      idle_controller_def on_cloud_def fixed_manager_simps affected_of_def nothing_found_def)


lemma status_step_eq:
  "status_step key call t w =
     (t\<lparr>tally_total := tally_total t + counted (fst (on_cloud call w)) ss_total_resources,
        tally_running := tally_running t + counted (fst (on_cloud call w)) ss_running_resources,
        tally_stopped := tally_stopped t + counted (fst (on_cloud call w)) ss_stopped_resources,
        tally_hourly_cost := tally_hourly_cost t
           + (case fst (on_cloud call w) of Inr s \<Rightarrow> ss_estimated_hourly_cost s | Inl e \<Rightarrow> 0),
        tally_service_status := dict_set (tally_service_status t) key
           (case fst (on_cloud call w) of Inr s \<Rightarrow> Status s | Inl e \<Rightarrow> StatusError (exn_str e))\<rparr>,
      snd (on_cloud call w))"
  by (cases "on_cloud call w") (auto simp: status_step_def counted_def split: sum.splits)

text \<open>
  Claim C10.  The counts of the status report are the sums of the counts of the managers
  whose status call returned, and the overall status is a function of these sums:
  \<open>STOPPED\<close> exactly when the stopped count equals the total and the total is positive,
  otherwise \<open>RUNNING\<close> exactly when the running count is positive, otherwise \<open>UNKNOWN\<close>.
\<close>

theorem overall_status_from_counts:
  fixes c :: "'c resource_controller"
  defines "rep \<equiv> \<lambda>w. fst (get_resource_status c w)"
    and "s1 \<equiv> \<lambda>w. on_cloud (get_status (lambda_manager c)) w"
  defines "s2 \<equiv> \<lambda>w. on_cloud (get_status (kinesis_manager c)) (snd (s1 w))"
  defines "s3 \<equiv> \<lambda>w. on_cloud (get_status (cloudwatch_manager c)) (snd (s2 w))"
  shows "total_resources (rep w) = counted (fst (s1 w)) ss_total_resources
            + counted (fst (s2 w)) ss_total_resources + counted (fst (s3 w)) ss_total_resources
       \<and> running_resources (rep w) = counted (fst (s1 w)) ss_running_resources
            + counted (fst (s2 w)) ss_running_resources + counted (fst (s3 w)) ss_running_resources
       \<and> stopped_resources (rep w) = counted (fst (s1 w)) ss_stopped_resources
            + counted (fst (s2 w)) ss_stopped_resources + counted (fst (s3 w)) ss_stopped_resources
       \<and> (overall_status (rep w) = STOPPED \<longleftrightarrow>
              stopped_resources (rep w) = total_resources (rep w) \<and> total_resources (rep w) > 0)
       \<and> (overall_status (rep w) = RUNNING \<longleftrightarrow>
              \<not> (stopped_resources (rep w) = total_resources (rep w) \<and> total_resources (rep w) > 0)
              \<and> running_resources (rep w) > 0)
       \<and> (overall_status (rep w) = UNKNOWN \<longleftrightarrow>
              \<not> (stopped_resources (rep w) = total_resources (rep w) \<and> total_resources (rep w) > 0)
              \<and> \<not> running_resources (rep w) > 0)"
  unfolding rep_def s1_def s2_def s3_def
  by (simp add: get_resource_status_def status_step_eq Let_def split: prod.splits)

theorem overall_status_from_counts_witness:
  "overall_status (fst (get_resource_status sample_controller sample_world)) = STOPPED
   \<and> total_resources (fst (get_resource_status sample_controller sample_world)) = 5
   \<and> stopped_resources (fst (get_resource_status sample_controller sample_world)) = 5
   \<and> overall_status (fst (get_resource_status healthy_controller sample_world)) = RUNNING
   \<and> running_resources (fst (get_resource_status healthy_controller sample_world)) = 2
   \<and> overall_status (fst (get_resource_status idle_controller sample_world)) = UNKNOWN"
  using overall_status_from_counts [of sample_controller sample_world]
    overall_status_from_counts [of healthy_controller sample_world]
    overall_status_from_counts [of idle_controller sample_world]
  by (simp add: sample_controller_def healthy_controller_def idle_controller_def
      on_cloud_def fixed_manager_simps counted_def counts_def)


section \<open>Properties of the dry-run simulator\<close>

lemma set_map_filter_iff:
  "ch \<in> set (List.map_filter sim xs) \<longleftrightarrow> (\<exists>x \<in> set xs. sim x = Some ch)"
  by (induction xs) (auto simp: map_filter_simps split: option.splits)

lemma collect_member:
  "ch \<in> set (collect sim items) \<longleftrightarrow> (\<exists>xs x. items = Some xs \<and> x \<in> set xs \<and> sim x = Some ch)"
  by (cases items) (auto simp: collect_def set_map_filter_iff)

lemma changes_of_stop:
  "set (changes (simulate_stop_operation rs)) =
     set (collect simulate_kinesis_stop (r_kinesis rs))
     \<union> set (collect simulate_lambda_stop (r_lambda rs))
     \<union> set (collect simulate_sagemaker_stop (r_sagemaker rs))
     \<union> set (collect simulate_cloudwatch_stop (r_cloudwatch rs))"
  by (auto simp: simulate_stop_operation_def Let_def)

lemma kinesis_stop_shape:
  "simulate_kinesis_stop s = Some ch \<Longrightarrow>
     resource_type ch = ''kinesis_stream'' \<and> change_type ch = SCALE_DOWN"
  by (auto simp: simulate_kinesis_stop_def Let_def split: if_splits)

lemma lambda_stop_shape:
  "simulate_lambda_stop f = Some ch \<Longrightarrow>
     resource_type ch = ''lambda_function'' \<and> change_type ch = DISABLE \<and> risk_level ch = HIGH
     \<and> proposed_state ch = [(''reserved_concurrency'', PInt 0)]"
  by (auto simp: simulate_lambda_stop_def Let_def split: if_splits)

lemma sagemaker_stop_shape:
  "simulate_sagemaker_stop e = Some ch \<Longrightarrow>
     resource_type ch = ''sagemaker_endpoint'' \<and> change_type ch = DELETE \<and> risk_level ch = HIGH"
  by (auto simp: simulate_sagemaker_stop_def Let_def split: if_splits)

lemma cloudwatch_stop_shape:
  "simulate_cloudwatch_stop a = Some ch \<Longrightarrow>
     resource_type ch = ''cloudwatch_alarm'' \<and> change_type ch = DISABLE \<and> risk_level ch = LOW"
  by (auto simp: simulate_cloudwatch_stop_def Let_def split: if_splits)

lemma or_unlimited_not_zero: "or_unlimited t \<noteq> PInt 0"
  by (simp add: or_unlimited_def split: option.splits)

lemma kinesis_start_shape:
  "simulate_kinesis_start cur tgt = Some ch \<Longrightarrow>
     resource_type ch = ''kinesis_stream'' \<and> change_type ch = SCALE_UP"
  unfolding simulate_kinesis_start_def Let_def by (simp split: if_splits) force

lemma lambda_start_shape:
  "simulate_lambda_start fcur ftgt = Some ch \<Longrightarrow>
     resource_type ch = ''lambda_function'' \<and> change_type ch = ENABLE
     \<and> proposed_state ch \<noteq> [(''reserved_concurrency'', PInt 0)]"
  unfolding simulate_lambda_start_def Let_def
  by (simp split: if_splits) (use or_unlimited_not_zero in force)

lemma sagemaker_start_shape:
  "simulate_sagemaker_start n cfg = Some ch \<Longrightarrow>
     resource_type ch = ''sagemaker_endpoint'' \<and> change_type ch = CREATE"
  unfolding simulate_sagemaker_start_def
  by (simp split: if_splits option.splits) force

lemma cloudwatch_start_shape:
  "simulate_cloudwatch_start a = Some ch \<Longrightarrow>
     resource_type ch = ''cloudwatch_alarm'' \<and> change_type ch = ENABLE"
  unfolding simulate_cloudwatch_start_def Let_def by (simp split: if_splits) force

text \<open>
  Claim C8.  In every result of the stop simulation, a change that takes away all the
  serving capacity of a resource (a function's reserved concurrency set to \<open>0\<close>, an
  endpoint deleted) has risk level High or Critical, and a change that disables an alarm
  has risk level Low.  The start simulation builds its changes with the four start
  functions, none of which yields a change of either kind.
\<close>

theorem risk_classification:
  "(\<forall>ch \<in> set (changes (simulate_stop_operation rs)).
       (disables_serving_capacity ch \<longrightarrow> risk_level ch = HIGH \<or> risk_level ch = CRITICAL)
       \<and> (disables_alarm ch \<longrightarrow> risk_level ch = LOW))
   \<and> (\<forall>ch. simulate_kinesis_start cur tgt = Some ch \<or> simulate_lambda_start fcur ftgt = Some ch
            \<or> simulate_sagemaker_start n cfg = Some ch \<or> simulate_cloudwatch_start a = Some ch
         \<longrightarrow> \<not> disables_serving_capacity ch \<and> \<not> disables_alarm ch)"
proof (intro conjI ballI allI impI)
  fix ch assume ch: "ch \<in> set (changes (simulate_stop_operation rs))"
  then consider
      s where "simulate_kinesis_stop s = Some ch"
    | f where "simulate_lambda_stop f = Some ch"
    | e where "simulate_sagemaker_stop e = Some ch"
    | a where "simulate_cloudwatch_stop a = Some ch"
    by (auto simp: changes_of_stop collect_member)
  note origin = this
  {
    assume "disables_serving_capacity ch"
    with origin show "risk_level ch = HIGH \<or> risk_level ch = CRITICAL"
      by cases (auto simp: disables_serving_capacity_def dest!: kinesis_stop_shape lambda_stop_shape
          sagemaker_stop_shape cloudwatch_stop_shape)
  }
  {
    assume "disables_alarm ch"
    with origin show "risk_level ch = LOW"
      by cases (auto simp: disables_alarm_def dest!: kinesis_stop_shape lambda_stop_shape
          sagemaker_stop_shape cloudwatch_stop_shape)
  }
next
  fix ch
  assume "simulate_kinesis_start cur tgt = Some ch \<or> simulate_lambda_start fcur ftgt = Some ch
            \<or> simulate_sagemaker_start n cfg = Some ch \<or> simulate_cloudwatch_start a = Some ch"
  then consider "simulate_kinesis_start cur tgt = Some ch" | "simulate_lambda_start fcur ftgt = Some ch"
    | "simulate_sagemaker_start n cfg = Some ch" | "simulate_cloudwatch_start a = Some ch"
    by blast
  then have "\<not> disables_serving_capacity ch \<and> \<not> disables_alarm ch"
  proof cases
    case 1
    from kinesis_start_shape [OF this] show ?thesis
      by (simp add: disables_serving_capacity_def disables_alarm_def)
  next
    case 2
    from lambda_start_shape [OF this] show ?thesis
      by (simp add: disables_serving_capacity_def disables_alarm_def)
  next
    case 3
    from sagemaker_start_shape [OF this] show ?thesis
      by (simp add: disables_serving_capacity_def disables_alarm_def)
  next
    case 4
    from cloudwatch_start_shape [OF this] show ?thesis
      by (simp add: disables_serving_capacity_def disables_alarm_def)
  qed
  then show "\<not> disables_serving_capacity ch" "\<not> disables_alarm ch" by simp_all
qed


lemma full_scenario_changes:
  "map (\<lambda>ch. (disables_serving_capacity ch, disables_alarm ch, risk_level ch))
       (changes (simulate_stop_operation full_scenario))
   = [(False, False, LOW), (True, False, HIGH), (True, False, HIGH), (False, True, LOW)]"
  by (simp add: simulate_stop_operation_def full_scenario_def collect_def map_filter_simps
      simulate_kinesis_stop_def simulate_lambda_stop_def simulate_sagemaker_stop_def
      simulate_cloudwatch_stop_def get_or_def running_states_def Let_def
      disables_serving_capacity_def disables_alarm_def)

theorem risk_classification_witness:
  "map (\<lambda>ch. (disables_serving_capacity ch, disables_alarm ch, risk_level ch))
       (changes (simulate_stop_operation full_scenario))
   = [(False, False, LOW), (True, False, HIGH), (True, False, HIGH), (False, True, LOW)]
   \<and> list_all (\<lambda>ch. risk_level ch = HIGH \<or> \<not> disables_serving_capacity ch)
        (changes (simulate_stop_operation full_scenario))"
proof -
  have "list_all (\<lambda>ch. risk_level ch = HIGH \<or> risk_level ch = CRITICAL \<or> \<not> disables_serving_capacity ch)
        (changes (simulate_stop_operation full_scenario))"
    using risk_classification [of full_scenario, THEN conjunct1] by (auto simp: list_all_iff)
  moreover have "list_all (\<lambda>ch. risk_level ch \<noteq> CRITICAL) (changes (simulate_stop_operation full_scenario))"
    using full_scenario_changes by (auto simp: list_all_iff)
  ultimately show ?thesis
    using full_scenario_changes by (auto simp: list_all_iff)
qed

lemma scenario_costs:
  "calculate_current_costs scenario = calculate_total_cost ''us-east-1''
     [calculate_kinesis_cost 2 24 0 0, calculate_lambda_cost 1 0 1000 1024 0,
      calculate_cloudwatch_cost 1 0 0 0 True]"
  "calculate_current_costs (apply_stop_changes scenario) = calculate_total_cost ''us-east-1''
     [calculate_kinesis_cost 1 24 0 0, calculate_lambda_cost 1 0 1000 1024 0,
      calculate_cloudwatch_cost 1 0 0 0 False]"
  by (simp_all add: calculate_current_costs_def apply_stop_changes_def scenario_def get_or_def Let_def)

lemma scenario_monthly:
  "monthly_cost (calculate_kinesis_cost 2 24 0 0) = 216 / 10"
  "monthly_cost (calculate_kinesis_cost 1 24 0 0) = 108 / 10"
  "monthly_cost (calculate_lambda_cost 1 0 1000 1024 0) = 0"
  "monthly_cost (calculate_cloudwatch_cost 1 0 0 0 True) = 1 / 10"
  "monthly_cost (calculate_cloudwatch_cost 1 0 0 0 False) = 0"
  by (simp_all add: calculate_kinesis_cost_def calculate_lambda_cost_def calculate_cloudwatch_cost_def
      SHARD_HOUR_def PUT_PAYLOAD_UNIT_def ENHANCED_FANOUT_HOUR_def ALARM_def LOG_INGESTION_GB_def
      LOG_STORAGE_GB_def CUSTOM_METRIC_def LAMBDA_REQUEST_def GB_SECOND_def FREE_TIER_REQUESTS_def
      FREE_TIER_GB_SECONDS_def Let_def)

lemma scenario_names:
  "service_name (calculate_kinesis_cost n r p f) = ''Kinesis Data Streams''"
  "service_name (calculate_lambda_cost a b d e g) = ''Lambda''"
  "service_name (calculate_cloudwatch_cost h i j k l) = ''CloudWatch''"
  by (simp_all add: calculate_kinesis_cost_def calculate_lambda_cost_def calculate_cloudwatch_cost_def
      Let_def)

lemma scenario_changes:
  "map (\<lambda>ch. (resource_type ch, change_type ch, current_state ch, proposed_state ch))
       (changes (simulate_stop_operation scenario))
   = [(''kinesis_stream'', SCALE_DOWN, [(''shard_count'', PInt 2)], [(''shard_count'', PInt 1)]),
      (''lambda_function'', DISABLE, [(''reserved_concurrency'', PStr ''unlimited'')],
         [(''reserved_concurrency'', PInt 0)]),
      (''cloudwatch_alarm'', DISABLE, [(''enabled'', PBool True)], [(''enabled'', PBool False)])]"
  by (simp add: simulate_stop_operation_def scenario_def collect_def map_filter_simps
      simulate_kinesis_stop_def simulate_lambda_stop_def
      simulate_cloudwatch_stop_def get_or_def or_unlimited_def Let_def)

lemma scenario_errors: "dr_errors (simulate_stop_operation scenario) = []"
  by (simp add: simulate_stop_operation_def validate_stop_operation_def no_resources_def
      scenario_def Let_def)

lemma scenario_estimates:
  "current_estimate (simulate_stop_operation scenario) = calculate_current_costs scenario"
  "proposed_estimate (simulate_stop_operation scenario)
     = calculate_current_costs (apply_stop_changes scenario)"
  "total_cost_impact (simulate_stop_operation scenario)
     = ce_monthly_cost (calculate_current_costs scenario)
       - ce_monthly_cost (calculate_current_costs (apply_stop_changes scenario))"
  by (simp_all add: simulate_stop_operation_def Let_def)

text \<open>
  Claim C4, amended.  On the example scenario the stop simulation yields exactly three
  changes (the stream scaled down from 2 shards to 1, the function's concurrency set to
  \<open>0\<close>, the alarm disabled), no error, and a positive total cost impact of \<open>10.90\<close> per
  month: \<open>10.80\<close> from the stream's one-shard reduction and \<open>0.10\<close> from the alarm, whose
  monthly charge the cost model counts only while alarms are enabled; the function
  contributes nothing.
\<close>

theorem example_scenario:
  "map (\<lambda>ch. (resource_type ch, change_type ch, current_state ch, proposed_state ch))
       (changes (simulate_stop_operation scenario))
   = [(''kinesis_stream'', SCALE_DOWN, [(''shard_count'', PInt 2)], [(''shard_count'', PInt 1)]),
      (''lambda_function'', DISABLE, [(''reserved_concurrency'', PStr ''unlimited'')],
         [(''reserved_concurrency'', PInt 0)]),
      (''cloudwatch_alarm'', DISABLE, [(''enabled'', PBool True)], [(''enabled'', PBool False)])]
   \<and> dr_errors (simulate_stop_operation scenario) = []
   \<and> total_cost_impact (simulate_stop_operation scenario) = 109 / 10
   \<and> 0 < total_cost_impact (simulate_stop_operation scenario)
   \<and> map (\<lambda>s. (service_name s, monthly_cost s))
         (service_breakdown (current_estimate (simulate_stop_operation scenario)))
       = [(''Kinesis Data Streams'', 216 / 10), (''Lambda'', 0), (''CloudWatch'', 1 / 10)]
   \<and> map (\<lambda>s. (service_name s, monthly_cost s))
         (service_breakdown (proposed_estimate (simulate_stop_operation scenario)))
       = [(''Kinesis Data Streams'', 108 / 10), (''Lambda'', 0), (''CloudWatch'', 0)]"
  by (simp add: scenario_changes scenario_errors scenario_estimates scenario_costs
      calculate_total_cost_def scenario_monthly scenario_names)

theorem example_scenario_witness:
  "length (changes (simulate_stop_operation scenario)) = 3
   \<and> 0 < total_cost_impact (simulate_stop_operation scenario)"
proof -
  let ?F = "\<lambda>ch. (resource_type ch, change_type ch, current_state ch, proposed_state ch)"
  have "length (map ?F (changes (simulate_stop_operation scenario))) = 3"
    by (subst example_scenario [THEN conjunct1]) simp
  then have "length (changes (simulate_stop_operation scenario)) = 3" by simp
  moreover have "0 < total_cost_impact (simulate_stop_operation scenario)"
    using example_scenario by blast
  ultimately show ?thesis by blast
qed

text \<open>
  The claim as stated fails: the total cost impact exceeds the stream's one-shard
  reduction by the \<open>0.10\<close> that disabling the alarm saves.
\<close>

theorem stream_only_counterexample:
  "total_cost_impact (simulate_stop_operation scenario)
     - (monthly_cost (calculate_kinesis_cost 2 24 0 0) - monthly_cost (calculate_kinesis_cost 1 24 0 0))
   = 1 / 10
   \<and> monthly_cost (calculate_cloudwatch_cost 1 0 0 0 True)
       - monthly_cost (calculate_cloudwatch_cost 1 0 0 0 False) = 1 / 10
   \<and> total_cost_impact (simulate_stop_operation scenario)
       \<noteq> monthly_cost (calculate_kinesis_cost 2 24 0 0) - monthly_cost (calculate_kinesis_cost 1 24 0 0)"
  by (simp add: scenario_estimates scenario_costs calculate_total_cost_def scenario_monthly)


section \<open>Properties of the Lambda and Kinesis managers\<close>


lemma unchanged_refl [simp]: "unchanged c c"
  by (simp add: unchanged_def)

lemma unchanged_trans: "unchanged a b \<Longrightarrow> unchanged b c \<Longrightarrow> unchanged a c"
  by (simp add: unchanged_def)

lemma quiet_refl [simp]: "quiet c c"
  by (simp add: quiet_def issued_def)

lemma quiet_iff:
  "quiet c c' \<longleftrightarrow> unchanged c c' \<and> (\<exists>extra. calls c' = calls c @ extra \<and> filter mutating extra = [])"
proof
  assume q: "quiet c c'"
  then have "calls c' = calls c @ issued c c'"
    unfolding quiet_def issued_def by (metis append_take_drop_id)
  with q show "unchanged c c' \<and> (\<exists>extra. calls c' = calls c @ extra \<and> filter mutating extra = [])"
    unfolding quiet_def by blast
next
  assume "unchanged c c' \<and> (\<exists>extra. calls c' = calls c @ extra \<and> filter mutating extra = [])"
  then show "quiet c c'"
    by (auto simp: quiet_def issued_def)
qed

lemma quiet_trans: "quiet a b \<Longrightarrow> quiet b c \<Longrightarrow> quiet a c"
  unfolding quiet_iff by (auto intro: unchanged_trans)

lemma quiet_issued: "quiet c c' \<Longrightarrow> filter mutating (issued c c') = []"
  by (simp add: quiet_def)

lemma quiet_unchanged: "quiet c c' \<Longrightarrow> unchanged c c'"
  by (simp add: quiet_def)

subsection \<open>The decorated methods\<close>

lemma retry_loop_invariant:
  assumes "\<And>w. P w \<Longrightarrow> P (snd (func w))" and "P w"
  shows "P (snd (retry_loop m b X func k dl le sl w))"
  using assms
proof (induction m b X func k dl le sl w rule: retry_loop.induct)
  case (1 m b X func k dl le sl w)
  obtain r w' where f: "func w = (r, w')" by (cases "func w")
  then have w': "P w'" using "1.prems"(1) [of w] "1.prems"(2) by simp
  show ?case
    apply (subst retry_loop.simps)
    using 1 w' f
    by (auto split: sum.splits option.splits)
qed

lemma retry_loop_fails:
  assumes "\<And>w. P w \<Longrightarrow> isl (fst (func w)) \<and> P (snd (func w))" and "P w"
    and "le \<noteq> None \<or> int k \<le> m"
  shows "isl (fst (fst (retry_loop m b X func k dl le sl w)))"
  using assms
proof (induction m b X func k dl le sl w rule: retry_loop.induct)
  case (1 m b X func k dl le sl w)
  obtain r w' where f: "func w = (r, w')" by (cases "func w")
  then have w': "P w'" and r: "isl r" using "1.prems"(1) [of w] "1.prems"(2) by auto
  show ?case
    apply (subst retry_loop.simps)
    using 1 w' f r
    by (auto split: sum.splits option.splits)
qed

lemma decorated_returns:
  assumes "body c = (Inr v, c')"
  shows "decorated body c = (Inr (Some v), c')"
  using assms
  by (simp add: decorated_def retry_with_backoff_def retry_loop.simps [of 3])

lemma decorated_fails:
  assumes "\<And>w. P w \<Longrightarrow> isl (fst (body w)) \<and> P (snd (body w))" and "P c"
  shows "isl (fst (decorated body c))"
proof -
  have "isl (fst (fst (retry_loop 3 2 default_exceptions body 0 1 None [] c)))"
    by (rule retry_loop_fails [where P = P]) (use assms in auto)
  then show ?thesis
    by (auto simp: decorated_def retry_with_backoff_def split: prod.splits)
qed

lemma decorated_invariant:
  assumes "\<And>w. P w \<Longrightarrow> P (snd (body w))" and "P c"
  shows "P (snd (decorated body c))"
proof -
  have "P (snd (retry_loop 3 2 default_exceptions body 0 1 None [] c))"
    by (rule retry_loop_invariant [where P = P]) (use assms in auto)
  then show ?thesis
    by (auto simp: decorated_def retry_with_backoff_def split: prod.splits)
qed


subsection \<open>Reading the cloud\<close>

lemma get_function_configuration_quiet: "quiet c (snd (get_function_configuration name c))"
  by (simp add: get_function_configuration_def quiet_def unchanged_def issued_def Let_def
           split: option.splits)

lemma describe_stream_quiet: "quiet c (snd (describe_stream name c))"
  by (simp add: describe_stream_def quiet_def unchanged_def issued_def Let_def
           split: option.splits)

lemma seen_function_unchanged: "unchanged c c' \<Longrightarrow> seen_function c' name = seen_function c name"
  by (auto simp: seen_function_def unchanged_def split: option.splits)

lemma seen_stream_unchanged: "unchanged c c' \<Longrightarrow> seen_stream c' name = seen_stream c name"
  by (auto simp: seen_stream_def unchanged_def split: option.splits)

lemma not_found_code [simp]:
  "isinstance (not_found n) ClientError" "response_code (not_found n) = ''ResourceNotFoundException''"
  by (simp_all add: not_found_def isinstance_def issubclass_def response_code_def get_or_def)

lemma get_function_config_body_quiet: "quiet c (snd (get_function_config_body name c))"
  using get_function_configuration_quiet [of c name]
  by (auto simp: get_function_config_body_def split: prod.splits sum.splits)

lemma get_function_config_body_seen:
  "fst (get_function_config_body name c) =
     (case seen_function c name of
        Missing \<Rightarrow> Inr None
      | Found conc \<Rightarrow> Inr (Some conc)
      | Failing \<Rightarrow> fst (get_function_config_body name c))"
  "seen_function c name = Failing \<Longrightarrow> isl (fst (get_function_config_body name c))"
  by (auto simp: get_function_config_body_def get_function_configuration_def seen_function_def Let_def
           split: prod.splits sum.splits option.splits if_splits)


lemma get_function_config_quiet: "quiet c (snd (get_function_config name c))"
proof -
  have "quiet c (snd (decorated (get_function_config_body name) c))"
    by (rule decorated_invariant [where P = "quiet c"])
       (auto intro: quiet_trans get_function_config_body_quiet)
  then show ?thesis
    by (auto simp: get_function_config_def split: prod.splits sum.splits option.splits)
qed

lemma get_function_config_missing:
  assumes "seen_function c name = Missing"
  shows "fst (get_function_config name c) = Inr None"
proof -
  obtain c' where "get_function_config_body name c = (Inr None, c')"
    using get_function_config_body_seen(1) [of name c] assms
    by (cases "get_function_config_body name c") simp
  then show ?thesis
    by (simp add: get_function_config_def decorated_returns)
qed

lemma get_function_config_found:
  assumes "seen_function c name = Found conc"
  shows "fst (get_function_config name c) = Inr (Some conc)"
proof -
  obtain c' where "get_function_config_body name c = (Inr (Some conc), c')"
    using get_function_config_body_seen(1) [of name c] assms
    by (cases "get_function_config_body name c") simp
  then show ?thesis
    by (simp add: get_function_config_def decorated_returns)
qed

lemma get_function_config_failing:
  assumes "seen_function c name = Failing"
  shows "isl (fst (get_function_config name c))"
proof -
  have "isl (fst (decorated (get_function_config_body name) c))"
  proof (rule decorated_fails [where P = "\<lambda>w. seen_function w name = Failing"])
    fix w assume w: "seen_function w name = Failing"
    have "seen_function (snd (get_function_config_body name w)) name = seen_function w name"
      by (rule seen_function_unchanged) (rule quiet_unchanged, rule get_function_config_body_quiet)
    with w show "isl (fst (get_function_config_body name w))
        \<and> seen_function (snd (get_function_config_body name w)) name = Failing"
      by (simp add: get_function_config_body_seen(2))
  qed (rule assms)
  then show ?thesis
    by (auto simp: get_function_config_def split: prod.splits sum.splits option.splits)
qed

lemma unchanged_only_stopped: "unchanged c c' \<Longrightarrow> only_stopped c c'"
  by (simp add: unchanged_def only_stopped_def)

lemma only_stopped_trans:
  assumes "only_stopped a b" and "only_stopped b c"
  shows "only_stopped a c"
proof -
  have "lambda_functions c n = lambda_functions a n
      \<or> (lambda_functions a n \<noteq> None \<and> lambda_functions c n = Some (Some 0))" for n
    using assms unfolding only_stopped_def by (metis option.distinct(1))
  with assms show ?thesis
    unfolding only_stopped_def by simp
qed

lemma only_stopped_missing:
  "only_stopped c c' \<Longrightarrow> seen_function c' n = Missing \<longleftrightarrow> seen_function c n = Missing"
  unfolding only_stopped_def seen_function_def
  by (auto split: option.splits if_splits) (metis option.distinct(1))+

lemma only_stopped_settled:
  "only_stopped c c' \<Longrightarrow> settled dry c n \<Longrightarrow> settled dry c' n"
  unfolding only_stopped_def seen_function_def settled_def
  by (auto split: option.splits if_splits seen.splits) (metis option.distinct(1) option.inject)+


lemma put_function_concurrency_found:
  assumes "lambda_functions c name = Some conc"
  shows "only_stopped c (snd (put_function_concurrency name 0 c))"
    and "\<not> isl (fst (put_function_concurrency name 0 c)) \<Longrightarrow>
           lambda_functions (snd (put_function_concurrency name 0 c)) name = Some (Some 0)"
  using assms
  by (auto simp: put_function_concurrency_def only_stopped_def Let_def split: option.splits)

lemma seen_found:
  "seen_function c name = Found conc \<longleftrightarrow>
     get_fault c name = None
     \<and> (\<exists>x. lambda_functions c name = Some x \<and> conc = (if reports_concurrency c then x else None))"
  by (auto simp: seen_function_def split: option.splits)

lemma stop_function_missing:
  assumes "seen_function c name = Missing"
  shows "stop_function dry name p c =
           (p\<lparr>pr_warnings := pr_warnings p @ [''Function not found: '' @ name]\<rparr>,
            snd (get_function_config name c))"
  using get_function_config_missing [OF assms]
  by (cases "get_function_config name c") (simp add: stop_function_def)

lemma stop_function_settled_found:
  assumes "seen_function c name = Found conc" and "conc = Some 0 \<or> dry"
  shows "stop_function dry name p c =
           (p\<lparr>pr_warnings := pr_warnings p @ (if conc = Some 0 then [name @ '': already stopped''] else []),
              pr_resources_affected := pr_resources_affected p @ [name]\<rparr>,
            snd (get_function_config name c))"
  using get_function_config_found [OF assms(1)] assms(2)
  by (cases "get_function_config name c") (auto simp: stop_function_def)

lemma stop_function_settled:
  assumes "settled dry c name"
  shows "stop_function dry name p c =
           (p\<lparr>pr_warnings := pr_warnings p @ stop_warning c name,
              pr_resources_affected := pr_resources_affected p
                @ (if seen_function c name = Missing then [] else [name])\<rparr>,
            snd (get_function_config name c))"
proof (cases "seen_function c name")
  case Missing
  then show ?thesis by (simp add: stop_function_missing stop_warning_def)
next
  case (Found conc)
  with assms have "conc = Some 0 \<or> dry" by (simp add: settled_def)
  with Found show ?thesis by (simp add: stop_function_settled_found stop_warning_def)
next
  case Failing
  with assms show ?thesis by (simp add: settled_def)
qed

lemma stop_function_only_stopped:
  "only_stopped c (snd (stop_function dry name p c))"
proof -
  obtain r c1 where g: "get_function_config name c = (r, c1)"
    by (cases "get_function_config name c")
  then have q: "quiet c c1" using get_function_config_quiet [of c name] by simp
  then have u: "only_stopped c c1" by (simp add: quiet_unchanged unchanged_only_stopped)
  show ?thesis
  proof (cases "seen_function c name")
    case Missing
    then show ?thesis using u g by (simp add: stop_function_missing)
  next
    case (Found conc)
    then have r: "r = Inr (Some conc)" using get_function_config_found [of c name conc] g by simp
    from Found obtain x where "lambda_functions c name = Some x" by (auto simp: seen_found)
    then have "lambda_functions c1 name = Some x"
      using q by (simp add: quiet_def unchanged_def)
    then have "only_stopped c1 (snd (put_function_concurrency name 0 c1))"
      by (rule put_function_concurrency_found(1))
    then have "only_stopped c (snd (put_function_concurrency name 0 c1))"
      using u by (blast intro: only_stopped_trans)
    then show ?thesis
      using g r u
      by (auto simp: stop_function_def split: prod.splits sum.splits)
  next
    case Failing
    then have "isl r" using get_function_config_failing [of c name] g by simp
    then show ?thesis
      using g u by (auto simp: stop_function_def isl_def)
  qed
qed

lemma stop_function_errors:
  "\<exists>more. pr_errors (fst (stop_function dry name p c)) = pr_errors p @ more"
  by (auto simp: stop_function_def split: prod.splits sum.splits option.splits)

lemma stop_function_clean:
  assumes "pr_errors (fst (stop_function dry name p c)) = []" and "dry \<or> reports_concurrency c"
  shows "settled dry (snd (stop_function dry name p c)) name"
    and "pr_resources_affected (fst (stop_function dry name p c))
           = pr_resources_affected p @ (if seen_function c name = Missing then [] else [name])"
proof -
  obtain r c1 where g: "get_function_config name c = (r, c1)"
    by (cases "get_function_config name c")
  then have q: "quiet c c1" using get_function_config_quiet [of c name] by simp
  then have s1: "seen_function c1 n = seen_function c n" for n
    by (simp add: quiet_unchanged seen_function_unchanged)
  have "settled dry (snd (stop_function dry name p c)) name
      \<and> pr_resources_affected (fst (stop_function dry name p c))
           = pr_resources_affected p @ (if seen_function c name = Missing then [] else [name])"
  proof (cases "seen_function c name")
    case Missing
    then show ?thesis using g s1 [of name] by (simp add: stop_function_missing settled_def)
  next
    case (Found conc)
    then have r: "r = Inr (Some conc)" using get_function_config_found [of c name conc] g by simp
    show ?thesis
    proof (cases "conc = Some 0 \<or> dry")
      case True
      then show ?thesis
        using Found g s1 [of name] by (auto simp: stop_function_settled_found settled_def)
    next
      case False
      from False assms(2) have rc: "reports_concurrency c" by simp
      then have rc1: "reports_concurrency c1"
        using q by (simp add: quiet_def unchanged_def)
      from Found have "seen_function c1 name = Found conc" by (simp add: s1)
      then obtain x where f1: "get_fault c1 name = None" "lambda_functions c1 name = Some x"
        by (auto simp: seen_found)
      obtain r2 c2 where pt: "put_function_concurrency name 0 c1 = (r2, c2)"
        by (cases "put_function_concurrency name 0 c1")
      have st: "stop_function dry name p c =
          (case r2 of
             Inr u \<Rightarrow> p\<lparr>pr_resources_affected := pr_resources_affected p @ [name]\<rparr>
           | Inl e \<Rightarrow> p\<lparr>pr_errors := pr_errors p @ [name @ '': ''
                         @ (if isinstance e ClientError then response_message e else exn_str e)]\<rparr>,
           c2)"
        using g r False pt by (auto simp: stop_function_def split: sum.splits)
      with assms(1) have nr: "\<not> isl r2" by (auto split: sum.splits)
      then have "lambda_functions c2 name = Some (Some 0)"
        using put_function_concurrency_found(2) [OF f1(2)] pt by simp
      moreover have "get_fault c2 name = None" "reports_concurrency c2"
        using put_function_concurrency_found(1) [OF f1(2)] pt f1(1) rc1
        by (simp_all add: only_stopped_def)
      ultimately have "seen_function c2 name = Found (Some 0)" by (simp add: seen_found)
      then show ?thesis
        using st nr Found by (auto simp: settled_def split: sum.splits)
    qed
  next
    case Failing
    then have "isl r" using get_function_config_failing [of c name] g by simp
    then have False
      using g assms(1) by (auto simp: stop_function_def isl_def)
    then show ?thesis ..
  qed
  then show "settled dry (snd (stop_function dry name p c)) name"
    and "pr_resources_affected (fst (stop_function dry name p c))
           = pr_resources_affected p @ (if seen_function c name = Missing then [] else [name])"
    by simp_all
qed


lemma stop_functions_errors:
  "\<exists>more. pr_errors (fst (stop_functions dry names p c)) = pr_errors p @ more"
proof (induction names arbitrary: p c)
  case Nil
  show ?case by simp
next
  case (Cons n rest)
  obtain p1 c1 where s: "stop_function dry n p c = (p1, c1)" by (cases "stop_function dry n p c")
  obtain m1 where "pr_errors p1 = pr_errors p @ m1"
    using stop_function_errors [of dry n p c] s by auto
  moreover obtain m2 where "pr_errors (fst (stop_functions dry rest p1 c1)) = pr_errors p1 @ m2"
    using Cons.IH [of p1 c1] by auto
  ultimately show ?case using s by simp
qed

lemma stop_functions_only_stopped:
  "only_stopped c (snd (stop_functions dry names p c))"
proof (induction names arbitrary: p c)
  case Nil
  show ?case by (simp add: unchanged_only_stopped)
next
  case (Cons n rest)
  obtain p1 c1 where s: "stop_function dry n p c = (p1, c1)" by (cases "stop_function dry n p c")
  then have "only_stopped c c1" using stop_function_only_stopped [of c dry n p] by simp
  moreover have "only_stopped c1 (snd (stop_functions dry rest p1 c1))" by (rule Cons.IH)
  ultimately show ?case using s by (auto intro: only_stopped_trans)
qed

lemma stop_functions_clean:
  assumes "pr_errors (fst (stop_functions dry names p c)) = []" and "dry \<or> reports_concurrency c"
  shows "(\<forall>n\<in>set names. settled dry (snd (stop_functions dry names p c)) n)
       \<and> pr_resources_affected (fst (stop_functions dry names p c))
           = pr_resources_affected p @ filter (\<lambda>n. seen_function c n \<noteq> Missing) names"
  using assms
proof (induction names arbitrary: p c)
  case Nil
  show ?case by simp
next
  case (Cons n rest)
  obtain p1 c1 where s: "stop_function dry n p c = (p1, c1)" by (cases "stop_function dry n p c")
  let ?p' = "fst (stop_functions dry rest p1 c1)" and ?c' = "snd (stop_functions dry rest p1 c1)"
  from Cons.prems(1) s have e': "pr_errors ?p' = []" by simp
  then have e1: "pr_errors p1 = []" using stop_functions_errors [of dry rest p1 c1] by auto
  then have e1': "pr_errors (fst (stop_function dry n p c)) = []" using s by simp
  have set1: "settled dry c1 n"
    and aff1: "pr_resources_affected p1
                 = pr_resources_affected p @ (if seen_function c n = Missing then [] else [n])"
    using stop_function_clean [OF e1' Cons.prems(2)] s by simp_all
  have os: "only_stopped c c1" using stop_function_only_stopped [of c dry n p] s by simp
  then have rc1: "dry \<or> reports_concurrency c1"
    using Cons.prems(2) by (simp add: only_stopped_def)
  have os': "only_stopped c1 ?c'" by (rule stop_functions_only_stopped)
  have ih: "(\<forall>m\<in>set rest. settled dry ?c' m)
       \<and> pr_resources_affected ?p'
           = pr_resources_affected p1 @ filter (\<lambda>n. seen_function c1 n \<noteq> Missing) rest"
    using Cons.IH [OF e' rc1] .
  have "filter (\<lambda>n. seen_function c1 n \<noteq> Missing) rest = filter (\<lambda>n. seen_function c n \<noteq> Missing) rest"
    using only_stopped_missing [OF os] by simp
  moreover have "settled dry ?c' n" using only_stopped_settled [OF os' set1] .
  ultimately show ?case using ih aff1 s by simp
qed

lemma settled_unchanged: "unchanged c c' \<Longrightarrow> settled dry c' n = settled dry c n"
  by (simp add: settled_def seen_function_unchanged)

lemma stop_warning_unchanged: "unchanged c c' \<Longrightarrow> stop_warning c' n = stop_warning c n"
  by (simp add: stop_warning_def seen_function_unchanged)

lemma stop_functions_settled:
  assumes "\<forall>n\<in>set names. settled dry c n"
  shows "quiet c (snd (stop_functions dry names p c))
       \<and> fst (stop_functions dry names p c)
           = p\<lparr>pr_warnings := pr_warnings p @ concat (map (stop_warning c) names),
               pr_resources_affected := pr_resources_affected p
                 @ filter (\<lambda>n. seen_function c n \<noteq> Missing) names\<rparr>"
  using assms
proof (induction names arbitrary: p c)
  case Nil
  show ?case by simp
next
  case (Cons n rest)
  let ?c1 = "snd (get_function_config n c)"
  let ?p1 = "p\<lparr>pr_warnings := pr_warnings p @ stop_warning c n,
              pr_resources_affected := pr_resources_affected p
                @ (if seen_function c n = Missing then [] else [n])\<rparr>"
  from Cons.prems have "settled dry c n" by simp
  then have s: "stop_function dry n p c = (?p1, ?c1)" by (rule stop_function_settled)
  have q: "quiet c ?c1" by (rule get_function_config_quiet)
  then have u: "unchanged c ?c1" by (rule quiet_unchanged)
  have "\<forall>m\<in>set rest. settled dry ?c1 m"
    using Cons.prems by (simp add: settled_unchanged [OF u])
  then have ih: "quiet ?c1 (snd (stop_functions dry rest ?p1 ?c1))
       \<and> fst (stop_functions dry rest ?p1 ?c1)
           = ?p1\<lparr>pr_warnings := pr_warnings ?p1 @ concat (map (stop_warning ?c1) rest),
               pr_resources_affected := pr_resources_affected ?p1
                 @ filter (\<lambda>n. seen_function ?c1 n \<noteq> Missing) rest\<rparr>"
    by (rule Cons.IH)
  have w: "map (stop_warning ?c1) rest = map (stop_warning c) rest"
    by (simp add: stop_warning_unchanged [OF u])
  have f: "filter (\<lambda>n. seen_function ?c1 n \<noteq> Missing) rest
         = filter (\<lambda>n. seen_function c n \<noteq> Missing) rest"
    by (simp add: seen_function_unchanged [OF u])
  from ih q have "quiet c (snd (stop_functions dry rest ?p1 ?c1))"
    by (blast intro: quiet_trans)
  moreover have "fst (stop_functions dry rest ?p1 ?c1)
           = p\<lparr>pr_warnings := pr_warnings p @ concat (map (stop_warning c) (n # rest)),
               pr_resources_affected := pr_resources_affected p
                 @ filter (\<lambda>n. seen_function c n \<noteq> Missing) (n # rest)\<rparr>"
    using ih unfolding w f by simp
  ultimately show ?case using s by simp
qed


lemma lambda_stop_unfold:
  "lambda_stop m ov c =
     (Inr (Some (projr (fst (lambda_stop_body m ov c)))), snd (lambda_stop_body m ov c))"
proof -
  have "lambda_stop_body m ov c
      = (Inr (projr (fst (lambda_stop_body m ov c))), snd (lambda_stop_body m ov c))"
    by (simp add: lambda_stop_body_def Let_def split: prod.splits)
  then show ?thesis
    unfolding lambda_stop_def by (rule decorated_returns)
qed

lemma lambda_stop_fields:
  fixes m ov c
  defines "dry \<equiv> (case ov of Some b \<Rightarrow> b | None \<Rightarrow> lm_dry_run m)"
  defines "p \<equiv> fst (stop_functions dry (function_names m)
                      \<lparr>pr_resources_affected = [], pr_errors = [], pr_warnings = []\<rparr> c)"
  shows "no_errors (fst (lambda_stop m ov c)) \<longleftrightarrow> pr_errors p = []"
    and "succeeded (fst (lambda_stop m ov c)) \<longleftrightarrow> pr_errors p = [] \<and> pr_resources_affected p \<noteq> []"
    and "affected (fst (lambda_stop m ov c)) = pr_resources_affected p"
    and "warned (fst (lambda_stop m ov c)) = pr_warnings p"
    and "snd (lambda_stop m ov c)
           = snd (stop_functions dry (function_names m)
                    \<lparr>pr_resources_affected = [], pr_errors = [], pr_warnings = []\<rparr> c)"
  unfolding lambda_stop_unfold p_def dry_def
  by (simp_all add: lambda_stop_body_def no_errors_def succeeded_def affected_def warned_def
        Let_def split: prod.splits)

lemma lambda_stop_twice:
  fixes m ov c
  defines "dry \<equiv> (case ov of Some b \<Rightarrow> b | None \<Rightarrow> lm_dry_run m)"
  assumes t: "twice (lambda_stop m ov) c = (first, c1, second, c2)" and s: "succeeded first"
    and rc: "dry \<or> reports_concurrency c"
  shows "no_errors second" and "succeeded second"
    and "affected second = filter (\<lambda>n. seen_function c1 n \<noteq> Missing) (function_names m)"
    and "warned second = concat (map (stop_warning c1) (function_names m))"
    and "quiet c1 c2"
    and "\<forall>n\<in>set (function_names m). settled dry c1 n"
proof -
  let ?p0 = "\<lparr>pr_resources_affected = [], pr_errors = [], pr_warnings = []\<rparr>"
  let ?names = "function_names m"
  from t have first: "first = fst (lambda_stop m ov c)" and c1: "c1 = snd (lambda_stop m ov c)"
    and second: "second = fst (lambda_stop m ov c1)" and c2: "c2 = snd (lambda_stop m ov c1)"
    by (auto simp: twice_def split: prod.splits)
  let ?p1 = "fst (stop_functions dry ?names ?p0 c)"
  have c1': "c1 = snd (stop_functions dry ?names ?p0 c)"
    unfolding c1 dry_def by (rule lambda_stop_fields(5))
  from s have e1: "pr_errors ?p1 = []" and a1: "pr_resources_affected ?p1 \<noteq> []"
    unfolding first dry_def lambda_stop_fields(2) by simp_all
  from stop_functions_clean [OF e1 rc]
  have settled: "\<forall>n\<in>set ?names. settled dry c1 n"
    and aff1: "pr_resources_affected ?p1 = filter (\<lambda>n. seen_function c n \<noteq> Missing) ?names"
    unfolding c1' by simp_all
  have "only_stopped c c1" unfolding c1' by (rule stop_functions_only_stopped)
  then have same: "filter (\<lambda>n. seen_function c1 n \<noteq> Missing) ?names
                 = filter (\<lambda>n. seen_function c n \<noteq> Missing) ?names"
    by (simp add: only_stopped_missing)
  let ?p2 = "fst (stop_functions dry ?names ?p0 c1)"
  from stop_functions_settled [OF settled, of ?p0]
  have q: "quiet c1 (snd (stop_functions dry ?names ?p0 c1))"
    and p2: "?p2 = ?p0\<lparr>pr_warnings := pr_warnings ?p0 @ concat (map (stop_warning c1) ?names),
               pr_resources_affected := pr_resources_affected ?p0
                 @ filter (\<lambda>n. seen_function c1 n \<noteq> Missing) ?names\<rparr>"
    by simp_all
  show "no_errors second"
    unfolding second dry_def lambda_stop_fields(1) using p2 unfolding dry_def by simp
  show "succeeded second"
    unfolding second dry_def lambda_stop_fields(2) using p2 a1 aff1 same unfolding dry_def by simp
  show "affected second = filter (\<lambda>n. seen_function c1 n \<noteq> Missing) ?names"
    unfolding second dry_def lambda_stop_fields(3) using p2 unfolding dry_def by simp
  show "warned second = concat (map (stop_warning c1) ?names)"
    unfolding second dry_def lambda_stop_fields(4) using p2 unfolding dry_def by simp
  show "quiet c1 c2"
    unfolding c2 dry_def lambda_stop_fields(5) using q unfolding dry_def by simp
  show "\<forall>n\<in>set ?names. settled dry c1 n" by (rule settled)
qed


subsection \<open>The stream\<close>

lemma describe_stream_body_quiet: "quiet c (snd (describe_stream_body m c))"
  using describe_stream_quiet [of c "km_stream_name m"]
  by (auto simp: describe_stream_body_def split: prod.splits sum.splits)

lemma describe_stream_body_seen:
  "seen_stream c (km_stream_name m) = Some info \<Longrightarrow> fst (describe_stream_body m c) = Inr info"
  "seen_stream c (km_stream_name m) = None \<Longrightarrow> isl (fst (describe_stream_body m c))"
  by (auto simp: describe_stream_body_def describe_stream_def seen_stream_def Let_def
           split: prod.splits sum.splits option.splits if_splits)

lemma describe_stream_info_quiet: "quiet c (snd (describe_stream_info m c))"
  unfolding describe_stream_info_def
  by (rule decorated_invariant [where P = "quiet c"])
     (auto intro: quiet_trans describe_stream_body_quiet)

lemma describe_stream_info_some:
  assumes "seen_stream c (km_stream_name m) = Some info"
  shows "fst (describe_stream_info m c) = Inr (Some info)"
proof -
  obtain c' where "describe_stream_body m c = (Inr info, c')"
    using describe_stream_body_seen(1) [OF assms]
    by (cases "describe_stream_body m c") simp
  then show ?thesis
    by (simp add: describe_stream_info_def decorated_returns)
qed

lemma describe_stream_info_none:
  assumes "seen_stream c (km_stream_name m) = None"
  shows "isl (fst (describe_stream_info m c))"
  unfolding describe_stream_info_def
proof (rule decorated_fails [where P = "\<lambda>w. seen_stream w (km_stream_name m) = None"])
  fix w assume w: "seen_stream w (km_stream_name m) = None"
  have "seen_stream (snd (describe_stream_body m w)) (km_stream_name m)
          = seen_stream w (km_stream_name m)"
    by (rule seen_stream_unchanged) (rule quiet_unchanged, rule describe_stream_body_quiet)
  with w show "isl (fst (describe_stream_body m w))
        \<and> seen_stream (snd (describe_stream_body m w)) (km_stream_name m) = None"
    by (simp add: describe_stream_body_seen(2))
qed (rule assms)

lemma stop_fails_unchanged:
  assumes "unchanged c c'"
  shows "stop_fails m dry c' = stop_fails m dry c"
proof -
  from assms have "update_fault c' = update_fault c" by (simp add: unchanged_def)
  then show ?thesis
    by (simp add: stop_fails_def seen_stream_unchanged [OF assms] split: option.splits)
qed

lemma update_shard_count_fails:
  assumes "update_fault c = Some e"
  shows "update_shard_count name 1 c = (Inl e, c\<lparr>calls := calls c @ [UpdateShardCount name 1]\<rparr>)"
  using assms by (simp add: update_shard_count_def)

lemma update_shard_count_works:
  assumes "streams c name = Some info" and "update_fault c = None"
  shows "update_shard_count name 1 c
         = (Inr (), c\<lparr>calls := calls c @ [UpdateShardCount name 1],
                       streams := (streams c)(name \<mapsto> info\<lparr>shard_count := 1\<rparr>)\<rparr>)"
  using assms by (simp add: update_shard_count_def)

lemma seen_stream_some:
  "seen_stream c name = Some info \<longleftrightarrow> describe_fault c = None \<and> streams c name = Some info"
  by (auto simp: seen_stream_def split: option.splits)

lemma kinesis_stop_body_failing:
  fixes m ov
  defines "dry \<equiv> (case ov of Some b \<Rightarrow> b | None \<Rightarrow> km_dry_run m)"
  assumes "stop_fails m dry c"
  shows "isl (fst (kinesis_stop_body m ov c)) \<and> unchanged c (snd (kinesis_stop_body m ov c))"
proof -
  obtain r c1 where d: "describe_stream_info m c = (r, c1)" by (cases "describe_stream_info m c")
  then have q: "quiet c c1" using describe_stream_info_quiet [of c m] by simp
  then have u: "unchanged c c1" by (rule quiet_unchanged)
  show ?thesis
  proof (cases "seen_stream c (km_stream_name m)")
    case None
    then have "isl r" using describe_stream_info_none [of c m] d by simp
    then obtain e where r: "r = Inl e" by (cases r) simp_all
    have "kinesis_stop_body m ov c = (Inl (stop_failed m e), c1)"
      by (simp add: kinesis_stop_body_def d r)
    with u show ?thesis by simp
  next
    case (Some info)
    then have r: "r = Inr (Some info)" using describe_stream_info_some [of c m info] d by simp
    from Some assms(2) have f: "\<not> shard_count info \<le> 1" "\<not> dry" "update_fault c \<noteq> None"
      by (simp_all add: stop_fails_def)
    then obtain e where "update_fault c = Some e" by auto
    with u have "update_fault c1 = Some e" by (simp add: unchanged_def)
    then have up: "update_shard_count (km_stream_name m) 1 c1
        = (Inl e, c1\<lparr>calls := calls c1 @ [UpdateShardCount (km_stream_name m) 1]\<rparr>)"
      by (rule update_shard_count_fails)
    have "kinesis_stop_body m ov c
        = (Inl (stop_failed m e), c1\<lparr>calls := calls c1 @ [UpdateShardCount (km_stream_name m) 1]\<rparr>)"
      using f(1,2) unfolding dry_def
      by (simp add: kinesis_stop_body_def d r up MINIMAL_SHARD_COUNT_def Let_def)
    moreover have "unchanged c (c1\<lparr>calls := calls c1 @ [UpdateShardCount (km_stream_name m) 1]\<rparr>)"
      using u by (simp add: unchanged_def)
    ultimately show ?thesis by simp
  qed
qed


lemma kinesis_stop_body_settled:
  fixes m ov
  defines "dry \<equiv> (case ov of Some b \<Rightarrow> b | None \<Rightarrow> km_dry_run m)"
  assumes "seen_stream c (km_stream_name m) = Some info" and "shard_count info \<le> 1 \<or> dry"
  shows "\<exists>res c'. kinesis_stop_body m ov c = (Inr res, c') \<and> quiet c c'
           \<and> sr_success res \<and> sr_errors res = [] \<and> sr_resources_affected res = [km_stream_name m]
           \<and> sr_warnings res = (if shard_count info \<le> 1
                 then [''Stream already at minimal shard count: '' @ str_int (shard_count info)]
                 else [])"
proof -
  obtain r c1 where d: "describe_stream_info m c = (r, c1)" by (cases "describe_stream_info m c")
  then have q: "quiet c c1" using describe_stream_info_quiet [of c m] by simp
  have r: "r = Inr (Some info)" using describe_stream_info_some [OF assms(2)] d by simp
  show ?thesis
  proof (cases "shard_count info \<le> 1")
    case True
    then show ?thesis
      using q by (simp add: kinesis_stop_body_def d r MINIMAL_SHARD_COUNT_def Let_def)
  next
    case False
    with assms(3) have "dry" by simp
    then show ?thesis
      using q False unfolding dry_def
      by (simp add: kinesis_stop_body_def d r MINIMAL_SHARD_COUNT_def Let_def)
  qed
qed

lemma kinesis_stop_body_passing:
  fixes m ov
  defines "dry \<equiv> (case ov of Some b \<Rightarrow> b | None \<Rightarrow> km_dry_run m)"
  assumes "\<not> stop_fails m dry c"
  shows "\<exists>res c' info. kinesis_stop_body m ov c = (Inr res, c')
           \<and> seen_stream c' (km_stream_name m) = Some info \<and> (shard_count info \<le> 1 \<or> dry)"
proof -
  obtain r c1 where d: "describe_stream_info m c = (r, c1)" by (cases "describe_stream_info m c")
  then have q: "quiet c c1" using describe_stream_info_quiet [of c m] by simp
  then have u: "unchanged c c1" by (rule quiet_unchanged)
  from assms(2) obtain info where seen: "seen_stream c (km_stream_name m) = Some info"
    and ok: "shard_count info \<le> 1 \<or> dry \<or> update_fault c = None"
    by (auto simp: stop_fails_def split: option.splits)
  have r: "r = Inr (Some info)" using describe_stream_info_some [OF seen] d by simp
  have seen1: "seen_stream c1 (km_stream_name m) = Some info"
    using seen by (simp add: seen_stream_unchanged [OF u])
  show ?thesis
  proof (cases "shard_count info \<le> 1 \<or> dry")
    case True
    from kinesis_stop_body_settled [OF seen True [unfolded dry_def]]
    obtain res c' where b: "kinesis_stop_body m ov c = (Inr res, c')" and q': "quiet c c'"
      by blast
    have "seen_stream c' (km_stream_name m) = Some info"
      using seen by (simp add: seen_stream_unchanged [OF quiet_unchanged [OF q']])
    with b True show ?thesis by blast
  next
    case False
    with ok have uf: "update_fault c = None" by simp
    from seen1 have st1: "streams c1 (km_stream_name m) = Some info" and df1: "describe_fault c1 = None"
      by (simp_all add: seen_stream_some)
    from u uf have uf1: "update_fault c1 = None" by (simp add: unchanged_def)
    let ?c2 = "c1\<lparr>calls := calls c1 @ [UpdateShardCount (km_stream_name m) 1],
                 streams := (streams c1)(km_stream_name m \<mapsto> info\<lparr>shard_count := 1\<rparr>)\<rparr>"
    have up: "update_shard_count (km_stream_name m) 1 c1 = (Inr (), ?c2)"
      using st1 uf1 by (rule update_shard_count_works)
    have "\<exists>res. kinesis_stop_body m ov c = (Inr res, ?c2)"
      using False unfolding dry_def
      by (simp add: kinesis_stop_body_def d r up MINIMAL_SHARD_COUNT_def Let_def)
    moreover have "seen_stream ?c2 (km_stream_name m) = Some (info\<lparr>shard_count := 1\<rparr>)"
      using df1 by (simp add: seen_stream_some)
    moreover have "shard_count (info\<lparr>shard_count := 1\<rparr>) \<le> 1" by simp
    ultimately show ?thesis by blast
  qed
qed

lemma kinesis_stop_failing:
  fixes m ov
  defines "dry \<equiv> (case ov of Some b \<Rightarrow> b | None \<Rightarrow> km_dry_run m)"
  assumes "stop_fails m dry c"
  shows "isl (fst (kinesis_stop m ov c))"
  unfolding kinesis_stop_def
proof (rule decorated_fails [where P = "\<lambda>w. unchanged c w"])
  fix w assume w: "unchanged c w"
  then have "stop_fails m dry w" using assms(2) by (simp add: stop_fails_unchanged)
  then have "isl (fst (kinesis_stop_body m ov w)) \<and> unchanged w (snd (kinesis_stop_body m ov w))"
    unfolding dry_def by (rule kinesis_stop_body_failing)
  with w show "isl (fst (kinesis_stop_body m ov w)) \<and> unchanged c (snd (kinesis_stop_body m ov w))"
    by (blast intro: unchanged_trans)
qed simp

lemma kinesis_stop_twice:
  fixes m ov c
  defines "dry \<equiv> (case ov of Some b \<Rightarrow> b | None \<Rightarrow> km_dry_run m)"
  assumes t: "twice (kinesis_stop m ov) c = (first, c1, second, c2)" and s: "succeeded first"
  shows "\<exists>info. seen_stream c1 (km_stream_name m) = Some info
    \<and> (shard_count info \<le> 1 \<or> dry)
    \<and> no_errors second \<and> succeeded second
    \<and> affected second = [km_stream_name m]
    \<and> warned second = (if shard_count info \<le> 1
                 then [''Stream already at minimal shard count: '' @ str_int (shard_count info)]
                 else [])
    \<and> quiet c1 c2"
proof -
  from t have first: "first = fst (kinesis_stop m ov c)" and c1: "c1 = snd (kinesis_stop m ov c)"
    and second: "kinesis_stop m ov c1 = (second, c2)"
    by (auto simp: twice_def split: prod.splits)
  from s have "\<not> isl first" by (auto simp: succeeded_def split: sum.splits)
  then have "\<not> stop_fails m dry c"
    unfolding first dry_def using kinesis_stop_failing [of m ov c] by blast
  from kinesis_stop_body_passing [OF this [unfolded dry_def]]
  obtain res c' info where b: "kinesis_stop_body m ov c = (Inr res, c')"
    and seen: "seen_stream c' (km_stream_name m) = Some info" and ok: "shard_count info \<le> 1 \<or> dry"
    unfolding dry_def by blast
  have "kinesis_stop m ov c = (Inr (Some res), c')"
    unfolding kinesis_stop_def using b by (rule decorated_returns)
  then have c1': "c' = c1" using c1 by simp
  from kinesis_stop_body_settled [OF seen [unfolded c1'] ok [unfolded dry_def]]
  obtain res2 c2' where b2: "kinesis_stop_body m ov c1 = (Inr res2, c2')" and q: "quiet c1 c2'"
    and f: "sr_success res2" "sr_errors res2 = []" "sr_resources_affected res2 = [km_stream_name m]"
      "sr_warnings res2 = (if shard_count info \<le> 1
                 then [''Stream already at minimal shard count: '' @ str_int (shard_count info)]
                 else [])"
    by blast
  have "kinesis_stop m ov c1 = (Inr (Some res2), c2')"
    unfolding kinesis_stop_def using b2 by (rule decorated_returns)
  with second have sec: "second = Inr (Some res2)" and c2: "c2 = c2'" by simp_all
  show ?thesis
    using seen [unfolded c1'] ok f q
    by (auto simp: sec c2 no_errors_def succeeded_def affected_def warned_def)
qed


lemma probe_functions_distinct:
  assumes "probe_functions p e funcs names c = (Inr out, c')"
    and "distinct names"
    and "\<forall>f\<in>set funcs. with_prefix p e f \<notin> set names \<and> f \<notin> set names"
    and "distinct funcs" and "distinct (map (with_prefix p e) funcs)"
    and "\<forall>f\<in>set funcs. \<forall>g\<in>set funcs. f \<noteq> g \<longrightarrow> with_prefix p e f \<noteq> g"
  shows "distinct out"
  using assms
proof (induction funcs arbitrary: names c)
  case Nil
  then show ?case by simp
next
  case (Cons f rest)
  have rest: "distinct rest" "distinct (map (with_prefix p e) rest)"
    "\<forall>a\<in>set rest. \<forall>b\<in>set rest. a \<noteq> b \<longrightarrow> with_prefix p e a \<noteq> b"
    using Cons.prems(4,5,6) by simp_all
  have fresh: "\<forall>g\<in>set rest. with_prefix p e g \<notin> set names \<and> g \<notin> set names"
    using Cons.prems(3) by simp
  have new1: "\<forall>g\<in>set rest. with_prefix p e g \<notin> set (names @ [with_prefix p e f])
                \<and> g \<notin> set (names @ [with_prefix p e f])"
    using Cons.prems(3,4,5,6) by (auto simp: image_iff)
  have new2: "\<forall>g\<in>set rest. with_prefix p e g \<notin> set (names @ [f]) \<and> g \<notin> set (names @ [f])"
    using Cons.prems(3,4,5,6) by (auto simp: image_iff)
  have d1: "distinct (names @ [with_prefix p e f])" and d2: "distinct (names @ [f])"
    using Cons.prems(2,3) by simp_all
  note ih = Cons.IH [OF _ _ _ rest]
  from Cons.prems(1) show ?case
    using ih [OF _ d1 new1] ih [OF _ d2 new2] ih [OF _ Cons.prems(2) fresh]
    by (auto simp: Let_def split: prod.splits sum.splits if_splits)
qed

lemma target_names_apart:
  "with_prefix p e ''event_processor'' \<noteq> with_prefix p e ''intervention-executor''"
  "with_prefix p e ''event_processor'' \<noteq> ''intervention-executor''"
  "with_prefix p e ''intervention-executor'' \<noteq> ''event_processor''"
proof -
  show "with_prefix p e ''event_processor'' \<noteq> with_prefix p e ''intervention-executor''"
    by (simp add: with_prefix_def)
  have "CHR ''_'' \<in> set (with_prefix p e ''event_processor'')"
    by (simp add: with_prefix_def)
  moreover have "CHR ''_'' \<notin> set ''intervention-executor''" by simp
  ultimately show "with_prefix p e ''event_processor'' \<noteq> ''intervention-executor''" by metis
  have "CHR ''-'' \<in> set (with_prefix p e ''intervention-executor'')"
    by (simp add: with_prefix_def)
  moreover have "CHR ''-'' \<notin> set ''event_processor''" by simp
  ultimately show "with_prefix p e ''intervention-executor'' \<noteq> ''event_processor''" by metis
qed

lemma function_names_distinct:
  assumes "new_lambda_manager proj env dry c0 = (Inr m, c0')"
  shows "distinct (function_names m)"
proof -
  from assms obtain names where p: "probe_functions proj env TARGET_FUNCTIONS [] c0 = (Inr names, c0')"
    and m: "function_names m = names"
    by (auto simp: new_lambda_manager_def split: prod.splits sum.splits)
  have "distinct names"
    using p
  proof (rule probe_functions_distinct)
    show "\<forall>f\<in>set TARGET_FUNCTIONS. \<forall>g\<in>set TARGET_FUNCTIONS.
            f \<noteq> g \<longrightarrow> with_prefix proj env f \<noteq> g"
      using target_names_apart [of proj env] by (auto simp: TARGET_FUNCTIONS_def)
    show "distinct (map (with_prefix proj env) TARGET_FUNCTIONS)"
      using target_names_apart(1) [of proj env] by (simp add: TARGET_FUNCTIONS_def)
  qed (simp_all add: TARGET_FUNCTIONS_def)
  with m show ?thesis by simp
qed


lemma stop_warning_found:
  assumes "get_fault c name = None" and "lambda_functions c name = Some (Some 0)"
    and "reports_concurrency c"
  shows "stop_warning c name = [name @ '': already stopped'']"
  using assms by (simp add: stop_warning_def seen_function_def)

lemma settled_not_dry:
  assumes "settled False c name" and "seen_function c name \<noteq> Missing"
  shows "stop_warning c name = [name @ '': already stopped'']"
  using assms by (cases "seen_function c name") (simp_all add: settled_def stop_warning_def)

text \<open>
  Claim C7, amended.  Take a Lambda manager as its constructor builds it, and a first
  call of its \<^verbatim>\<open>stop\<close> that succeeds, in a cloud whose configuration responses carry the
  reserved concurrency (or in dry-run mode).  Then the next call of \<^verbatim>\<open>stop\<close> reports no
  error and success; it warns \<^verbatim>\<open>already stopped\<close> for every function it sees with a
  reserved concurrency of 0, which with dry-run off is every function it lists as
  affected; no function is listed twice; and it issues no mutating operation and leaves
  the cloud as it was.  Likewise for the Kinesis manager: after a first \<^verbatim>\<open>stop\<close> that
  returned, the next call returns success without errors, lists the stream once, warns
  that the stream is already at its minimal shard count when it is (with dry-run off it
  always is), and issues no mutating operation.
\<close>

theorem stop_twice:
  "(new_lambda_manager proj env dry c0 = (Inr m, c0')
      \<and> twice (lambda_stop m ov) c = (first, c1, second, c2) \<and> succeeded first
      \<and> (reports_concurrency c \<or> (case ov of Some b \<Rightarrow> b | None \<Rightarrow> lm_dry_run m)) \<longrightarrow>
        no_errors second \<and> succeeded second
        \<and> (\<forall>name\<in>set (function_names m).
              get_fault c1 name = None \<and> lambda_functions c1 name = Some (Some 0)
              \<and> reports_concurrency c1 \<longrightarrow>
              name @ '': already stopped'' \<in> set (warned second))
        \<and> (\<not> (case ov of Some b \<Rightarrow> b | None \<Rightarrow> lm_dry_run m) \<longrightarrow>
              (\<forall>name\<in>set (affected second). name @ '': already stopped'' \<in> set (warned second)))
        \<and> distinct (affected second)
        \<and> filter mutating (issued c1 c2) = [] \<and> unchanged c1 c2)
   \<and> (twice (kinesis_stop k kov) kc = (kfirst, kc1, ksecond, kc2) \<and> succeeded kfirst \<longrightarrow>
        no_errors ksecond \<and> succeeded ksecond \<and> affected ksecond = [km_stream_name k]
        \<and> (\<exists>info. describe_fault kc1 = None \<and> streams kc1 (km_stream_name k) = Some info
              \<and> (shard_count info \<le> 1 \<or> (case kov of Some b \<Rightarrow> b | None \<Rightarrow> km_dry_run k))
              \<and> warned ksecond =
                  (if shard_count info \<le> 1
                   then [''Stream already at minimal shard count: '' @ str_int (shard_count info)]
                   else []))
        \<and> filter mutating (issued kc1 kc2) = [] \<and> unchanged kc1 kc2)"
proof (intro conjI impI)
  assume a: "new_lambda_manager proj env dry c0 = (Inr m, c0')
      \<and> twice (lambda_stop m ov) c = (first, c1, second, c2) \<and> succeeded first
      \<and> (reports_concurrency c \<or> (case ov of Some b \<Rightarrow> b | None \<Rightarrow> lm_dry_run m))"
  then have t: "twice (lambda_stop m ov) c = (first, c1, second, c2)" and s: "succeeded first"
    and n: "new_lambda_manager proj env dry c0 = (Inr m, c0')"
    and rc: "(case ov of Some b \<Rightarrow> b | None \<Rightarrow> lm_dry_run m) \<or> reports_concurrency c"
    by auto
  from n have d: "distinct (function_names m)" by (rule function_names_distinct)
  note l = lambda_stop_twice [OF t s rc]
  show "no_errors second" by (rule l(1))
  show "succeeded second" by (rule l(2))
  show "\<forall>name\<in>set (function_names m).
              get_fault c1 name = None \<and> lambda_functions c1 name = Some (Some 0)
              \<and> reports_concurrency c1 \<longrightarrow>
              name @ '': already stopped'' \<in> set (warned second)"
  proof (intro ballI impI)
    fix name
    assume n: "name \<in> set (function_names m)"
      and "get_fault c1 name = None \<and> lambda_functions c1 name = Some (Some 0)
              \<and> reports_concurrency c1"
    then have "stop_warning c1 name = [name @ '': already stopped'']"
      by (simp add: stop_warning_found)
    with n show "name @ '': already stopped'' \<in> set (warned second)"
      unfolding l(4) by force
  qed
  show "distinct (affected second)"
    unfolding l(3) using d by simp
  show "filter mutating (issued c1 c2) = []" using l(5) by (rule quiet_issued)
  show "unchanged c1 c2" using l(5) by (rule quiet_unchanged)
  assume nd: "\<not> (case ov of Some b \<Rightarrow> b | None \<Rightarrow> lm_dry_run m)"
  show "\<forall>name\<in>set (affected second). name @ '': already stopped'' \<in> set (warned second)"
  proof
    fix name assume "name \<in> set (affected second)"
    then have n: "name \<in> set (function_names m)" and f: "seen_function c1 name \<noteq> Missing"
      unfolding l(3) by simp_all
    from l(6) n nd have "settled False c1 name" by auto
    then have "stop_warning c1 name = [name @ '': already stopped'']"
      using f by (rule settled_not_dry)
    with n show "name @ '': already stopped'' \<in> set (warned second)"
      unfolding l(4) by force
  qed
next
  assume a: "twice (kinesis_stop k kov) kc = (kfirst, kc1, ksecond, kc2) \<and> succeeded kfirst"
  then have t: "twice (kinesis_stop k kov) kc = (kfirst, kc1, ksecond, kc2)" and s: "succeeded kfirst"
    by simp_all
  from kinesis_stop_twice [OF t s]
  obtain info where i: "seen_stream kc1 (km_stream_name k) = Some info"
    "shard_count info \<le> 1 \<or> (case kov of Some b \<Rightarrow> b | None \<Rightarrow> km_dry_run k)"
    "no_errors ksecond" "succeeded ksecond" "affected ksecond = [km_stream_name k]"
    "warned ksecond = (if shard_count info \<le> 1
                   then [''Stream already at minimal shard count: '' @ str_int (shard_count info)]
                   else [])"
    "quiet kc1 kc2"
    by blast
  show "no_errors ksecond" by (rule i(3))
  show "succeeded ksecond" by (rule i(4))
  show "affected ksecond = [km_stream_name k]" by (rule i(5))
  show "\<exists>info. describe_fault kc1 = None \<and> streams kc1 (km_stream_name k) = Some info
              \<and> (shard_count info \<le> 1 \<or> (case kov of Some b \<Rightarrow> b | None \<Rightarrow> km_dry_run k))
              \<and> warned ksecond =
                  (if shard_count info \<le> 1
                   then [''Stream already at minimal shard count: '' @ str_int (shard_count info)]
                   else [])"
    using i(1,2,6) unfolding seen_stream_some by blast
  show "filter mutating (issued kc1 kc2) = []" using i(7) by (rule quiet_issued)
  show "unchanged kc1 kc2" using i(7) by (rule quiet_unchanged)
qed


lemmas cloud_eval =
  get_function_config_def decorated_def retry_with_backoff_def retry_loop.simps [of 3]
  get_function_config_body_def get_function_configuration_def put_function_concurrency_def
  describe_stream_info_def describe_stream_body_def describe_stream_def update_shard_count_def
  not_found_def response_code_def response_message_def get_or_def isinstance_def issubclass_def
  isinstance_any_def default_exceptions_def aws_service_errors_def cost_management_errors_def
  Let_def

lemma sample_constructed:
  "fst (new_lambda_manager ''user-journey-analytics'' ''prod'' False sample_account) = Inr sample_manager"
  by (simp add: new_lambda_manager_def TARGET_FUNCTIONS_def with_prefix_def sample_account_def
        sample_manager_def cloud_eval)

lemma sample_first:
  "succeeded (first_result (lambda_stop sample_manager None) sample_account)"
  by (simp add: first_result_def twice_def lambda_stop_def lambda_stop_body_def stop_function_def
        sample_account_def sample_manager_def succeeded_def cloud_eval split: prod.splits)

lemmas stop_eval =
  first_result_def second_result_def second_calls_def issued_def twice_def lambda_stop_def lambda_stop_body_def
  stop_function_def kinesis_stop_def kinesis_stop_body_def stop_failed_def
  new_kinesis_manager_def stream_manager_def MINIMAL_SHARD_COUNT_def
  sample_account_def empty_account_def locked_account_def silent_account_def access_denied_def
  sample_manager_def bare_manager_def
  succeeded_def no_errors_def affected_def warned_def

lemma kinesis_first:
  "succeeded (first_result (kinesis_stop stream_manager None) sample_account)"
  by (simp add: stop_eval cloud_eval split: prod.splits)

theorem stop_twice_witness:
  "succeeded (first_result (lambda_stop sample_manager None) sample_account)
   \<and> no_errors (second_result (lambda_stop sample_manager None) sample_account)
   \<and> succeeded (second_result (lambda_stop sample_manager None) sample_account)
   \<and> distinct (affected (second_result (lambda_stop sample_manager None) sample_account))
   \<and> filter mutating (second_calls (lambda_stop sample_manager None) sample_account) = []
   \<and> succeeded (first_result (kinesis_stop stream_manager None) sample_account)
   \<and> no_errors (second_result (kinesis_stop stream_manager None) sample_account)
   \<and> succeeded (second_result (kinesis_stop stream_manager None) sample_account)
   \<and> affected (second_result (kinesis_stop stream_manager None) sample_account)
       = [''user-journey-analytics-user-events'']"
  using stop_twice
    [where proj = "''user-journey-analytics''" and env = "''prod''" and dry = False
       and ?c0.0 = sample_account and m = sample_manager
       and c0' = "snd (new_lambda_manager ''user-journey-analytics'' ''prod'' False sample_account)"
       and ov = None and c = sample_account
       and first = "first_result (lambda_stop sample_manager None) sample_account"
       and ?c1.0 = "fst (snd (twice (lambda_stop sample_manager None) sample_account))"
       and second = "second_result (lambda_stop sample_manager None) sample_account"
       and ?c2.0 = "snd (snd (snd (twice (lambda_stop sample_manager None) sample_account)))"
       and k = stream_manager and kov = None and kc = sample_account
       and kfirst = "first_result (kinesis_stop stream_manager None) sample_account"
       and ?kc1.0 = "fst (snd (twice (kinesis_stop stream_manager None) sample_account))"
       and ksecond = "second_result (kinesis_stop stream_manager None) sample_account"
       and ?kc2.0 = "snd (snd (snd (twice (kinesis_stop stream_manager None) sample_account)))"]
    sample_constructed sample_first kinesis_first
  by (simp add: first_result_def second_result_def second_calls_def prod_eq_iff sample_account_def
        split: prod.splits)
     (simp add: stream_manager_def new_kinesis_manager_def)

text \<open>
  The claim as stated fails without a successful first call, and without the reserved
  concurrency in the configuration response: a manager that found none of its functions
  reports no error and no success on both calls; a denied \<^verbatim>\<open>put_function_concurrency\<close>
  is an error on the second call as on the first; and when the response lacks the
  reserved concurrency the second call sets it again for every function and warns of
  nothing.
\<close>

theorem stop_twice_counterexample:
  "fst (new_lambda_manager ''user-journey-analytics'' ''prod'' False empty_account) = Inr bare_manager
   \<and> no_errors (second_result (lambda_stop bare_manager None) empty_account)
   \<and> \<not> succeeded (second_result (lambda_stop bare_manager None) empty_account)
   \<and> fst (new_lambda_manager ''user-journey-analytics'' ''prod'' False locked_account) = Inr sample_manager
   \<and> \<not> no_errors (second_result (lambda_stop sample_manager None) locked_account)
   \<and> \<not> succeeded (second_result (lambda_stop sample_manager None) locked_account)
   \<and> succeeded (first_result (lambda_stop sample_manager None) silent_account)
   \<and> warned (second_result (lambda_stop sample_manager None) silent_account) = []
   \<and> second_calls (lambda_stop sample_manager None) silent_account
       = [GetFunctionConfiguration ''user-journey-analytics-event_processor'',
          PutFunctionConcurrency ''user-journey-analytics-event_processor'' 0,
          GetFunctionConfiguration ''intervention-executor'',
          PutFunctionConcurrency ''intervention-executor'' 0]"
  by (simp add: new_lambda_manager_def TARGET_FUNCTIONS_def with_prefix_def stop_eval cloud_eval
        split: prod.splits)

end
